theory Spec2Isabelle
  imports Complex_Main "HOL-Library.Char_ord" "HOL-Library.List_Lexorder"
    "HOL-Library.Product_Lexorder"
begin

section \<open>Numbers, errors and tables\<close>

text \<open>
  The market model of \<^verbatim>\<open>nempy/markets.py\<close> keeps pandas tables in the dictionaries of a
  \<^verbatim>\<open>Spot\<close> object. Numbers that the caller or the solver supplies are reals here. A
  number that the program computes by a division, or sets to \<^verbatim>\<open>np.inf\<close>, is an
  \<open>npfloat\<close>: a real, an infinity or NaN, so that a division by zero is what numpy makes of
  it and not HOL's \<open>x / 0 = 0\<close>. Rounding and the sign of zero are not modelled.
\<close>

datatype npfloat = Fin real | PInf | NInf | NaN

fun np_abs :: "npfloat \<Rightarrow> npfloat" where
  "np_abs (Fin x) = Fin \<bar>x\<bar>"
| "np_abs PInf = PInf"
| "np_abs NInf = PInf"
| "np_abs NaN = NaN"

fun np_neg :: "npfloat \<Rightarrow> npfloat" where
  "np_neg (Fin x) = Fin (- x)"
| "np_neg PInf = NInf"
| "np_neg NInf = PInf"
| "np_neg NaN = NaN"

fun np_div :: "npfloat \<Rightarrow> npfloat \<Rightarrow> npfloat" where
  "np_div (Fin a) (Fin b) =
     (if b \<noteq> 0 then Fin (a / b)
      else if 0 < a then PInf else if a < 0 then NInf else NaN)"
| "np_div (Fin a) PInf = Fin 0"
| "np_div (Fin a) NInf = Fin 0"
| "np_div PInf (Fin b) = (if 0 \<le> b then PInf else NInf)"
| "np_div NInf (Fin b) = (if 0 \<le> b then NInf else PInf)"
| "np_div _ _ = NaN"

fun np_add :: "npfloat \<Rightarrow> npfloat \<Rightarrow> npfloat" where
  "np_add (Fin a) (Fin b) = Fin (a + b)"
| "np_add NaN _ = NaN"
| "np_add _ NaN = NaN"
| "np_add PInf NInf = NaN"
| "np_add NInf PInf = NaN"
| "np_add PInf _ = PInf"
| "np_add _ PInf = PInf"
| "np_add NInf _ = NInf"
| "np_add _ NInf = NInf"

text \<open>The order of the numbers that are not NaN, and the smaller of two of them.\<close>

fun np_le :: "npfloat \<Rightarrow> npfloat \<Rightarrow> bool" where
  "np_le NInf _ = True"
| "np_le _ PInf = True"
| "np_le (Fin a) (Fin b) = (a \<le> b)"
| "np_le _ _ = False"

definition np_min2 :: "npfloat \<Rightarrow> npfloat \<Rightarrow> npfloat" where
  "np_min2 a b = (if np_le a b then a else b)"

text \<open>
  The \<^verbatim>\<open>min\<close> of a pandas group skips NaN and is NaN when nothing else is left.
\<close>

definition np_min_skipna :: "npfloat list \<Rightarrow> npfloat" where
  "np_min_skipna xs =
     (case filter (\<lambda>x. x \<noteq> NaN) xs of [] \<Rightarrow> NaN | y # ys \<Rightarrow> fold np_min2 ys y)"

text \<open>
  The exceptions a call can end with. \<open>UnsupportedElasticityError\<close> is the name the
  specification gives; the others are Python's and those of the module \<^verbatim>\<open>check\<close>.
\<close>

datatype error =
    ValueError | KeyError | TypeError | AttributeError | UnboundLocalError
  | ModelBuildError | RepeatedRowError | ColumnDataTypeError | MissingColumnError
  | UnexpectedColumn | ColumnValues | BidsNotMonotonicIncreasing
  | UnsupportedElasticityError

type_synonym 'a raises = "error + 'a"

text \<open>Python's built-in \<^verbatim>\<open>max\<close> raises ValueError on an empty sequence.\<close>

fun py_max :: "nat list \<Rightarrow> nat raises" where
  "py_max [] = Inl ValueError"
| "py_max (x # xs) = Inr (fold max xs x)"

text \<open>
  \<^verbatim>\<open>Series.max()\<close> of pandas gives NaN on an empty column, here \<open>None\<close>.
\<close>

fun pd_max :: "nat list \<Rightarrow> nat option" where
  "pd_max [] = None"
| "pd_max (x # xs) = Some (fold max xs x)"

text \<open>
  \<^verbatim>\<open>pd.merge(left, right, on=key)\<close>: the inner join, in the order of the left rows.
\<close>

definition merge_on :: "('a \<Rightarrow> 'k) \<Rightarrow> ('b \<Rightarrow> 'k) \<Rightarrow> 'a list \<Rightarrow> 'b list \<Rightarrow> ('a \<times> 'b) list" where
  "merge_on ka kb xs ys = concat (map (\<lambda>x. map (Pair x) (filter (\<lambda>y. kb y = ka x) ys)) xs)"

text \<open>
  \<^verbatim>\<open>frame.groupby(key, as_index=False)\<close>: one group for every key of the frame, the keys in
  ascending order, every group holding its rows in the order of the frame.
\<close>

definition groupby :: "('r \<Rightarrow> 'k::linorder) \<Rightarrow> 'r list \<Rightarrow> ('k \<times> 'r list) list" where
  "groupby key rows = map (\<lambda>k. (k, filter (\<lambda>r. key r = k) rows)) (sort (remdups (map key rows)))"

text \<open>
  The relational type of a constraint: the strings \<^verbatim>\<open>'<='\<close>, \<^verbatim>\<open>'>='\<close> and \<^verbatim>\<open>'='\<close> of the column
  \<^verbatim>\<open>type\<close>.
\<close>

datatype relation = LE | GE | EQ

text \<open>
  A row of a decision variable table. The tags are the columns only some tables have;
  \<open>v_value\<close> is the column \<^verbatim>\<open>value\<close> that \<^verbatim>\<open>dispatch\<close> adds.
\<close>

record var_row =
  variable_id :: nat
  v_unit :: "string option"
  v_service :: "string option"
  v_capacity_band :: "string option"
  v_interconnector :: "string option"
  v_loss_segment :: "int option"
  v_break_point :: "real option"
  lower_bound :: real
  upper_bound :: npfloat
  v_type :: string
  v_value :: "real option"

text \<open>
  A row of a table of constraints (\<^verbatim>\<open>rhs_and_type\<close>); \<open>slack\<close> is the column that
  \<^verbatim>\<open>dispatch\<close> adds.
\<close>

record rhs_row =
  r_set :: "string option"
  r_unit :: "string option"
  r_service :: "string option"
  r_region :: "string option"
  r_interconnector :: "string option"
  constraint_id :: nat
  r_type :: relation
  rhs :: real
  slack :: "real option"

text \<open>A constraint whose right hand side is the value of a variable.\<close>

record dynamic_rhs_row =
  dr_interconnector :: string
  dr_constraint_id :: nat
  dr_type :: relation
  dr_rhs_variable_id :: nat

text \<open>
  A row of \<^verbatim>\<open>constraint_to_variable_map['unit_level'][...]\<close>: the constraint takes the
  variables of this unit and service with this coefficient.
\<close>

record cmap_row =
  c_constraint_id :: nat
  c_unit :: string
  c_service :: string
  coefficient :: npfloat

text \<open>
  A row of \<^verbatim>\<open>variable_to_constraint_map\<close>: the variable belongs to a unit (or region) and
  service.
\<close>

record vmap_row =
  m_variable_id :: nat
  m_key :: string
  m_service :: string
  m_coefficient :: real

record lhs_row =
  l_variable_id :: nat
  l_constraint_id :: nat
  l_coefficient :: real

record cost_row =
  o_variable_id :: nat
  o_unit :: "string option"
  o_service :: "string option"
  o_capacity_band :: "string option"
  cost :: npfloat

text \<open>
  The unit information, column by column: \<^verbatim>\<open>loss_factor\<close> and \<^verbatim>\<open>dispatch_type\<close> are
  optional columns of the frame.
\<close>

record unit_info =
  ui_unit :: "string list"
  ui_region :: "string list"
  ui_loss_factor :: "real list option"
  ui_dispatch_type :: "string list option"

text \<open>
  Bids: one row for a unit and service, with the bands it fills in (the columns
  \<^verbatim>\<open>'1'\<close> to \<^verbatim>\<open>'10'\<close>). A missing service column means energy.
\<close>

record bid_row =
  b_unit :: string
  b_service :: "string option"
  b_bands :: "(string \<times> real) list"

record trapezium =
  t_unit :: string
  t_service :: string
  max_availability :: real
  enablement_min :: real
  low_break_point :: real
  high_break_point :: real
  enablement_max :: real

record generic_row =
  g_set :: string
  g_type :: relation
  g_rhs :: real

text \<open>
  What \<^verbatim>\<open>make_constraints_elastic\<close> can be given as \<^verbatim>\<open>violation_cost\<close>: a string, a number
  (int or float), a bool, a frame with the columns \<^verbatim>\<open>set\<close> and \<^verbatim>\<open>cost\<close> or any other
  object. The frame has both columns with their types already, so the checks of the
  columns at lines 2014 to 2020 and 2025 pass.
\<close>

datatype violation_cost =
    Str string | Num real | Bool bool | Frame "(string \<times> real) list" | Other

text \<open>
  The local \<^verbatim>\<open>rhs_and_type\<close> of \<^verbatim>\<open>make_constraints_elastic\<close>: the constraints with or
  without the column \<^verbatim>\<open>cost\<close>.
\<close>

datatype costed = NoCostColumn "rhs_row list" | WithCost "(rhs_row \<times> real) list"

text \<open>The frame \<^verbatim>\<open>deficit_variables\<close> that \<^verbatim>\<open>create_deficit_variables\<close> returns.\<close>

record deficit_row =
  d_variable_id :: nat
  d_cost :: real
  d_lower_bound :: real
  d_upper_bound :: npfloat
  d_type :: string

section \<open>The market object\<close>

type_synonym rmap_row = "nat \<times> string \<times> string \<times> real"

record spot =
  dispatch_interval :: real
  market_ceiling_price :: real
  market_floor_price :: real
  unit_info :: "unit_info option"
  decision_variables :: "string \<rightharpoonup> var_row list"
  variable_to_constraint_map_regional :: "string \<rightharpoonup> vmap_row list"
  variable_to_constraint_map_unit_level :: "string \<rightharpoonup> vmap_row list"
  constraint_to_variable_map_regional :: "string \<rightharpoonup> rmap_row list"
  constraint_to_variable_map_unit_level :: "string \<rightharpoonup> cmap_row list"
  lhs_coefficients :: "string \<rightharpoonup> lhs_row list"
  generic_constraint_lhs_unit :: "(string \<times> string \<times> string \<times> real) list option"
  generic_constraint_lhs_region :: "(string \<times> string \<times> string \<times> real) list option"
  generic_constraint_lhs_interconnectors :: "(string \<times> string \<times> real) list option"
  constraints_rhs_and_type :: "string \<rightharpoonup> rhs_row list"
  constraints_dynamic_rhs_and_type :: "string \<rightharpoonup> dynamic_rhs_row list"
  market_constraints_rhs_and_type :: "string \<rightharpoonup> rhs_row list"
  objective_function_components :: "string \<rightharpoonup> cost_row list"
  interconnector_directions :: "(string \<times> string \<times> string \<times> real \<times> real) list option"
  interconnector_loss_shares :: "(string \<times> real) list option"
  next_variable_id :: nat
  next_constraint_id :: nat

text \<open>\<^verbatim>\<open>Spot.__init__\<close>.\<close>

definition Spot :: "real \<Rightarrow> real \<Rightarrow> real \<Rightarrow> spot" where
  "Spot interval ceiling_price floor_price =
     \<lparr> dispatch_interval = interval, market_ceiling_price = ceiling_price,
       market_floor_price = floor_price, unit_info = None,
       decision_variables = Map.empty,
       variable_to_constraint_map_regional = Map.empty,
       variable_to_constraint_map_unit_level = Map.empty,
       constraint_to_variable_map_regional = Map.empty,
       constraint_to_variable_map_unit_level = Map.empty,
       lhs_coefficients = Map.empty,
       generic_constraint_lhs_unit = None,
       generic_constraint_lhs_region = None,
       generic_constraint_lhs_interconnectors = None,
       constraints_rhs_and_type = Map.empty,
       constraints_dynamic_rhs_and_type = Map.empty,
       market_constraints_rhs_and_type = Map.empty,
       objective_function_components = Map.empty,
       interconnector_directions = None,
       interconnector_loss_shares = None,
       next_variable_id = 0, next_constraint_id = 0 \<rparr>"

text \<open>
  A call of a method ends normally or with an exception. Either way the object is left
  in some state: what was assigned before the exception stays assigned. Two methods set
  a counter from \<^verbatim>\<open>Series.max()\<close> of pandas, which is NaN for a frame without rows. The
  counters of the model are natural numbers: \<open>NanCounter\<close> is the outcome in which a
  counter is no number any more, and the model does not follow the object further.
\<close>

datatype result = Done spot | Raised error spot | NanCounter

section \<open>The calls that build the model, and the modules that are not among the sources\<close>

type_synonym interconnector_row =
  "string \<times> string \<times> string \<times> real \<times> real \<times> real option \<times> real option"

type_synonym loss_function_row = "string \<times> real \<times> (real \<Rightarrow> real)"

type_synonym break_point_row = "string \<times> int \<times> real"

text \<open>
  The builder methods of \<^verbatim>\<open>Spot\<close> with their arguments. The frames of the limits are
  tuples of their columns: \<^verbatim>\<open>(unit, capacity)\<close>, \<^verbatim>\<open>(unit, initial_output, rate)\<close>,
  \<^verbatim>\<open>(region, demand)\<close>, \<^verbatim>\<open>(set, service, region, volume, type)\<close>,
  \<^verbatim>\<open>(unit, service, max_availability)\<close>, \<^verbatim>\<open>(unit, service)\<close> with
  \<^verbatim>\<open>(unit, initial_output, ramp_up_rate, ramp_down_rate)\<close>, and so on.
\<close>

datatype call =
    SetUnitInfo unit_info
  | SetUnitVolumeBids "bid_row list"
  | SetUnitPriceBids "bid_row list"
  | SetUnitCapacityConstraints "(string \<times> real) list"
  | SetUnitRampUpConstraints "(string \<times> real \<times> real) list"
  | SetUnitRampDownConstraints "(string \<times> real \<times> real) list"
  | SetDemandConstraints "(string \<times> real) list"
  | SetFcasRequirementsConstraints "(string \<times> string \<times> string \<times> real \<times> relation option) list"
  | SetFcasMaxAvailability "(string \<times> string \<times> real) list"
  | SetJointRampingConstraints "(string \<times> string) list" "(string \<times> real \<times> real \<times> real) list"
  | SetJointCapacityConstraints "trapezium list"
  | SetEnergyAndRegulationCapacityConstraints "trapezium list"
  | SetInterconnectors "interconnector_row list"
  | SetInterconnectorLosses "loss_function_row list" "break_point_row list"
  | SetGenericConstraints "generic_row list"
  | LinkUnitsToGenericConstraints "(string \<times> string \<times> string \<times> real) list"
  | LinkRegionsToGenericConstraints "(string \<times> string \<times> string \<times> real) list"
  | LinkInterconnectorsToGenericConstraints "(string \<times> string \<times> real) list"
  | MakeConstraintsElastic string violation_cost

type_synonym deficit_helper = "costed \<Rightarrow> nat \<Rightarrow> (deficit_row list \<times> lhs_row list) raises"

text \<open>
  \<^verbatim>\<open>markets.py\<close> imports the modules \<^verbatim>\<open>check\<close>, \<^verbatim>\<open>variable_ids\<close>, \<^verbatim>\<open>objective_function\<close>,
  \<^verbatim>\<open>unit_constraints\<close>, \<^verbatim>\<open>market_constraints\<close>, \<^verbatim>\<open>fcas_constraints\<close>, \<^verbatim>\<open>interconnectors\<close>,
  \<^verbatim>\<open>elastic_constraints\<close> and \<^verbatim>\<open>helper_functions\<close>; none of them is among the sources. The
  methods are modelled for any such modules: a record of the functions the methods call.
  \<open>check\<close> is the verdict of the decorators that stand before a method.
\<close>

record modules =
  check :: "spot \<Rightarrow> call \<Rightarrow> error option"
  variable_ids_bids ::
    "bid_row list \<Rightarrow> unit_info option \<Rightarrow> nat \<Rightarrow> (var_row list \<times> vmap_row list \<times> vmap_row list) raises"
  objective_function_bids :: "var_row list \<Rightarrow> bid_row list \<Rightarrow> cost_row list raises"
  objective_function_scale_by_loss_factors :: "cost_row list \<Rightarrow> unit_info \<Rightarrow> cost_row list raises"
  unit_constraints_capacity ::
    "(string \<times> real) list \<Rightarrow> nat \<Rightarrow> (rhs_row list \<times> cmap_row list) raises"
  unit_constraints_ramp_up ::
    "(string \<times> real \<times> real) list \<Rightarrow> nat \<Rightarrow> real \<Rightarrow> (rhs_row list \<times> cmap_row list) raises"
  unit_constraints_ramp_down ::
    "(string \<times> real \<times> real) list \<Rightarrow> nat \<Rightarrow> real \<Rightarrow> (rhs_row list \<times> cmap_row list) raises"
  market_constraints_energy ::
    "(string \<times> real) list \<Rightarrow> nat \<Rightarrow> (rhs_row list \<times> rmap_row list) raises"
  market_constraints_fcas ::
    "(string \<times> string \<times> string \<times> real \<times> relation option) list \<Rightarrow> nat
       \<Rightarrow> (rhs_row list \<times> rmap_row list) raises"
  unit_constraints_fcas_max_availability ::
    "(string \<times> string \<times> real) list \<Rightarrow> nat \<Rightarrow> (rhs_row list \<times> cmap_row list) raises"
  fcas_constraints_joint_ramping_constraints ::
    "(string \<times> string) list \<Rightarrow> (string \<times> real \<times> real \<times> real) list \<Rightarrow> (string \<times> string) list
       \<Rightarrow> real \<Rightarrow> nat \<Rightarrow> (rhs_row list \<times> cmap_row list) raises"
  fcas_constraints_joint_capacity_constraints ::
    "trapezium list \<Rightarrow> (string \<times> string) list \<Rightarrow> nat \<Rightarrow> (rhs_row list \<times> cmap_row list) raises"
  fcas_constraints_energy_and_regulation_capacity_constraints ::
    "trapezium list \<Rightarrow> nat \<Rightarrow> (rhs_row list \<times> cmap_row list) raises"
  inter_create ::
    "(string \<times> string \<times> string \<times> real \<times> real \<times> real \<times> real) list \<Rightarrow> nat
       \<Rightarrow> (var_row list \<times> vmap_row list) raises"
  inter_create_loss_variables ::
    "var_row list \<Rightarrow> vmap_row list \<Rightarrow> loss_function_row list \<Rightarrow> nat
       \<Rightarrow> (var_row list \<times> vmap_row list) raises"
  inter_create_weights :: "break_point_row list \<Rightarrow> nat \<Rightarrow> var_row list raises"
  inter_create_weights_must_sum_to_one ::
    "var_row list \<Rightarrow> nat \<Rightarrow> (lhs_row list \<times> rhs_row list) raises"
  inter_link_weights_to_inter_flow ::
    "var_row list \<Rightarrow> var_row list \<Rightarrow> nat \<Rightarrow> (lhs_row list \<times> dynamic_rhs_row list) raises"
  inter_link_inter_loss_to_interpolation_weights ::
    "var_row list \<Rightarrow> var_row list \<Rightarrow> loss_function_row list \<Rightarrow> nat
       \<Rightarrow> (lhs_row list \<times> dynamic_rhs_row list) raises"
  hf_save_index :: "generic_row list \<Rightarrow> nat \<Rightarrow> (generic_row \<times> nat) list"
  elastic_constraints_create_deficit_variables :: deficit_helper

text \<open>
  A decorated method: the decorators read the arguments and raise, or the method runs.
\<close>

definition checked :: "error option \<Rightarrow> spot \<Rightarrow> result \<Rightarrow> result" where
  "checked verdict self body = (case verdict of Some e \<Rightarrow> Raised e self | None \<Rightarrow> body)"

section \<open>The builder methods of markets.py\<close>

text \<open>
  \<^verbatim>\<open>Spot.set_unit_info\<close>, lines 92 to 94. The column \<^verbatim>\<open>dispatch_type\<close> is added to the frame
  of the caller, and the market keeps that very frame: \<open>unit_info_after_call\<close> is the
  frame of the caller after the method has run.
\<close>

definition unit_info_after_call :: "unit_info \<Rightarrow> unit_info" where
  "unit_info_after_call info =
     (if ui_dispatch_type info = None
      then info \<lparr> ui_dispatch_type := Some (replicate (length (ui_unit info)) ''generator'') \<rparr>
      else info)"

definition set_unit_info :: "modules \<Rightarrow> spot \<Rightarrow> unit_info \<Rightarrow> result" where
  "set_unit_info m self info =
     checked (check m self (SetUnitInfo info)) self
       (Done (self \<lparr> unit_info := Some (unit_info_after_call info) \<rparr>))"

text \<open>\<^verbatim>\<open>Spot.set_unit_volume_bids\<close>, lines 215 to 219.\<close>

definition set_unit_volume_bids :: "modules \<Rightarrow> spot \<Rightarrow> bid_row list \<Rightarrow> result" where
  "set_unit_volume_bids m self volume_bids =
     checked (check m self (SetUnitVolumeBids volume_bids)) self
       (case variable_ids_bids m volume_bids (unit_info self) (next_variable_id self) of
          Inl e \<Rightarrow> Raised e self
        | Inr (bids, unit_level_map, regional_map) \<Rightarrow>
            (let stored = self
               \<lparr> decision_variables := (decision_variables self)(''bids'' \<mapsto> bids),
                 variable_to_constraint_map_regional :=
                   (variable_to_constraint_map_regional self)(''bids'' \<mapsto> regional_map),
                 variable_to_constraint_map_unit_level :=
                   (variable_to_constraint_map_unit_level self)(''bids'' \<mapsto> unit_level_map) \<rparr>
             in case py_max (map variable_id bids) of
                  Inl e \<Rightarrow> Raised e stored
                | Inr largest \<Rightarrow> Done (stored \<lparr> next_variable_id := largest + 1 \<rparr>)))"

text \<open>
  \<^verbatim>\<open>Spot.set_unit_price_bids\<close>, lines 330 to 335. The costs are scaled when the unit
  information has the column \<^verbatim>\<open>loss_factor\<close>.
\<close>

definition set_unit_price_bids :: "modules \<Rightarrow> spot \<Rightarrow> bid_row list \<Rightarrow> result" where
  "set_unit_price_bids m self price_bids =
     checked (check m self (SetUnitPriceBids price_bids)) self
       (case decision_variables self ''bids'' of
          None \<Rightarrow> Raised KeyError self
        | Some bids \<Rightarrow>
            (case objective_function_bids m bids price_bids of
               Inl e \<Rightarrow> Raised e self
             | Inr energy_objective_function \<Rightarrow>
                 (case unit_info self of
                    None \<Rightarrow> Raised AttributeError self
                  | Some info \<Rightarrow>
                      (case (if ui_loss_factor info \<noteq> None
                             then objective_function_scale_by_loss_factors m
                                    energy_objective_function info
                             else Inr energy_objective_function) of
                         Inl e \<Rightarrow> Raised e self
                       | Inr scaled \<Rightarrow>
                           Done (self \<lparr> objective_function_components :=
                             (objective_function_components self)(''bids'' \<mapsto> scaled) \<rparr>)))))"

text \<open>
  The constraint builders share one shape (for instance lines 439 to 444): the helper
  makes the constraints and their map to the variables, both are stored under the key of
  the family, and the counter is set to one more than the largest id.
\<close>

definition store_unit_constraints ::
    "string \<Rightarrow> spot \<Rightarrow> (rhs_row list \<times> cmap_row list) raises \<Rightarrow> result" where
  "store_unit_constraints family self made =
     (case made of
        Inl e \<Rightarrow> Raised e self
      | Inr (rhs_and_type, variable_map) \<Rightarrow>
          (let stored = self
             \<lparr> constraint_to_variable_map_unit_level :=
                 (constraint_to_variable_map_unit_level self)(family \<mapsto> variable_map),
               constraints_rhs_and_type :=
                 (constraints_rhs_and_type self)(family \<mapsto> rhs_and_type) \<rparr>
           in case py_max (map constraint_id rhs_and_type) of
                Inl e \<Rightarrow> Raised e stored
              | Inr largest \<Rightarrow> Done (stored \<lparr> next_constraint_id := largest + 1 \<rparr>)))"

definition store_market_constraints ::
    "string \<Rightarrow> spot \<Rightarrow> (rhs_row list \<times> rmap_row list) raises \<Rightarrow> result" where
  "store_market_constraints family self made =
     (case made of
        Inl e \<Rightarrow> Raised e self
      | Inr (rhs_and_type, variable_map) \<Rightarrow>
          (let stored = self
             \<lparr> constraint_to_variable_map_regional :=
                 (constraint_to_variable_map_regional self)(family \<mapsto> variable_map),
               market_constraints_rhs_and_type :=
                 (market_constraints_rhs_and_type self)(family \<mapsto> rhs_and_type) \<rparr>
           in case py_max (map constraint_id rhs_and_type) of
                Inl e \<Rightarrow> Raised e stored
              | Inr largest \<Rightarrow> Done (stored \<lparr> next_constraint_id := largest + 1 \<rparr>)))"

definition set_unit_capacity_constraints :: "modules \<Rightarrow> spot \<Rightarrow> (string \<times> real) list \<Rightarrow> result" where
  "set_unit_capacity_constraints m self unit_limits =
     checked (check m self (SetUnitCapacityConstraints unit_limits)) self
       (store_unit_constraints ''unit_capacity'' self
          (unit_constraints_capacity m unit_limits (next_constraint_id self)))"

definition set_unit_ramp_up_constraints ::
    "modules \<Rightarrow> spot \<Rightarrow> (string \<times> real \<times> real) list \<Rightarrow> result" where
  "set_unit_ramp_up_constraints m self unit_limits =
     checked (check m self (SetUnitRampUpConstraints unit_limits)) self
       (store_unit_constraints ''ramp_up'' self
          (unit_constraints_ramp_up m unit_limits (next_constraint_id self)
             (dispatch_interval self)))"

definition set_unit_ramp_down_constraints ::
    "modules \<Rightarrow> spot \<Rightarrow> (string \<times> real \<times> real) list \<Rightarrow> result" where
  "set_unit_ramp_down_constraints m self unit_limits =
     checked (check m self (SetUnitRampDownConstraints unit_limits)) self
       (store_unit_constraints ''ramp_down'' self
          (unit_constraints_ramp_down m unit_limits (next_constraint_id self)
             (dispatch_interval self)))"

definition set_demand_constraints :: "modules \<Rightarrow> spot \<Rightarrow> (string \<times> real) list \<Rightarrow> result" where
  "set_demand_constraints m self demand =
     checked (check m self (SetDemandConstraints demand)) self
       (store_market_constraints ''demand'' self
          (market_constraints_energy m demand (next_constraint_id self)))"

definition set_fcas_requirements_constraints ::
    "modules \<Rightarrow> spot \<Rightarrow> (string \<times> string \<times> string \<times> real \<times> relation option) list \<Rightarrow> result" where
  "set_fcas_requirements_constraints m self fcas_requirements =
     checked (check m self (SetFcasRequirementsConstraints fcas_requirements)) self
       (store_market_constraints ''fcas'' self
          (market_constraints_fcas m fcas_requirements (next_constraint_id self)))"

definition set_fcas_max_availability ::
    "modules \<Rightarrow> spot \<Rightarrow> (string \<times> string \<times> real) list \<Rightarrow> result" where
  "set_fcas_max_availability m self fcas_max_availability =
     checked (check m self (SetFcasMaxAvailability fcas_max_availability)) self
       (store_unit_constraints ''fcas_max_availability'' self
          (unit_constraints_fcas_max_availability m fcas_max_availability
             (next_constraint_id self)))"

text \<open>
  \<^verbatim>\<open>self.unit_info.loc[:, ['unit', 'dispatch_type']]\<close>, the argument at lines 1035 and 1145.
\<close>

definition unit_dispatch_types :: "spot \<Rightarrow> (string \<times> string) list raises" where
  "unit_dispatch_types self =
     (case unit_info self of
        None \<Rightarrow> Inl AttributeError
      | Some info \<Rightarrow>
          (case ui_dispatch_type info of
             None \<Rightarrow> Inl KeyError
           | Some types \<Rightarrow> Inr (zip (ui_unit info) types)))"

definition set_joint_ramping_constraints ::
    "modules \<Rightarrow> spot \<Rightarrow> (string \<times> string) list \<Rightarrow> (string \<times> real \<times> real \<times> real) list \<Rightarrow> result" where
  "set_joint_ramping_constraints m self regulation_units unit_limits =
     checked (check m self (SetJointRampingConstraints regulation_units unit_limits)) self
       (case unit_dispatch_types self of
          Inl e \<Rightarrow> Raised e self
        | Inr types \<Rightarrow>
            store_unit_constraints ''joint_ramping'' self
              (fcas_constraints_joint_ramping_constraints m regulation_units unit_limits types
                 (dispatch_interval self) (next_constraint_id self)))"

text \<open>\<^verbatim>\<open>Spot.set_joint_capacity_constraints\<close>, lines 1144 to 1148.\<close>

definition set_joint_capacity_constraints :: "modules \<Rightarrow> spot \<Rightarrow> trapezium list \<Rightarrow> result" where
  "set_joint_capacity_constraints m self contingency_trapeziums =
     checked (check m self (SetJointCapacityConstraints contingency_trapeziums)) self
       (case unit_dispatch_types self of
          Inl e \<Rightarrow> Raised e self
        | Inr types \<Rightarrow>
            store_unit_constraints ''joint_capacity'' self
              (fcas_constraints_joint_capacity_constraints m contingency_trapeziums types
                 (next_constraint_id self)))"

text \<open>\<^verbatim>\<open>Spot.set_energy_and_regulation_capacity_constraints\<close>, lines 1250 to 1254.\<close>

definition set_energy_and_regulation_capacity_constraints ::
    "modules \<Rightarrow> spot \<Rightarrow> trapezium list \<Rightarrow> result" where
  "set_energy_and_regulation_capacity_constraints m self regulation_trapeziums =
     checked (check m self (SetEnergyAndRegulationCapacityConstraints regulation_trapeziums)) self
       (store_unit_constraints ''energy_and_regulation_capacity'' self
          (fcas_constraints_energy_and_regulation_capacity_constraints m regulation_trapeziums
             (next_constraint_id self)))"

text \<open>
  \<^verbatim>\<open>Spot.set_interconnectors\<close>, lines 1348 to 1360. A missing loss factor column is filled
  with 1.0, and the directions are stored before the variables are made.
\<close>

definition fill_loss_factors ::
    "interconnector_row \<Rightarrow> string \<times> string \<times> string \<times> real \<times> real \<times> real \<times> real" where
  "fill_loss_factors r =
     (case r of (i, to_region, from_region, mx, mn, from_lf, to_lf) \<Rightarrow>
        (i, to_region, from_region, mx, mn,
         (case from_lf of None \<Rightarrow> 1 | Some f \<Rightarrow> f), (case to_lf of None \<Rightarrow> 1 | Some t \<Rightarrow> t)))"

definition directions_of ::
    "string \<times> string \<times> string \<times> real \<times> real \<times> real \<times> real
       \<Rightarrow> string \<times> string \<times> string \<times> real \<times> real" where
  "directions_of r =
     (case r of (i, to_region, from_region, mx, mn, from_lf, to_lf) \<Rightarrow>
        (i, to_region, from_region, from_lf, to_lf))"

definition set_interconnectors :: "modules \<Rightarrow> spot \<Rightarrow> interconnector_row list \<Rightarrow> result" where
  "set_interconnectors m self interconnector_directions_and_limits =
     checked (check m self (SetInterconnectors interconnector_directions_and_limits)) self
       (let filled = map fill_loss_factors interconnector_directions_and_limits;
            directed = self \<lparr> interconnector_directions := Some (map directions_of filled) \<rparr>
        in case inter_create m filled (next_variable_id self) of
             Inl e \<Rightarrow> Raised e directed
           | Inr (variables, regional_map) \<Rightarrow>
               (let stored = directed
                  \<lparr> decision_variables :=
                      (decision_variables directed)(''interconnectors'' \<mapsto> variables),
                    variable_to_constraint_map_regional :=
                      (variable_to_constraint_map_regional directed)
                        (''interconnectors'' \<mapsto> regional_map) \<rparr>
                in case py_max (map variable_id variables) of
                     Inl e \<Rightarrow> Raised e stored
                   | Inr largest \<Rightarrow> Done (stored \<lparr> next_variable_id := largest + 1 \<rparr>)))"

text \<open>
  \<^verbatim>\<open>Spot.set_interconnector_losses\<close>, lines 1552 to 1597. The loss shares are stored first.
  The ids of the loss variables start at the counter of the market, those of the weights
  after the last loss variable; the constraints that make the weights sum to one start
  at the constraint counter, the links to the flow after them and the links to the
  losses after those. Every local counter and the two counters of the market are set
  from \<^verbatim>\<open>Series.max()\<close>.
\<close>

definition set_interconnector_losses ::
    "modules \<Rightarrow> spot \<Rightarrow> loss_function_row list \<Rightarrow> break_point_row list \<Rightarrow> result" where
  "set_interconnector_losses m self loss_functions interpolation_break_points =
     checked (check m self (SetInterconnectorLosses loss_functions interpolation_break_points)) self
       (let shared = self \<lparr> interconnector_loss_shares :=
                        Some (map (\<lambda>(i, share, f). (i, share)) loss_functions) \<rparr>
        in case decision_variables shared ''interconnectors'' of
          None \<Rightarrow> Raised KeyError shared
        | Some flows \<Rightarrow>
        (case variable_to_constraint_map_regional shared ''interconnectors'' of
          None \<Rightarrow> Raised KeyError shared
        | Some flow_map \<Rightarrow>
        (case inter_create_loss_variables m flows flow_map loss_functions (next_variable_id shared) of
          Inl e \<Rightarrow> Raised e shared
        | Inr (loss_variables, loss_variables_constraint_map) \<Rightarrow>
        (case pd_max (map variable_id loss_variables) of
          None \<Rightarrow> NanCounter
        | Some top_loss \<Rightarrow>
        (case inter_create_weights m interpolation_break_points (top_loss + 1) of
          Inl e \<Rightarrow> Raised e shared
        | Inr weight_variables \<Rightarrow>
        (case pd_max (map variable_id weight_variables) of
          None \<Rightarrow> NanCounter
        | Some top_weight \<Rightarrow>
        (case inter_create_weights_must_sum_to_one m weight_variables (next_constraint_id shared) of
          Inl e \<Rightarrow> Raised e shared
        | Inr (weights_sum_lhs, weights_sum_rhs) \<Rightarrow>
        (case pd_max (map constraint_id weights_sum_rhs) of
          None \<Rightarrow> NanCounter
        | Some top_sum \<Rightarrow>
        (case inter_link_weights_to_inter_flow m weight_variables flows (top_sum + 1) of
          Inl e \<Rightarrow> Raised e shared
        | Inr (link_to_flow_lhs, link_to_flow_rhs) \<Rightarrow>
        (case pd_max (map dr_constraint_id link_to_flow_rhs) of
          None \<Rightarrow> NanCounter
        | Some top_flow \<Rightarrow>
        (case inter_link_inter_loss_to_interpolation_weights m weight_variables loss_variables
                loss_functions (top_flow + 1) of
          Inl e \<Rightarrow> Raised e shared
        | Inr (link_to_loss_lhs, link_to_loss_rhs) \<Rightarrow>
        (let lhs = weights_sum_lhs @ link_to_flow_lhs @ link_to_loss_lhs;
             dynamic_rhs = link_to_flow_rhs @ link_to_loss_rhs;
             stored = shared
               \<lparr> decision_variables := (decision_variables shared)
                   (''interconnector_losses'' \<mapsto> loss_variables,
                    ''interpolation_weights'' \<mapsto> weight_variables),
                 variable_to_constraint_map_regional :=
                   (variable_to_constraint_map_regional shared)
                     (''interconnector_losses'' \<mapsto> loss_variables_constraint_map),
                 lhs_coefficients :=
                   (lhs_coefficients shared)(''interconnector_losses'' \<mapsto> lhs),
                 constraints_rhs_and_type :=
                   (constraints_rhs_and_type shared)(''interpolation_weights'' \<mapsto> weights_sum_rhs),
                 constraints_dynamic_rhs_and_type :=
                   (constraints_dynamic_rhs_and_type shared)(''link_loss_to_flow'' \<mapsto> dynamic_rhs) \<rparr>
         in case (pd_max (map variable_id (loss_variables @ weight_variables)),
                  pd_max (map constraint_id weights_sum_rhs @ map dr_constraint_id dynamic_rhs)) of
              (Some top_variable, Some top_constraint) \<Rightarrow>
                Done (stored \<lparr> next_variable_id := top_variable + 1,
                               next_constraint_id := top_constraint + 1 \<rparr>)
            | _ \<Rightarrow> NanCounter))))))))))))"

text \<open>
  \<^verbatim>\<open>Spot.set_generic_constraints\<close>, lines 1666 to 1670; the counter is set from
  \<^verbatim>\<open>Series.max()\<close>.
\<close>

definition generic_constraint :: "generic_row \<times> nat \<Rightarrow> rhs_row" where
  "generic_constraint gi =
     \<lparr> r_set = Some (g_set (fst gi)), r_unit = None, r_service = None,
       r_region = None, r_interconnector = None, constraint_id = snd gi, r_type = g_type (fst gi), rhs = g_rhs (fst gi),
       slack = None \<rparr>"

definition set_generic_constraints :: "modules \<Rightarrow> spot \<Rightarrow> generic_row list \<Rightarrow> result" where
  "set_generic_constraints m self generic_constraint_parameters =
     checked (check m self (SetGenericConstraints generic_constraint_parameters)) self
       (let type_and_rhs = hf_save_index m generic_constraint_parameters (next_constraint_id self);
            stored = self \<lparr> constraints_rhs_and_type := (constraints_rhs_and_type self)
                        (''generic'' \<mapsto> map generic_constraint type_and_rhs) \<rparr>
        in case pd_max (map snd type_and_rhs) of
             None \<Rightarrow> NanCounter
           | Some largest \<Rightarrow> Done (stored \<lparr> next_constraint_id := largest + 1 \<rparr>))"

text \<open>The three methods that link generic constraints store their frame (lines 1742, 1817, 1887).\<close>

definition link_units_to_generic_constraints ::
    "modules \<Rightarrow> spot \<Rightarrow> (string \<times> string \<times> string \<times> real) list \<Rightarrow> result" where
  "link_units_to_generic_constraints m self unit_coefficients =
     checked (check m self (LinkUnitsToGenericConstraints unit_coefficients)) self
       (Done (self \<lparr> generic_constraint_lhs_unit := Some unit_coefficients \<rparr>))"

definition link_regions_to_generic_constraints ::
    "modules \<Rightarrow> spot \<Rightarrow> (string \<times> string \<times> string \<times> real) list \<Rightarrow> result" where
  "link_regions_to_generic_constraints m self region_coefficients =
     checked (check m self (LinkRegionsToGenericConstraints region_coefficients)) self
       (Done (self \<lparr> generic_constraint_lhs_region := Some region_coefficients \<rparr>))"

definition link_interconnectors_to_generic_constraints ::
    "modules \<Rightarrow> spot \<Rightarrow> (string \<times> string \<times> real) list \<Rightarrow> result" where
  "link_interconnectors_to_generic_constraints m self interconnector_coefficients =
     checked (check m self (LinkInterconnectorsToGenericConstraints interconnector_coefficients)) self
       (Done (self \<lparr> generic_constraint_lhs_interconnectors := Some interconnector_coefficients \<rparr>))"

text \<open>
  \<^verbatim>\<open>Spot.make_constraints_elastic\<close>. Lines 2007 to 2029 add the column \<^verbatim>\<open>cost\<close> to the
  constraints found under the key. \<open>found = None\<close> is the case in which neither dictionary
  has the key: line 2005 builds a \<^verbatim>\<open>ModelBuildError\<close> and does not raise it, so the local
  \<^verbatim>\<open>rhs_and_type\<close> stays unbound and its first use raises \<^verbatim>\<open>UnboundLocalError\<close>. Line 2029
  builds a \<^verbatim>\<open>ValueError\<close> and does not raise it either, so a cost of another type leaves
  the constraints without the column. The merge of line 2027 needs the column \<^verbatim>\<open>set\<close> on
  both sides.
\<close>

definition attach_cost :: "spot \<Rightarrow> rhs_row list option \<Rightarrow> violation_cost \<Rightarrow> costed option raises" where
  "attach_cost self found violation_cost =
     (case violation_cost of
        Str s \<Rightarrow>
          (if s = ''market_ceiling_price'' then
             (case found of None \<Rightarrow> Inl UnboundLocalError
              | Some rows \<Rightarrow> Inr (Some (WithCost (map (\<lambda>r. (r, market_ceiling_price self)) rows))))
           else Inr (map_option NoCostColumn found))
      | Num c \<Rightarrow>
          (case found of None \<Rightarrow> Inl UnboundLocalError
           | Some rows \<Rightarrow> Inr (Some (WithCost (map (\<lambda>r. (r, c)) rows))))
      | Frame costs \<Rightarrow>
          (if \<not> distinct (map fst costs) then Inl RepeatedRowError
           else case found of None \<Rightarrow> Inl UnboundLocalError
             | Some rows \<Rightarrow>
                 (if \<exists>r \<in> set rows. r_set r = None then Inl KeyError
                  else Inr (Some (WithCost
                    (map (\<lambda>(r, sc). (r, snd sc))
                       (merge_on r_set (\<lambda>sc. Some (fst sc)) rows costs))))))
      | Bool b \<Rightarrow> Inr (map_option NoCostColumn found)
      | Other \<Rightarrow> Inr (map_option NoCostColumn found))"

definition deficit_key :: "string \<Rightarrow> string" where
  "deficit_key constraints_key = constraints_key @ ''_deficit''"

definition deficit_variable :: "deficit_row \<Rightarrow> var_row" where
  "deficit_variable d =
     \<lparr> variable_id = d_variable_id d, v_unit = None, v_service = None,
       v_capacity_band = None, v_interconnector = None, v_loss_segment = None,
       v_break_point = None, lower_bound = d_lower_bound d, upper_bound = d_upper_bound d,
       v_type = d_type d, v_value = None \<rparr>"

definition deficit_cost :: "deficit_row \<Rightarrow> cost_row" where
  "deficit_cost d =
     \<lparr> o_variable_id = d_variable_id d, o_unit = None, o_service = None,
       o_capacity_band = None, cost = Fin (d_cost d) \<rparr>"

text \<open>
  Lines 2000 to 2005 and 2031 to 2037. The key is looked up among the market constraints
  first. The three tables are stored before the counter is advanced, and \<^verbatim>\<open>max\<close> of no
  variable at all raises after they are stored.
\<close>

definition find_constraints :: "spot \<Rightarrow> string \<Rightarrow> rhs_row list option" where
  "find_constraints self constraints_key =
     (case market_constraints_rhs_and_type self constraints_key of
        Some t \<Rightarrow> Some t
      | None \<Rightarrow> constraints_rhs_and_type self constraints_key)"

definition make_constraints_elastic ::
    "deficit_helper \<Rightarrow> spot \<Rightarrow> string \<Rightarrow> violation_cost \<Rightarrow> result" where
  "make_constraints_elastic cdv self constraints_key violation_cost =
     (let found = find_constraints self constraints_key
      in case attach_cost self found violation_cost of
           Inl e \<Rightarrow> Raised e self
         | Inr None \<Rightarrow> Raised UnboundLocalError self
         | Inr (Some rhs_and_type) \<Rightarrow>
             (case cdv rhs_and_type (next_variable_id self) of
                Inl e \<Rightarrow> Raised e self
              | Inr (deficit_variables, lhs) \<Rightarrow>
                  (let stored = self
                     \<lparr> decision_variables := (decision_variables self)
                          (deficit_key constraints_key \<mapsto> map deficit_variable deficit_variables),
                       objective_function_components := (objective_function_components self)
                          (deficit_key constraints_key \<mapsto> map deficit_cost deficit_variables),
                       lhs_coefficients := (lhs_coefficients self)
                          (deficit_key constraints_key \<mapsto> lhs) \<rparr>
                   in case py_max (map d_variable_id deficit_variables) of
                        Inl e \<Rightarrow> Raised e stored
                      | Inr largest \<Rightarrow> Done (stored \<lparr> next_variable_id := largest + 1 \<rparr>))))"

text \<open>One call on the market.\<close>

fun step :: "modules \<Rightarrow> call \<Rightarrow> spot \<Rightarrow> result" where
  "step m (SetUnitInfo info) self = set_unit_info m self info"
| "step m (SetUnitVolumeBids volume_bids) self = set_unit_volume_bids m self volume_bids"
| "step m (SetUnitPriceBids price_bids) self = set_unit_price_bids m self price_bids"
| "step m (SetUnitCapacityConstraints limits) self = set_unit_capacity_constraints m self limits"
| "step m (SetUnitRampUpConstraints limits) self = set_unit_ramp_up_constraints m self limits"
| "step m (SetUnitRampDownConstraints limits) self = set_unit_ramp_down_constraints m self limits"
| "step m (SetDemandConstraints demand) self = set_demand_constraints m self demand"
| "step m (SetFcasRequirementsConstraints req) self = set_fcas_requirements_constraints m self req"
| "step m (SetFcasMaxAvailability av) self = set_fcas_max_availability m self av"
| "step m (SetJointRampingConstraints units limits) self =
     set_joint_ramping_constraints m self units limits"
| "step m (SetJointCapacityConstraints trapeziums) self =
     set_joint_capacity_constraints m self trapeziums"
| "step m (SetEnergyAndRegulationCapacityConstraints trapeziums) self =
     set_energy_and_regulation_capacity_constraints m self trapeziums"
| "step m (SetInterconnectors inters) self = set_interconnectors m self inters"
| "step m (SetInterconnectorLosses loss_functions break_points) self =
     set_interconnector_losses m self loss_functions break_points"
| "step m (SetGenericConstraints params) self = set_generic_constraints m self params"
| "step m (LinkUnitsToGenericConstraints coefficients) self =
     link_units_to_generic_constraints m self coefficients"
| "step m (LinkRegionsToGenericConstraints coefficients) self =
     link_regions_to_generic_constraints m self coefficients"
| "step m (LinkInterconnectorsToGenericConstraints coefficients) self =
     link_interconnectors_to_generic_constraints m self coefficients"
| "step m (MakeConstraintsElastic constraints_key violation_cost) self =
     make_constraints_elastic (elastic_constraints_create_deficit_variables m) self
       constraints_key violation_cost"

section \<open>Reading the results\<close>

text \<open>
  \<^verbatim>\<open>Spot.get_unit_dispatch\<close>: the values of the bid variables, summed over the bands of a
  unit and service. A column is missing from a table when a row does not carry it.
\<close>

definition get_unit_dispatch :: "spot \<Rightarrow> (string \<times> string \<times> real) list raises" where
  "get_unit_dispatch self =
     (case decision_variables self ''bids'' of
        None \<Rightarrow> Inl KeyError
      | Some bid_variables \<Rightarrow>
          (if list_ex (\<lambda>v. v_unit v = None \<or> v_service v = None \<or> v_value v = None) bid_variables
           then Inl KeyError
           else Inr (map (\<lambda>(k, rows). (fst k, snd k, sum_list (map (\<lambda>v. the (v_value v)) rows)))
                  (groupby (\<lambda>v. (the (v_unit v), the (v_service v))) bid_variables))))"

text \<open>\<^verbatim>\<open>Spot._get_net_unit_dispatch_by_region\<close>, lines 2676 to 2690.\<close>

definition make_load_dispatch_negative :: "string \<Rightarrow> real \<Rightarrow> real" where
  "make_load_dispatch_negative dispatch_type dispatch =
     (if dispatch_type = ''load'' then - 1 * dispatch else dispatch)"

definition net_unit_dispatch_by_region_with ::
    "(string \<Rightarrow> real \<Rightarrow> real) \<Rightarrow> spot \<Rightarrow> (string \<times> real) list raises" where
  "net_unit_dispatch_by_region_with sign self =
     (case get_unit_dispatch self of
        Inl e \<Rightarrow> Inl e
      | Inr unit_dispatch \<Rightarrow>
          (case unit_info self of
             None \<Rightarrow> Inl AttributeError
           | Some info \<Rightarrow>
               (case ui_dispatch_type info of
                  None \<Rightarrow> Inl KeyError
                | Some types \<Rightarrow>
                    Inr (map (\<lambda>(region, rows). (region, sum_list (map snd rows)))
                      (groupby fst
                        (map (\<lambda>((u, s, d), (u', region, t)). (region, sign t d))
                          (merge_on fst fst
                            (filter (\<lambda>(u, s, d). s = ''energy'') unit_dispatch)
                            (zip (ui_unit info) (zip (ui_region info) types)))))))))"

definition get_net_unit_dispatch_by_region :: "spot \<Rightarrow> (string \<times> real) list raises" where
  "get_net_unit_dispatch_by_region self =
     net_unit_dispatch_by_region_with make_load_dispatch_negative self"

text \<open>
  The net dispatch of a market all of whose units are generators: no dispatch is negated.
\<close>

definition net_dispatch_of_generators :: "spot \<Rightarrow> (string \<times> real) list raises" where
  "net_dispatch_of_generators self = net_unit_dispatch_by_region_with (\<lambda>t d. d) self"

text \<open>
  \<^verbatim>\<open>Spot.get_fcas_availability\<close>, lines 2902 to 2923. The loop collects, for each of the four
  families that has constraints, the rows of its map joined with the slack of their
  constraint.
\<close>

definition fcas_families :: "string list" where
  "fcas_families = [''fcas_max_availability'', ''joint_ramping'', ''joint_capacity'',
     ''energy_and_regulation_capacity'']"

fun collect_slack :: "spot \<Rightarrow> string list \<Rightarrow> (cmap_row \<times> rhs_row) list list raises" where
  "collect_slack self [] = Inr []"
| "collect_slack self (constraint_type # rest) =
     (case constraints_rhs_and_type self constraint_type of
        None \<Rightarrow> collect_slack self rest
      | Some rhs_and_type \<Rightarrow>
          (case constraint_to_variable_map_unit_level self constraint_type of
             None \<Rightarrow> Inl KeyError
           | Some service_coefficients \<Rightarrow>
               (if list_ex (\<lambda>r. slack r = None) rhs_and_type then Inl KeyError
                else case collect_slack self rest of
                       Inl e \<Rightarrow> Inl e
                     | Inr frames \<Rightarrow>
                         Inr (merge_on c_constraint_id constraint_id
                                service_coefficients rhs_and_type # frames))))"

definition service_slack :: "cmap_row \<times> rhs_row \<Rightarrow> npfloat" where
  "service_slack cr = np_div (Fin (the (slack (snd cr)))) (np_abs (coefficient (fst cr)))"

definition get_fcas_availability :: "spot \<Rightarrow> (string \<times> string \<times> npfloat) list raises" where
  "get_fcas_availability self =
     (case collect_slack self fcas_families of
        Inl e \<Rightarrow> Inl e
      | Inr frames \<Rightarrow>
          (if frames = [] then Inl ValueError
           else
             (let fcas_variable_slack = concat frames;
                  grouped = map (\<lambda>(k, rows). (k, np_min_skipna (map service_slack rows)))
                              (groupby (\<lambda>cr. (c_unit (fst cr), c_service (fst cr)))
                                 fcas_variable_slack);
                  not_energy = filter (\<lambda>(k, s). snd k \<noteq> ''energy'') grouped
              in case get_unit_dispatch self of
                   Inl e \<Rightarrow> Inl e
                 | Inr dispatch_levels \<Rightarrow>
                     Inr (map (\<lambda>((k, s), (u, sv, d)). (fst k, snd k, np_add (Fin d) s))
                            (merge_on fst (\<lambda>(u, sv, d). (u, sv)) not_energy dispatch_levels)))))"

text \<open>
  What the sentence on the availability says, read off the tables directly. The
  constraints that govern a service of a unit are the rows of the maps of the four
  families for that unit and service, each with the slack of its constraint; the
  dispatched quantity is the sum of the values of the bid variables of the unit and
  service, when it has any.
\<close>

definition governing :: "spot \<Rightarrow> string \<Rightarrow> string \<Rightarrow> (cmap_row \<times> rhs_row) list" where
  "governing self u sv =
     concat (map (\<lambda>family.
       (case (constraints_rhs_and_type self family,
              constraint_to_variable_map_unit_level self family) of
          (Some rhs_and_type, Some coefficients) \<Rightarrow>
            filter (\<lambda>cr. c_unit (fst cr) = u \<and> c_service (fst cr) = sv)
              (merge_on c_constraint_id constraint_id coefficients rhs_and_type)
        | _ \<Rightarrow> [])) fcas_families)"

definition dispatched_quantity :: "spot \<Rightarrow> string \<Rightarrow> string \<Rightarrow> real option" where
  "dispatched_quantity self u sv =
     (case decision_variables self ''bids'' of
        None \<Rightarrow> None
      | Some bid_variables \<Rightarrow>
          (case filter (\<lambda>v. v_unit v = Some u \<and> v_service v = Some sv) bid_variables of
             [] \<Rightarrow> None
           | rows \<Rightarrow> Some (sum_list (map (\<lambda>v. the (v_value v)) rows))))"

definition availability :: "spot \<Rightarrow> string \<Rightarrow> string \<Rightarrow> npfloat option" where
  "availability self u sv =
     (case dispatched_quantity self u sv of
        None \<Rightarrow> None
      | Some d \<Rightarrow>
          (if governing self u sv = [] \<or> sv = ''energy'' then None
           else Some (np_add (Fin d) (np_min_skipna (map service_slack (governing self u sv))))))"

text \<open>
  The market after \<^verbatim>\<open>dispatch\<close>, as far as \<^verbatim>\<open>get_fcas_availability\<close> reads it: the bid
  variables have their values, the constraints of the four families their slack, every
  family with constraints has its map, and at least one of the four has constraints.
\<close>

definition dispatched :: "spot \<Rightarrow> bool" where
  "dispatched self =
     ((case decision_variables self ''bids'' of
         None \<Rightarrow> False
       | Some bid_variables \<Rightarrow>
           \<not> list_ex (\<lambda>v. v_unit v = None \<or> v_service v = None \<or> v_value v = None) bid_variables)
      \<and> list_all (\<lambda>family.
           (case constraints_rhs_and_type self family of
              None \<Rightarrow> True
            | Some rhs_and_type \<Rightarrow>
                constraint_to_variable_map_unit_level self family \<noteq> None
                \<and> \<not> list_ex (\<lambda>r. slack r = None) rhs_and_type)) fcas_families
      \<and> list_ex (\<lambda>family. constraints_rhs_and_type self family \<noteq> None) fcas_families)"

section \<open>Building a model call by call\<close>

text \<open>
  The ids a call has created are the ids in the tables it has stored. A call that ended
  with an exception has created none.
\<close>

definition ids_at :: "(string \<rightharpoonup> 'a list) \<Rightarrow> ('a \<Rightarrow> nat) \<Rightarrow> string \<Rightarrow> nat list" where
  "ids_at table id_of k = (case table k of None \<Rightarrow> [] | Some rows \<Rightarrow> map id_of rows)"

fun created_variable_ids :: "call \<Rightarrow> spot \<Rightarrow> nat list" where
  "created_variable_ids (SetUnitVolumeBids b) s = ids_at (decision_variables s) variable_id ''bids''"
| "created_variable_ids (SetInterconnectors i) s =
     ids_at (decision_variables s) variable_id ''interconnectors''"
| "created_variable_ids (SetInterconnectorLosses l b) s =
     ids_at (decision_variables s) variable_id ''interconnector_losses''
     @ ids_at (decision_variables s) variable_id ''interpolation_weights''"
| "created_variable_ids (MakeConstraintsElastic k c) s =
     ids_at (decision_variables s) variable_id (deficit_key k)"
| "created_variable_ids _ s = []"

fun created_constraint_ids :: "call \<Rightarrow> spot \<Rightarrow> nat list" where
  "created_constraint_ids (SetUnitCapacityConstraints x) s =
     ids_at (constraints_rhs_and_type s) constraint_id ''unit_capacity''"
| "created_constraint_ids (SetUnitRampUpConstraints x) s =
     ids_at (constraints_rhs_and_type s) constraint_id ''ramp_up''"
| "created_constraint_ids (SetUnitRampDownConstraints x) s =
     ids_at (constraints_rhs_and_type s) constraint_id ''ramp_down''"
| "created_constraint_ids (SetDemandConstraints x) s =
     ids_at (market_constraints_rhs_and_type s) constraint_id ''demand''"
| "created_constraint_ids (SetFcasRequirementsConstraints x) s =
     ids_at (market_constraints_rhs_and_type s) constraint_id ''fcas''"
| "created_constraint_ids (SetFcasMaxAvailability x) s =
     ids_at (constraints_rhs_and_type s) constraint_id ''fcas_max_availability''"
| "created_constraint_ids (SetJointRampingConstraints x y) s =
     ids_at (constraints_rhs_and_type s) constraint_id ''joint_ramping''"
| "created_constraint_ids (SetJointCapacityConstraints x) s =
     ids_at (constraints_rhs_and_type s) constraint_id ''joint_capacity''"
| "created_constraint_ids (SetEnergyAndRegulationCapacityConstraints x) s =
     ids_at (constraints_rhs_and_type s) constraint_id ''energy_and_regulation_capacity''"
| "created_constraint_ids (SetInterconnectorLosses l b) s =
     ids_at (constraints_rhs_and_type s) constraint_id ''interpolation_weights''
     @ ids_at (constraints_dynamic_rhs_and_type s) dr_constraint_id ''link_loss_to_flow''"
| "created_constraint_ids (SetGenericConstraints x) s =
     ids_at (constraints_rhs_and_type s) constraint_id ''generic''"
| "created_constraint_ids _ s = []"

text \<open>
  A build is a sequence of calls on one market; after an exception the caller may go
  on with the market as the failed call left it. The trace lists, call by call, the
  variable ids and the constraint ids the call created.
\<close>

fun build :: "modules \<Rightarrow> call list \<Rightarrow> spot \<Rightarrow> (nat list \<times> nat list) list" where
  "build m [] s = []"
| "build m (c # cs) s =
     (case step m c s of
        Done s' \<Rightarrow> (created_variable_ids c s', created_constraint_ids c s') # build m cs s'
      | Raised e s' \<Rightarrow> ([], []) # build m cs s'
      | NanCounter \<Rightarrow> [])"

text \<open>
  What the methods need of the modules that number rows (section 4.1 of the
  specification: ids are reserved from the counter upwards): no id that a helper gives
  out lies below the counter it was called with.
\<close>

definition from_counter :: "nat \<Rightarrow> nat list \<Rightarrow> bool" where
  "from_counter n ids = list_all (\<lambda>i. n \<le> i) ids"

definition constraints_from_counter :: "(nat \<Rightarrow> (rhs_row list \<times> 'a) raises) \<Rightarrow> bool" where
  "constraints_from_counter helper =
     (\<forall>n rhs_and_type variable_map. helper n = Inr (rhs_and_type, variable_map)
        \<longrightarrow> from_counter n (map constraint_id rhs_and_type))"

definition allocating :: "modules \<Rightarrow> bool" where
  "allocating m =
     ((\<forall>b i n vs ul rg. variable_ids_bids m b i n = Inr (vs, ul, rg)
          \<longrightarrow> from_counter n (map variable_id vs))
      \<and> (\<forall>x. constraints_from_counter (unit_constraints_capacity m x))
      \<and> (\<forall>x t. constraints_from_counter (\<lambda>n. unit_constraints_ramp_up m x n t))
      \<and> (\<forall>x t. constraints_from_counter (\<lambda>n. unit_constraints_ramp_down m x n t))
      \<and> (\<forall>x. constraints_from_counter (market_constraints_energy m x))
      \<and> (\<forall>x. constraints_from_counter (market_constraints_fcas m x))
      \<and> (\<forall>x. constraints_from_counter (unit_constraints_fcas_max_availability m x))
      \<and> (\<forall>x y z t. constraints_from_counter (fcas_constraints_joint_ramping_constraints m x y z t))
      \<and> (\<forall>x y. constraints_from_counter (fcas_constraints_joint_capacity_constraints m x y))
      \<and> (\<forall>x. constraints_from_counter
                (fcas_constraints_energy_and_regulation_capacity_constraints m x))
      \<and> (\<forall>x n vs mp. inter_create m x n = Inr (vs, mp) \<longrightarrow> from_counter n (map variable_id vs))
      \<and> (\<forall>x y z n vs mp. inter_create_loss_variables m x y z n = Inr (vs, mp)
            \<longrightarrow> from_counter n (map variable_id vs))
      \<and> (\<forall>x n vs. inter_create_weights m x n = Inr vs \<longrightarrow> from_counter n (map variable_id vs))
      \<and> (\<forall>x n l r. inter_create_weights_must_sum_to_one m x n = Inr (l, r)
            \<longrightarrow> from_counter n (map constraint_id r))
      \<and> (\<forall>x y n l r. inter_link_weights_to_inter_flow m x y n = Inr (l, r)
            \<longrightarrow> from_counter n (map dr_constraint_id r))
      \<and> (\<forall>x y z n l r. inter_link_inter_loss_to_interpolation_weights m x y z n = Inr (l, r)
            \<longrightarrow> from_counter n (map dr_constraint_id r))
      \<and> (\<forall>x n. from_counter n (map snd (hf_save_index m x n)))
      \<and> (\<forall>f n dv lhs. elastic_constraints_create_deficit_variables m f n = Inr (dv, lhs)
            \<longrightarrow> from_counter n (map d_variable_id dv)))"

text \<open>
  The ids that a call has created are fresh when they lie between the counter before the
  call and the counter after it, and the counter has not gone down.
\<close>

definition fresh :: "nat \<Rightarrow> nat \<Rightarrow> nat list \<Rightarrow> bool" where
  "fresh before after ids = (before \<le> after \<and> (\<forall>i \<in> set ids. before \<le> i \<and> i < after))"

section \<open>The modules that are not among the sources, modelled\<close>

text \<open>
  Modelled from the spec: \<^verbatim>\<open>helper_functions.save_index\<close> is not among the sources. The
  rows get consecutive ids from the counter upwards (section 4.1); the docstring of
  \<^verbatim>\<open>set_generic_constraints\<close> shows the ids 0 and 1 for two rows and the counter 0.
\<close>

definition nempy_save_index :: "'a list \<Rightarrow> nat \<Rightarrow> ('a \<times> nat) list" where
  "nempy_save_index rows start = zip rows [start ..< start + length rows]"

definition bare_constraint :: "nat \<Rightarrow> relation \<Rightarrow> real \<Rightarrow> rhs_row" where
  "bare_constraint i t x =
     \<lparr> r_set = None, r_unit = None, r_service = None, r_region = None,
       r_interconnector = None, constraint_id = i, r_type = t, rhs = x, slack = None \<rparr>"

definition bare_variable :: "nat \<Rightarrow> real \<Rightarrow> npfloat \<Rightarrow> var_row" where
  "bare_variable i lo hi =
     \<lparr> variable_id = i, v_unit = None, v_service = None, v_capacity_band = None,
       v_interconnector = None, v_loss_segment = None, v_break_point = None,
       lower_bound = lo, upper_bound = hi, v_type = ''continuous'', v_value = None \<rparr>"

definition unit_term :: "nat \<Rightarrow> string \<Rightarrow> string \<Rightarrow> npfloat \<Rightarrow> cmap_row" where
  "unit_term i u sv c = \<lparr> c_constraint_id = i, c_unit = u, c_service = sv, coefficient = c \<rparr>"

text \<open>
  Modelled from the spec: \<^verbatim>\<open>variable_ids.bids\<close> is not among the sources. One continuous
  variable for every bid band that is not zero, from 0 to the volume of the band, numbered
  from the counter in the order of the rows and bands; a band of volume zero gets no
  variable and no id (section 4.3, and lines 106 to 108 of the docstring). Every variable
  is mapped to its unit and, through the unit information, to the region of the unit.
\<close>

definition bid_service :: "bid_row \<Rightarrow> string" where
  "bid_service row = (case b_service row of None \<Rightarrow> ''energy'' | Some sv \<Rightarrow> sv)"

definition stack_bids :: "bid_row list \<Rightarrow> (string \<times> string \<times> string \<times> real) list" where
  "stack_bids frame =
     concat (map (\<lambda>row. map (\<lambda>(band, x). (b_unit row, bid_service row, band, x)) (b_bands row))
       frame)"

definition bid_variable :: "(string \<times> string \<times> string \<times> real) \<times> nat \<Rightarrow> var_row" where
  "bid_variable bi =
     (case bi of ((u, sv, band, volume), i) \<Rightarrow>
        (bare_variable i 0 (Fin volume))
          \<lparr> v_unit := Some u, v_service := Some sv, v_capacity_band := Some band \<rparr>)"

definition nempy_variable_bids ::
    "bid_row list \<Rightarrow> unit_info option \<Rightarrow> nat \<Rightarrow> (var_row list \<times> vmap_row list \<times> vmap_row list) raises" where
  "nempy_variable_bids volume_bids info start =
     (case info of
        None \<Rightarrow> Inl TypeError
      | Some units \<Rightarrow>
          (let offered = nempy_save_index
                 (filter (\<lambda>(u, sv, band, volume). volume \<noteq> 0) (stack_bids volume_bids)) start
           in Inr (map bid_variable offered,
                   map (\<lambda>((u, sv, band, volume), i).
                          \<lparr> m_variable_id = i, m_key = u, m_service = sv, m_coefficient = 1 \<rparr>)
                       offered,
                   map (\<lambda>(((u, sv, band, volume), i), (u', region)).
                          \<lparr> m_variable_id = i, m_key = region, m_service = sv, m_coefficient = 1 \<rparr>)
                       (merge_on (\<lambda>b. fst (fst b)) fst offered
                          (zip (ui_unit units) (ui_region units))))))"

text \<open>
  Modelled from the spec: \<^verbatim>\<open>objective_function.bids\<close> and
  \<^verbatim>\<open>objective_function.scale_by_loss_factors\<close> are not among the sources. The cost of the
  variable of a band is the price bid for that unit, service and band; scaling divides
  the cost by the loss factor of the unit (section 4.3).
\<close>

definition nempy_objective_bids :: "var_row list \<Rightarrow> bid_row list \<Rightarrow> cost_row list raises" where
  "nempy_objective_bids variables price_bids =
     Inr (map (\<lambda>(v, (u, sv, band, price)).
                 \<lparr> o_variable_id = variable_id v, o_unit = Some u, o_service = Some sv,
                   o_capacity_band = Some band, cost = Fin price \<rparr>)
            (merge_on (\<lambda>v. (v_unit v, v_service v, v_capacity_band v))
               (\<lambda>(u, sv, band, price). (Some u, Some sv, Some band))
               variables (stack_bids price_bids)))"

definition nempy_scale_by_loss_factors :: "cost_row list \<Rightarrow> unit_info \<Rightarrow> cost_row list raises" where
  "nempy_scale_by_loss_factors costs units =
     (case ui_loss_factor units of
        None \<Rightarrow> Inl KeyError
      | Some factors \<Rightarrow>
          Inr (map (\<lambda>(c, (u, loss_factor)). c \<lparr> cost := np_div (cost c) (Fin loss_factor) \<rparr>)
                 (merge_on o_unit (\<lambda>ul. Some (fst ul)) costs (zip (ui_unit units) factors))))"

text \<open>
  Modelled from the spec: the module \<^verbatim>\<open>unit_constraints\<close> is not among the sources. Section
  4.4 gives the limits and section 4.5 the maximum availability; the docstrings of the
  methods show the tables.
\<close>

definition nempy_capacity ::
    "(string \<times> real) list \<Rightarrow> nat \<Rightarrow> (rhs_row list \<times> cmap_row list) raises" where
  "nempy_capacity unit_limits start =
     (let numbered = nempy_save_index unit_limits start
      in Inr (map (\<lambda>((u, capacity), i). (bare_constraint i LE capacity) \<lparr> r_unit := Some u \<rparr>)
                numbered,
              map (\<lambda>((u, capacity), i). unit_term i u ''energy'' (Fin 1)) numbered))"

definition nempy_ramp_up ::
    "(string \<times> real \<times> real) list \<Rightarrow> nat \<Rightarrow> real \<Rightarrow> (rhs_row list \<times> cmap_row list) raises" where
  "nempy_ramp_up unit_limits start interval =
     (let numbered = nempy_save_index unit_limits start
      in Inr (map (\<lambda>((u, initial_output, rate), i).
                     (bare_constraint i LE (initial_output + rate * (interval / 60)))
                       \<lparr> r_unit := Some u \<rparr>) numbered,
              map (\<lambda>((u, initial_output, rate), i). unit_term i u ''energy'' (Fin 1)) numbered))"

definition nempy_ramp_down ::
    "(string \<times> real \<times> real) list \<Rightarrow> nat \<Rightarrow> real \<Rightarrow> (rhs_row list \<times> cmap_row list) raises" where
  "nempy_ramp_down unit_limits start interval =
     (let numbered = nempy_save_index unit_limits start
      in Inr (map (\<lambda>((u, initial_output, rate), i).
                     (bare_constraint i GE (initial_output - rate * (interval / 60)))
                       \<lparr> r_unit := Some u \<rparr>) numbered,
              map (\<lambda>((u, initial_output, rate), i). unit_term i u ''energy'' (Fin 1)) numbered))"

definition nempy_fcas_max_availability ::
    "(string \<times> string \<times> real) list \<Rightarrow> nat \<Rightarrow> (rhs_row list \<times> cmap_row list) raises" where
  "nempy_fcas_max_availability offers start =
     (let numbered = nempy_save_index offers start
      in Inr (map (\<lambda>((u, sv, most), i).
                     (bare_constraint i LE most) \<lparr> r_unit := Some u, r_service := Some sv \<rparr>)
                numbered,
              map (\<lambda>((u, sv, most), i). unit_term i u sv (Fin 1)) numbered))"

text \<open>
  Modelled from the spec: the module \<^verbatim>\<open>market_constraints\<close> is not among the sources. One
  equality for the demand of every region, and one constraint for every set of FCAS
  requirements, which takes the service in every region of the set; the docstrings of
  \<^verbatim>\<open>set_demand_constraints\<close> and \<^verbatim>\<open>set_fcas_requirements_constraints\<close> show the tables.
\<close>

definition nempy_energy ::
    "(string \<times> real) list \<Rightarrow> nat \<Rightarrow> (rhs_row list \<times> rmap_row list) raises" where
  "nempy_energy demand start =
     (let numbered = nempy_save_index demand start
      in Inr (map (\<lambda>((region, d), i). (bare_constraint i EQ d) \<lparr> r_region := Some region \<rparr>)
                numbered,
              map (\<lambda>((region, d), i). (i, region, ''energy'', 1)) numbered))"

definition nempy_fcas ::
    "(string \<times> string \<times> string \<times> real \<times> relation option) list \<Rightarrow> nat
       \<Rightarrow> (rhs_row list \<times> rmap_row list) raises" where
  "nempy_fcas requirements start =
     (let sets = nempy_save_index (remdups (map fst requirements)) start
      in Inr (map (\<lambda>((name, i), (name', sv, region, volume, t)).
                     (bare_constraint i (case t of None \<Rightarrow> EQ | Some r \<Rightarrow> r) volume)
                       \<lparr> r_set := Some name \<rparr>)
                (concat (map (\<lambda>si. take 1 (merge_on fst fst [si] requirements)) sets)),
              map (\<lambda>((name', sv, region, volume, t), (name, i)). (i, region, sv, 1))
                (merge_on fst fst requirements sets)))"

text \<open>
  Modelled from the spec: the module \<^verbatim>\<open>fcas_constraints\<close> is not among the sources.

  Joint ramping (section 4.5): a unit that offers \<^verbatim>\<open>raise_reg\<close> gets
  \<^verbatim>\<open>energy + raise_reg <= initial_output + ramp_up_rate * (interval / 60)\<close>, one that offers
  \<^verbatim>\<open>lower_reg\<close> gets \<^verbatim>\<open>energy - lower_reg >= initial_output - ramp_down_rate * (interval / 60)\<close>.
\<close>

definition nempy_joint_ramping_constraints ::
    "(string \<times> string) list \<Rightarrow> (string \<times> real \<times> real \<times> real) list \<Rightarrow> (string \<times> string) list
       \<Rightarrow> real \<Rightarrow> nat \<Rightarrow> (rhs_row list \<times> cmap_row list) raises" where
  "nempy_joint_ramping_constraints regulation_units unit_limits types interval start =
     (let numbered = nempy_save_index (merge_on fst fst regulation_units unit_limits) start
      in Inr (map (\<lambda>(((u, sv), (u', initial_output, up, down)), i).
                     (if sv = ''raise_reg''
                      then bare_constraint i LE (initial_output + up * (interval / 60))
                      else bare_constraint i GE (initial_output - down * (interval / 60)))
                       \<lparr> r_unit := Some u \<rparr>) numbered,
              map (\<lambda>(((u, sv), limits), i).
                     unit_term i u sv (Fin (if sv = ''raise_reg'' then 1 else - 1))) numbered
              @ map (\<lambda>(((u, sv), limits), i). unit_term i u ''energy'' (Fin 1)) numbered))"

text \<open>
  Joint capacity and energy and regulation capacity (section 4.5): for every trapezium
  the upper constraint
  \<^verbatim>\<open>energy + ((enablement_max - high_break_point) / max_availability) * service [+ raise_reg]
  <= enablement_max\<close> and the lower constraint
  \<^verbatim>\<open>energy - ((low_break_point - enablement_min) / max_availability) * service [- lower_reg]
  >= enablement_min\<close>; the regulation terms stand in the joint capacity constraints of the
  contingency services only. The upper constraints are numbered first, then the lower
  ones, and the map lists the energy terms, the service terms and the regulation terms
  of the upper constraints, then those of the lower ones, as the docstrings of the two
  methods print them (lines 1090 to 1102 and 1198 to 1208). \<^verbatim>\<open>markets.py\<close> also hands
  the dispatch types of the units to \<^verbatim>\<open>joint_capacity_constraints\<close>; the specification
  gives them no part in these constraints, and the model gives them none.
\<close>

definition slope_upper :: "trapezium \<Rightarrow> npfloat" where
  "slope_upper t = np_div (Fin (enablement_max t - high_break_point t)) (Fin (max_availability t))"

definition slope_lower :: "trapezium \<Rightarrow> npfloat" where
  "slope_lower t = np_div (Fin (low_break_point t - enablement_min t)) (Fin (max_availability t))"

definition upper_constraint :: "trapezium \<times> nat \<Rightarrow> rhs_row" where
  "upper_constraint ti =
     (bare_constraint (snd ti) LE (enablement_max (fst ti)))
       \<lparr> r_unit := Some (t_unit (fst ti)), r_service := Some (t_service (fst ti)) \<rparr>"

definition lower_constraint :: "trapezium \<times> nat \<Rightarrow> rhs_row" where
  "lower_constraint ti =
     (bare_constraint (snd ti) GE (enablement_min (fst ti)))
       \<lparr> r_unit := Some (t_unit (fst ti)), r_service := Some (t_service (fst ti)) \<rparr>"

definition energy_term :: "trapezium \<times> nat \<Rightarrow> cmap_row" where
  "energy_term ti = unit_term (snd ti) (t_unit (fst ti)) ''energy'' (Fin 1)"

definition upper_service_term :: "trapezium \<times> nat \<Rightarrow> cmap_row" where
  "upper_service_term ti =
     unit_term (snd ti) (t_unit (fst ti)) (t_service (fst ti)) (slope_upper (fst ti))"

definition lower_service_term :: "trapezium \<times> nat \<Rightarrow> cmap_row" where
  "lower_service_term ti =
     unit_term (snd ti) (t_unit (fst ti)) (t_service (fst ti)) (np_neg (slope_lower (fst ti)))"

definition raise_reg_term :: "trapezium \<times> nat \<Rightarrow> cmap_row" where
  "raise_reg_term ti = unit_term (snd ti) (t_unit (fst ti)) ''raise_reg'' (Fin 1)"

definition lower_reg_term :: "trapezium \<times> nat \<Rightarrow> cmap_row" where
  "lower_reg_term ti = unit_term (snd ti) (t_unit (fst ti)) ''lower_reg'' (Fin (- 1))"

definition nempy_joint_capacity_constraints ::
    "trapezium list \<Rightarrow> (string \<times> string) list \<Rightarrow> nat \<Rightarrow> (rhs_row list \<times> cmap_row list) raises" where
  "nempy_joint_capacity_constraints contingency_trapeziums types start =
     (let upper = nempy_save_index contingency_trapeziums start;
          lower = nempy_save_index contingency_trapeziums
                    (start + length contingency_trapeziums)
      in Inr (map upper_constraint upper @ map lower_constraint lower,
              map energy_term upper @ map upper_service_term upper @ map raise_reg_term upper
              @ map energy_term lower @ map lower_service_term lower @ map lower_reg_term lower))"

definition nempy_energy_and_regulation_capacity_constraints ::
    "trapezium list \<Rightarrow> nat \<Rightarrow> (rhs_row list \<times> cmap_row list) raises" where
  "nempy_energy_and_regulation_capacity_constraints regulation_trapeziums start =
     (let upper = nempy_save_index regulation_trapeziums start;
          lower = nempy_save_index regulation_trapeziums
                    (start + length regulation_trapeziums)
      in Inr (map upper_constraint upper @ map lower_constraint lower,
              map energy_term upper @ map upper_service_term upper
              @ map energy_term lower @ map lower_service_term lower))"

text \<open>
  Modelled from the spec: the module \<^verbatim>\<open>interconnectors\<close> is not among the sources (section
  4.6, and the docstrings of \<^verbatim>\<open>set_interconnectors\<close> and \<^verbatim>\<open>set_interconnector_losses\<close>). One
  flow variable for every interconnector between its limits, with +1 in the balance of
  the region it flows to and -1 in that of the region it comes from; one loss variable
  for every loss function, which takes the share of the losses from each of the two
  regions; one weight between 0 and 1 for every break point; and for every
  interconnector the three constraints on its weights.
\<close>

definition nempy_create ::
    "(string \<times> string \<times> string \<times> real \<times> real \<times> real \<times> real) list \<Rightarrow> nat
       \<Rightarrow> (var_row list \<times> vmap_row list) raises" where
  "nempy_create definitions start =
     (let numbered = nempy_save_index definitions start
      in Inr (map (\<lambda>((i, to_region, from_region, most, least, lf), n).
                     (bare_variable n least (Fin most)) \<lparr> v_interconnector := Some i \<rparr>) numbered,
              map (\<lambda>((i, to_region, from_region, rest), n).
                     \<lparr> m_variable_id = n, m_key = to_region, m_service = ''energy'',
                       m_coefficient = 1 \<rparr>) numbered
              @ map (\<lambda>((i, to_region, from_region, rest), n).
                     \<lparr> m_variable_id = n, m_key = from_region, m_service = ''energy'',
                       m_coefficient = - 1 \<rparr>) numbered))"

definition flow_bound :: "var_row \<Rightarrow> real" where
  "flow_bound v =
     max \<bar>lower_bound v\<bar> (case upper_bound v of Fin x \<Rightarrow> \<bar>x\<bar> | _ \<Rightarrow> 0)"

definition nempy_create_loss_variables ::
    "var_row list \<Rightarrow> vmap_row list \<Rightarrow> loss_function_row list \<Rightarrow> nat
       \<Rightarrow> (var_row list \<times> vmap_row list) raises" where
  "nempy_create_loss_variables flows flow_map loss_functions start =
     (let numbered = nempy_save_index
            (merge_on (\<lambda>l. Some (fst l)) v_interconnector loss_functions flows) start
      in Inr (map (\<lambda>((l, flow), n).
                     (bare_variable n (- flow_bound flow) (Fin (flow_bound flow)))
                       \<lparr> v_interconnector := Some (fst l) \<rparr>) numbered,
              map (\<lambda>((((i, share, f), flow), n), r).
                     \<lparr> m_variable_id = n, m_key = m_key r, m_service = ''energy'',
                       m_coefficient =
                         (if m_coefficient r = 1 then - (1 - share) else - share) \<rparr>)
                (merge_on (\<lambda>x. variable_id (snd (fst x))) m_variable_id numbered flow_map)))"

definition nempy_create_weights :: "break_point_row list \<Rightarrow> nat \<Rightarrow> var_row list raises" where
  "nempy_create_weights break_points start =
     Inr (map (\<lambda>((i, segment, point), n).
                 (bare_variable n 0 (Fin 1))
                   \<lparr> v_interconnector := Some i, v_loss_segment := Some segment,
                     v_break_point := Some point \<rparr>)
            (nempy_save_index break_points start))"

definition weighted :: "var_row list \<Rightarrow> nat \<Rightarrow> (string option \<times> nat) list" where
  "weighted weights start = nempy_save_index (remdups (map v_interconnector weights)) start"

definition nempy_create_weights_must_sum_to_one ::
    "var_row list \<Rightarrow> nat \<Rightarrow> (lhs_row list \<times> rhs_row list) raises" where
  "nempy_create_weights_must_sum_to_one weights start =
     Inr (map (\<lambda>(w, (i, n)). \<lparr> l_variable_id = variable_id w, l_constraint_id = n,
                               l_coefficient = 1 \<rparr>)
            (merge_on v_interconnector fst weights (weighted weights start)),
          map (\<lambda>(i, n). (bare_constraint n EQ 1) \<lparr> r_interconnector := i \<rparr>)
            (weighted weights start))"

definition interconnector_name :: "string option \<Rightarrow> string" where
  "interconnector_name i = (case i of None \<Rightarrow> [] | Some name \<Rightarrow> name)"

definition nempy_link_weights_to_inter_flow ::
    "var_row list \<Rightarrow> var_row list \<Rightarrow> nat \<Rightarrow> (lhs_row list \<times> dynamic_rhs_row list) raises" where
  "nempy_link_weights_to_inter_flow weights flows start =
     Inr (map (\<lambda>(w, (i, n)).
                 \<lparr> l_variable_id = variable_id w, l_constraint_id = n,
                   l_coefficient = (case v_break_point w of None \<Rightarrow> 0 | Some x \<Rightarrow> x) \<rparr>)
            (merge_on v_interconnector fst weights (weighted weights start)),
          map (\<lambda>((i, n), flow).
                 \<lparr> dr_interconnector = interconnector_name i, dr_constraint_id = n,
                   dr_type = EQ, dr_rhs_variable_id = variable_id flow \<rparr>)
            (concat (map (\<lambda>c. take 1 (merge_on fst v_interconnector [c] flows))
               (weighted weights start))))"

definition nempy_link_inter_loss_to_interpolation_weights ::
    "var_row list \<Rightarrow> var_row list \<Rightarrow> loss_function_row list \<Rightarrow> nat
       \<Rightarrow> (lhs_row list \<times> dynamic_rhs_row list) raises" where
  "nempy_link_inter_loss_to_interpolation_weights weights loss_variables loss_functions start =
     Inr (map (\<lambda>((w, (i, n)), (name, share, f)).
                 \<lparr> l_variable_id = variable_id w, l_constraint_id = n,
                   l_coefficient = f (case v_break_point w of None \<Rightarrow> 0 | Some x \<Rightarrow> x) \<rparr>)
            (merge_on (\<lambda>x. fst (snd x)) (\<lambda>l. Some (fst l))
               (merge_on v_interconnector fst weights (weighted weights start)) loss_functions),
          map (\<lambda>((i, n), loss).
                 \<lparr> dr_interconnector = interconnector_name i, dr_constraint_id = n,
                   dr_type = EQ, dr_rhs_variable_id = variable_id loss \<rparr>)
            (concat (map (\<lambda>c. take 1 (merge_on fst v_interconnector [c] loss_variables))
               (weighted weights start))))"

text \<open>
  Modelled from the spec: \<^verbatim>\<open>elastic_constraints.create_deficit_variables\<close> is not among the
  sources. One deficit variable for every constraint, numbered from the counter in the
  order of the rows, bounded by 0 and infinity, continuous, its cost the cost of the row,
  and one row of the left hand side for it; a constraint of type \<^verbatim>\<open>=\<close> ends the call with
  \<open>UnsupportedElasticityError\<close> (section 4.7). The frame it returns has the column
  \<^verbatim>\<open>cost\<close> (line 2035 reads it), so constraints without that column are a \<^verbatim>\<open>KeyError\<close>.
  The specification gives the coefficient +1 to \<^verbatim>\<open><=\<close> and -1 to \<^verbatim>\<open>>=\<close>; the example in the
  docstring of \<^verbatim>\<open>make_constraints_elastic\<close> (lines 1918 to 1945) prints +1 for the
  constraint of type \<^verbatim>\<open>>=\<close> and -1 for the one of type \<^verbatim>\<open><=\<close>, and the model follows the
  docstring.
\<close>

definition deficit_coefficient :: "relation \<Rightarrow> real" where
  "deficit_coefficient t = (if t = GE then 1 else - 1)"

definition deficit_of :: "(rhs_row \<times> real) \<times> nat \<Rightarrow> deficit_row" where
  "deficit_of ci =
     \<lparr> d_variable_id = snd ci, d_cost = snd (fst ci), d_lower_bound = 0,
       d_upper_bound = PInf, d_type = ''continuous'' \<rparr>"

definition deficit_term :: "(rhs_row \<times> real) \<times> nat \<Rightarrow> lhs_row" where
  "deficit_term ci =
     \<lparr> l_variable_id = snd ci, l_constraint_id = constraint_id (fst (fst ci)),
       l_coefficient = deficit_coefficient (r_type (fst (fst ci))) \<rparr>"

definition nempy_create_deficit_variables :: deficit_helper where
  "nempy_create_deficit_variables constraint_rhs start =
     (case constraint_rhs of
        NoCostColumn rows \<Rightarrow> Inl KeyError
      | WithCost rows \<Rightarrow>
          (if list_ex (\<lambda>rc. r_type (fst rc) = EQ) rows then Inl UnsupportedElasticityError
           else Inr (map deficit_of (nempy_save_index rows start),
                     map deficit_term (nempy_save_index rows start))))"

text \<open>
  Modelled from the spec: the module \<^verbatim>\<open>check\<close> is not among the sources. Of the decorators
  the model keeps those whose verdict depends on the market or on more than one row
  (section 7, and the \<^verbatim>\<open>Raises\<close> parts of the docstrings): a call that needs the bid
  variables or the interconnectors before they exist is a \<^verbatim>\<open>ModelBuildError\<close>, as are
  bids of a unit without unit information; two rows for one key are a
  \<^verbatim>\<open>RepeatedRowError\<close>; prices that fall from one band to the next are
  \<^verbatim>\<open>BidsNotMonotonicIncreasing\<close>. The decorators run from the top one down. The checks of
  column names, types and single values are taken as passed.
\<close>

definition energy_bid_ids_exist :: "spot \<Rightarrow> error option" where
  "energy_bid_ids_exist self =
     (if decision_variables self ''bids'' = None then Some ModelBuildError else None)"

definition repeated_rows :: "'k list \<Rightarrow> error option" where
  "repeated_rows keys = (if distinct keys then None else Some RepeatedRowError)"

definition first_error :: "error option list \<Rightarrow> error option" where
  "first_error verdicts = (case List.map_filter id verdicts of [] \<Rightarrow> None | e # es \<Rightarrow> Some e)"

definition bid_keys :: "bid_row list \<Rightarrow> (string \<times> string) list" where
  "bid_keys frame = map (\<lambda>row. (b_unit row, bid_service row)) frame"

definition all_units_have_info :: "spot \<Rightarrow> bid_row list \<Rightarrow> error option" where
  "all_units_have_info self frame =
     (case unit_info self of
        None \<Rightarrow> Some ModelBuildError
      | Some units \<Rightarrow>
          (if list_all (\<lambda>row. b_unit row \<in> set (ui_unit units)) frame then None
           else Some ModelBuildError))"

definition bid_prices_monotonic_increasing :: "bid_row list \<Rightarrow> error option" where
  "bid_prices_monotonic_increasing frame =
     (if list_all (\<lambda>row. sorted (map snd (b_bands row))) frame then None
      else Some BidsNotMonotonicIncreasing)"

definition interconnectors_exist :: "spot \<Rightarrow> loss_function_row list \<Rightarrow> error option" where
  "interconnectors_exist self loss_functions =
     (case decision_variables self ''interconnectors'' of
        None \<Rightarrow> Some ModelBuildError
      | Some flows \<Rightarrow>
          (if list_all (\<lambda>l. Some (fst l) \<in> set (map v_interconnector flows)) loss_functions
           then None else Some ModelBuildError))"

fun nempy_check :: "spot \<Rightarrow> call \<Rightarrow> error option" where
  "nempy_check self (SetUnitVolumeBids volume_bids) =
     first_error [repeated_rows (bid_keys volume_bids), all_units_have_info self volume_bids]"
| "nempy_check self (SetUnitPriceBids price_bids) =
     first_error [energy_bid_ids_exist self, repeated_rows (bid_keys price_bids),
       bid_prices_monotonic_increasing price_bids]"
| "nempy_check self (SetUnitCapacityConstraints limits) =
     first_error [energy_bid_ids_exist self, repeated_rows (map fst limits)]"
| "nempy_check self (SetUnitRampUpConstraints limits) =
     first_error [energy_bid_ids_exist self, repeated_rows (map fst limits)]"
| "nempy_check self (SetUnitRampDownConstraints limits) = repeated_rows (map fst limits)"
| "nempy_check self (SetDemandConstraints demand) = repeated_rows (map fst demand)"
| "nempy_check self (SetFcasRequirementsConstraints requirements) =
     repeated_rows (map (\<lambda>(name, sv, region, rest). (name, sv, region)) requirements)"
| "nempy_check self (SetFcasMaxAvailability offers) =
     repeated_rows (map (\<lambda>(u, sv, most). (u, sv)) offers)"
| "nempy_check self (SetJointRampingConstraints regulation_units limits) =
     first_error [repeated_rows regulation_units, repeated_rows (map fst limits)]"
| "nempy_check self (SetJointCapacityConstraints trapeziums) =
     repeated_rows (map (\<lambda>t. (t_unit t, t_service t)) trapeziums)"
| "nempy_check self (SetEnergyAndRegulationCapacityConstraints trapeziums) =
     repeated_rows (map (\<lambda>t. (t_unit t, t_service t)) trapeziums)"
| "nempy_check self (SetInterconnectors definitions) = repeated_rows (map fst definitions)"
| "nempy_check self (SetInterconnectorLosses loss_functions break_points) =
     first_error [interconnectors_exist self loss_functions, repeated_rows (map fst loss_functions),
       repeated_rows break_points]"
| "nempy_check self (SetGenericConstraints parameters) = repeated_rows (map g_set parameters)"
| "nempy_check self (LinkUnitsToGenericConstraints coefficients) =
     repeated_rows (map (\<lambda>(name, u, sv, c). (name, u, sv)) coefficients)"
| "nempy_check self (LinkRegionsToGenericConstraints coefficients) =
     repeated_rows (map (\<lambda>(name, region, sv, c). (name, region, sv)) coefficients)"
| "nempy_check self (LinkInterconnectorsToGenericConstraints coefficients) =
     repeated_rows (map (\<lambda>(name, i, c). (name, i)) coefficients)"
| "nempy_check self _ = None"

definition nempy :: modules where
  "nempy =
     \<lparr> check = nempy_check,
       variable_ids_bids = nempy_variable_bids,
       objective_function_bids = nempy_objective_bids,
       objective_function_scale_by_loss_factors = nempy_scale_by_loss_factors,
       unit_constraints_capacity = nempy_capacity,
       unit_constraints_ramp_up = nempy_ramp_up,
       unit_constraints_ramp_down = nempy_ramp_down,
       market_constraints_energy = nempy_energy,
       market_constraints_fcas = nempy_fcas,
       unit_constraints_fcas_max_availability = nempy_fcas_max_availability,
       fcas_constraints_joint_ramping_constraints = nempy_joint_ramping_constraints,
       fcas_constraints_joint_capacity_constraints = nempy_joint_capacity_constraints,
       fcas_constraints_energy_and_regulation_capacity_constraints =
         nempy_energy_and_regulation_capacity_constraints,
       inter_create = nempy_create,
       inter_create_loss_variables = nempy_create_loss_variables,
       inter_create_weights = nempy_create_weights,
       inter_create_weights_must_sum_to_one = nempy_create_weights_must_sum_to_one,
       inter_link_weights_to_inter_flow = nempy_link_weights_to_inter_flow,
       inter_link_inter_loss_to_interpolation_weights =
         nempy_link_inter_loss_to_interpolation_weights,
       hf_save_index = nempy_save_index,
       elastic_constraints_create_deficit_variables = nempy_create_deficit_variables \<rparr>"

section \<open>Notions of the specification\<close>

text \<open>
  The cost that a violation cost supplies for a constraint: the ceiling price of the
  market, the number given, or the cost the table gives to the set of the constraint.
  A constraint whose set is not in the table is not made elastic.
\<close>

definition supplied_cost :: "spot \<Rightarrow> violation_cost \<Rightarrow> rhs_row \<Rightarrow> real option" where
  "supplied_cost self violation_cost r =
     (case violation_cost of
        Str x \<Rightarrow> (if x = ''market_ceiling_price'' then Some (market_ceiling_price self) else None)
      | Num c \<Rightarrow> Some c
      | Frame costs \<Rightarrow> (case r_set r of None \<Rightarrow> None | Some name \<Rightarrow> map_of costs name)
      | Bool b \<Rightarrow> None
      | Other \<Rightarrow> None)"

definition made_elastic :: "spot \<Rightarrow> violation_cost \<Rightarrow> rhs_row list \<Rightarrow> (rhs_row \<times> real) list" where
  "made_elastic self violation_cost rows =
     List.map_filter (\<lambda>r. map_option (Pair r) (supplied_cost self violation_cost r)) rows"

text \<open>
  A violation cost of a type the method does not support: anything but the string
  \<^verbatim>\<open>'market_ceiling_price'\<close>, a number that is no bool, or a frame.
\<close>

definition unsupported_cost :: "violation_cost \<Rightarrow> bool" where
  "unsupported_cost violation_cost =
     (case violation_cost of
        Str x \<Rightarrow> x \<noteq> ''market_ceiling_price''
      | Num c \<Rightarrow> False
      | Frame costs \<Rightarrow> False
      | Bool b \<Rightarrow> True
      | Other \<Rightarrow> True)"

text \<open>
  A violation cost that the method can attach to these constraints: the ceiling price, a
  number, or a table with one row for each of its sets, given that the constraints have
  the column \<^verbatim>\<open>set\<close>.
\<close>

definition cost_applies :: "rhs_row list \<Rightarrow> violation_cost \<Rightarrow> bool" where
  "cost_applies rows violation_cost =
     (case violation_cost of
        Str x \<Rightarrow> x = ''market_ceiling_price''
      | Num c \<Rightarrow> True
      | Frame costs \<Rightarrow> distinct (map fst costs) \<and> list_all (\<lambda>r. r_set r \<noteq> None) rows
      | Bool b \<Rightarrow> False
      | Other \<Rightarrow> False)"

text \<open>A helper that cannot do without the column \<^verbatim>\<open>cost\<close>.\<close>

definition needs_cost_column :: "deficit_helper \<Rightarrow> bool" where
  "needs_cost_column cdv = (\<forall>rows n. \<exists>e. cdv (NoCostColumn rows) n = Inl e)"

text \<open>A helper that gives out no id below the counter.\<close>

definition numbers_from_counter :: "deficit_helper \<Rightarrow> bool" where
  "numbers_from_counter cdv =
     (\<forall>frame n dv lhs. cdv frame n = Inr (dv, lhs) \<longrightarrow>
        from_counter n (map d_variable_id dv) \<and> from_counter n (map l_variable_id lhs))"

definition is_done :: "result \<Rightarrow> bool" where
  "is_done r = (case r of Done s \<Rightarrow> True | _ \<Rightarrow> False)"

definition state_of :: "result \<Rightarrow> spot \<Rightarrow> spot" where
  "state_of r fallback = (case r of Done s \<Rightarrow> s | Raised e s \<Rightarrow> s | NanCounter \<Rightarrow> fallback)"

text \<open>The terms of a constraint in a map: unit, service and coefficient.\<close>

definition terms_of :: "cmap_row list \<Rightarrow> nat \<Rightarrow> (string \<times> string \<times> npfloat) list" where
  "terms_of variable_map i =
     map (\<lambda>r. (c_unit r, c_service r, coefficient r))
       (filter (\<lambda>r. c_constraint_id r = i) variable_map)"

text \<open>The bids without the bands of volume zero.\<close>

definition without_zero_bands :: "bid_row list \<Rightarrow> bid_row list" where
  "without_zero_bands frame =
     map (\<lambda>row. row \<lparr> b_bands := filter (\<lambda>(band, volume). volume \<noteq> 0) (b_bands row) \<rparr>) frame"

text \<open>The price bid for a unit, service and band, and the loss factor of a unit.\<close>

definition price_bid :: "bid_row list \<Rightarrow> string option \<Rightarrow> string option \<Rightarrow> string option \<Rightarrow> real \<Rightarrow> bool" where
  "price_bid price_bids u sv band price =
     list_ex (\<lambda>(u', sv', band', price').
        u = Some u' \<and> sv = Some sv' \<and> band = Some band' \<and> price = price')
       (stack_bids price_bids)"

definition loss_factor_of :: "unit_info \<Rightarrow> string option \<Rightarrow> real \<Rightarrow> bool" where
  "loss_factor_of units u loss_factor =
     (case ui_loss_factor units of
        None \<Rightarrow> False
      | Some factors \<Rightarrow>
          list_ex (\<lambda>(u', factor). u = Some u' \<and> loss_factor = factor)
            (zip (ui_unit units) factors))"

text \<open>
  What \<^verbatim>\<open>set_unit_price_bids\<close> needs of the two functions of the module
  \<^verbatim>\<open>objective_function\<close> (section 4.3 of the specification): \<^verbatim>\<open>bids\<close> gives every variable
  the price bid for its unit, service and band as its cost, and \<^verbatim>\<open>scale_by_loss_factors\<close>
  divides the cost of every row by the loss factor of its unit.
\<close>

definition prices_as_costs :: "modules \<Rightarrow> bool" where
  "prices_as_costs m =
     (\<forall>bids price_bids costs. objective_function_bids m bids price_bids = Inr costs \<longrightarrow>
        (\<forall>c \<in> set costs. \<exists>price.
           price_bid price_bids (o_unit c) (o_service c) (o_capacity_band c) price
           \<and> cost c = Fin price))"

definition divides_by_loss_factors :: "modules \<Rightarrow> bool" where
  "divides_by_loss_factors m =
     (\<forall>costs info scaled.
        objective_function_scale_by_loss_factors m costs info = Inr scaled \<longrightarrow>
        (\<forall>c' \<in> set scaled. \<exists>c \<in> set costs. \<exists>loss_factor.
           loss_factor_of info (o_unit c) loss_factor
           \<and> c' = c \<lparr> cost := np_div (cost c) (Fin loss_factor) \<rparr>))"

section \<open>Examples from the docstrings\<close>

text \<open>
  The market of the docstring of \<^verbatim>\<open>make_constraints_elastic\<close> after
  \<^verbatim>\<open>set_generic_constraints\<close> (lines 1905 to 1921).
\<close>

definition generic_parameters :: "generic_row list" where
  "generic_parameters =
     [\<lparr> g_set = ''A'', g_type = GE, g_rhs = 10 \<rparr>, \<lparr> g_set = ''B'', g_type = LE, g_rhs = - 100 \<rparr>]"

definition generic_market :: spot where
  "generic_market =
     (Spot 5 14000 (- 1000))
       \<lparr> constraints_rhs_and_type :=
           [''generic'' \<mapsto>
              [(bare_constraint 0 GE 10) \<lparr> r_set := Some ''A'' \<rparr>,
               (bare_constraint 1 LE (- 100)) \<lparr> r_set := Some ''B'' \<rparr>]],
         next_constraint_id := 2 \<rparr>"

definition elastic_once :: result where
  "elastic_once = make_constraints_elastic nempy_create_deficit_variables generic_market
     ''generic'' (Str ''market_ceiling_price'')"

definition elastic_twice :: result where
  "elastic_twice = make_constraints_elastic nempy_create_deficit_variables
     (state_of elastic_once generic_market) ''generic'' (Num 1000)"

text \<open>A market with one generic constraint of type \<^verbatim>\<open>=\<close> and one of type \<^verbatim>\<open><=\<close>.\<close>

definition equality_market :: spot where
  "equality_market =
     (Spot 5 14000 (- 1000))
       \<lparr> constraints_rhs_and_type :=
           [''generic'' \<mapsto>
              [(bare_constraint 0 EQ 10) \<lparr> r_set := Some ''A'' \<rparr>,
               (bare_constraint 1 LE (- 100)) \<lparr> r_set := Some ''B'' \<rparr>]],
         next_constraint_id := 2 \<rparr>"

text \<open>
  The example of the docstring of \<^verbatim>\<open>set_joint_capacity_constraints\<close> (lines 1075 to 1102).
\<close>

definition example_trapezium :: trapezium where
  "example_trapezium =
     \<lparr> t_unit = ''A'', t_service = ''raise_6s'', max_availability = 60, enablement_min = 20,
       low_break_point = 40, high_break_point = 60, enablement_max = 80 \<rparr>"

definition example_units :: unit_info where
  "example_units =
     \<lparr> ui_unit = [''A'', ''B''], ui_region = [''NSW'', ''NSW''], ui_loss_factor = None,
       ui_dispatch_type = None \<rparr>"

definition example_market :: spot where
  "example_market = state_of (set_unit_info nempy (Spot 60 14000 (- 1000)) example_units)
     (Spot 60 14000 (- 1000))"

text \<open>
  Bids: units A and B as in the docstring of \<^verbatim>\<open>set_unit_volume_bids\<close>, but the second band
  of A is empty.
\<close>

definition example_volume_bids :: "bid_row list" where
  "example_volume_bids =
     [\<lparr> b_unit = ''A'', b_service = None, b_bands = [(''1'', 20), (''2'', 0), (''3'', 5)] \<rparr>,
      \<lparr> b_unit = ''B'', b_service = None, b_bands = [(''1'', 50), (''2'', 30), (''3'', 10)] \<rparr>]"

definition example_price_bids :: "bid_row list" where
  "example_price_bids =
     [\<lparr> b_unit = ''A'', b_service = None, b_bands = [(''1'', 50), (''2'', 100), (''3'', 100)] \<rparr>,
      \<lparr> b_unit = ''B'', b_service = None, b_bands = [(''1'', 100), (''2'', 130), (''3'', 150)] \<rparr>]"

definition example_units_with_losses :: unit_info where
  "example_units_with_losses = example_units \<lparr> ui_loss_factor := Some [0.9, 1] \<rparr>"

text \<open>
  The market of the docstring of \<^verbatim>\<open>get_fcas_availability\<close> after \<^verbatim>\<open>dispatch\<close> (lines 2801 to
  2896): unit A is dispatched for 100 MW of energy and 5 MW of \<^verbatim>\<open>raise_6s\<close>, unit B for
  95 MW of energy, 5 MW of \<^verbatim>\<open>raise_6s\<close> and 10 MW of \<^verbatim>\<open>raise_reg\<close>, and every constraint has
  the slack that this dispatch leaves.
\<close>

definition offered :: "nat \<Rightarrow> string \<Rightarrow> string \<Rightarrow> real \<Rightarrow> real \<Rightarrow> var_row" where
  "offered i u sv volume x =
     (bare_variable i 0 (Fin volume))
       \<lparr> v_unit := Some u, v_service := Some sv, v_capacity_band := Some ''1'',
         v_value := Some x \<rparr>"

definition with_slack :: "rhs_row list \<Rightarrow> real list \<Rightarrow> rhs_row list" where
  "with_slack rows slacks = map (\<lambda>(r, x). r \<lparr> slack := Some x \<rparr>) (zip rows slacks)"

definition trapezium_B_reg :: trapezium where
  "trapezium_B_reg =
     \<lparr> t_unit = ''B'', t_service = ''raise_reg'', max_availability = 15, enablement_min = 50,
       low_break_point = 65, high_break_point = 95, enablement_max = 110 \<rparr>"

definition trapezium_B_6s :: trapezium where
  "trapezium_B_6s = trapezium_B_reg \<lparr> t_service := ''raise_6s'' \<rparr>"

definition trapezium_A_6s :: trapezium where
  "trapezium_A_6s =
     \<lparr> t_unit = ''A'', t_service = ''raise_6s'', max_availability = 10, enablement_min = 70,
       low_break_point = 80, high_break_point = 100, enablement_max = 110 \<rparr>"

definition fcas_market :: spot where
  "fcas_market =
     (Spot 5 14000 (- 1000))
       \<lparr> decision_variables :=
           [''bids'' \<mapsto>
              [offered 0 ''A'' ''energy'' 100 100, offered 1 ''A'' ''raise_6s'' 10 5,
               offered 2 ''B'' ''energy'' 110 95, offered 3 ''B'' ''raise_6s'' 15 5,
               offered 4 ''B'' ''raise_reg'' 15 10]],
         constraint_to_variable_map_unit_level :=
           [''fcas_max_availability'' \<mapsto>
              [unit_term 0 ''B'' ''raise_reg'' (Fin 1), unit_term 1 ''B'' ''raise_6s'' (Fin 1),
               unit_term 2 ''A'' ''raise_6s'' (Fin 1)],
            ''energy_and_regulation_capacity'' \<mapsto>
              [energy_term (trapezium_B_reg, 3), upper_service_term (trapezium_B_reg, 3),
               energy_term (trapezium_B_reg, 4), lower_service_term (trapezium_B_reg, 4)],
            ''joint_capacity'' \<mapsto>
              map energy_term [(trapezium_B_6s, 5), (trapezium_A_6s, 6)]
              @ map upper_service_term [(trapezium_B_6s, 5), (trapezium_A_6s, 6)]
              @ map raise_reg_term [(trapezium_B_6s, 5), (trapezium_A_6s, 6)]
              @ map energy_term [(trapezium_B_6s, 7), (trapezium_A_6s, 8)]
              @ map lower_service_term [(trapezium_B_6s, 7), (trapezium_A_6s, 8)]
              @ map lower_reg_term [(trapezium_B_6s, 7), (trapezium_A_6s, 8)]],
         constraints_rhs_and_type :=
           [''fcas_max_availability'' \<mapsto>
              with_slack
                [(bare_constraint 0 LE 15) \<lparr> r_unit := Some ''B'', r_service := Some ''raise_reg'' \<rparr>,
                 (bare_constraint 1 LE 15) \<lparr> r_unit := Some ''B'', r_service := Some ''raise_6s'' \<rparr>,
                 (bare_constraint 2 LE 10) \<lparr> r_unit := Some ''A'', r_service := Some ''raise_6s'' \<rparr>]
                [5, 10, 5],
            ''energy_and_regulation_capacity'' \<mapsto>
              with_slack
                [upper_constraint (trapezium_B_reg, 3), lower_constraint (trapezium_B_reg, 4)]
                [5, 35],
            ''joint_capacity'' \<mapsto>
              with_slack
                (map upper_constraint [(trapezium_B_6s, 5), (trapezium_A_6s, 6)]
                 @ map lower_constraint [(trapezium_B_6s, 7), (trapezium_A_6s, 8)])
                [0, 5, 40, 25]],
         next_variable_id := 5, next_constraint_id := 12 \<rparr>"

text \<open>
  The two units of the example, dispatched for 45 MW and 55 MW of energy.
\<close>

definition example_dispatch :: spot where
  "example_dispatch = example_market
     \<lparr> decision_variables :=
         [''bids'' \<mapsto> [offered 0 ''A'' ''energy'' 45 45, offered 1 ''B'' ''energy'' 55 55]] \<rparr>"

text \<open>
  A build of six calls: the unit information, the volume bids of the two units, two
  generic constraints, which are made elastic, a joint capacity constraint, and the generic
  constraints made elastic again.
\<close>

definition example_calls :: "call list" where
  "example_calls =
     [SetUnitInfo example_units, SetUnitVolumeBids example_volume_bids,
      SetGenericConstraints generic_parameters,
      MakeConstraintsElastic ''generic'' (Str ''market_ceiling_price''),
      SetJointCapacityConstraints [example_trapezium],
      MakeConstraintsElastic ''generic'' (Num 1000)]"

text \<open>
  The market of the two units after the volume bids, and after a joint capacity
  constraint for the trapezium of the docstring.
\<close>

definition example_bids_market :: spot where
  "example_bids_market =
     state_of (set_unit_volume_bids nempy example_market example_volume_bids) example_market"

definition example_joint_capacity_market :: spot where
  "example_joint_capacity_market =
     state_of (set_joint_capacity_constraints nempy example_market [example_trapezium])
       example_market"

text \<open>
  The two units with the loss factors 0.9 and 1, their volume bids and their price bids.
\<close>

definition example_losses_market :: spot where
  "example_losses_market =
     state_of (set_unit_volume_bids nempy
         (state_of (set_unit_info nempy (Spot 60 14000 (- 1000)) example_units_with_losses)
            (Spot 60 14000 (- 1000)))
         example_volume_bids)
       (Spot 60 14000 (- 1000))"

definition example_priced_market :: spot where
  "example_priced_market =
     state_of (set_unit_price_bids nempy example_losses_market example_price_bids)
       example_losses_market"

text \<open>
  Volume bids of unit A with nothing but bands of volume zero, and the market of the two
  units as the call with these bids leaves it.
\<close>

definition zero_volume_bids :: "bid_row list" where
  "zero_volume_bids = [\<lparr> b_unit = ''A'', b_service = None, b_bands = [(''1'', 0), (''2'', 0)] \<rparr>]"

definition after_zero_volume_bids :: spot where
  "after_zero_volume_bids =
     state_of (step nempy (SetUnitVolumeBids zero_volume_bids) example_market) example_market"

text \<open>
  The market with the two generic constraints as \<^verbatim>\<open>make_constraints_elastic\<close> leaves it
  when the table of violation costs lists neither of their sets.
\<close>

definition after_unlisted_costs :: spot where
  "after_unlisted_costs =
     state_of (step nempy (MakeConstraintsElastic ''generic'' (Frame [(''C'', 5)])) generic_market)
       generic_market"

section \<open>Properties\<close>

subsection \<open>Numbering, joining and the largest id\<close>

lemma save_index_Nil [simp]: "nempy_save_index [] n = []"
  by (simp add: nempy_save_index_def)

lemma save_index_Cons [simp]:
  "nempy_save_index (x # xs) n = (x, n) # nempy_save_index xs (Suc n)"
  by (simp add: nempy_save_index_def upt_rec)

lemma length_save_index [simp]: "length (nempy_save_index rows n) = length rows"
  by (simp add: nempy_save_index_def)

lemma map_fst_save_index [simp]: "map fst (nempy_save_index rows n) = rows"
  by (simp add: nempy_save_index_def)

lemma map_snd_save_index [simp]: "map snd (nempy_save_index rows n) = [n ..< n + length rows]"
  by (simp add: nempy_save_index_def)

lemma save_index_nth:
  "i < length rows \<Longrightarrow> nempy_save_index rows n ! i = (rows ! i, n + i)"
  by (simp add: nempy_save_index_def)

lemma save_index_bounds:
  assumes "xi \<in> set (nempy_save_index rows n)"
  shows "n \<le> snd xi \<and> snd xi < n + length rows"
proof -
  have "snd xi \<in> snd ` set (nempy_save_index rows n)" using assms by (rule imageI)
  then have "snd xi \<in> set [n ..< n + length rows]"
    by (simp only: set_map[symmetric] map_snd_save_index)
  then show ?thesis by simp
qed

lemma merge_on_Nil [simp]: "merge_on ka kb [] ys = []"
  by (simp add: merge_on_def)

lemma merge_on_Cons [simp]:
  "merge_on ka kb (x # xs) ys = map (Pair x) (filter (\<lambda>y. kb y = ka x) ys) @ merge_on ka kb xs ys"
  by (simp add: merge_on_def)

lemma set_merge_on:
  "set (merge_on ka kb xs ys) = {(x, y). x \<in> set xs \<and> y \<in> set ys \<and> kb y = ka x}"
  by (induction xs) auto

lemma filter_key_map_of:
  "distinct (map fst costs) \<Longrightarrow>
   map snd (filter (\<lambda>sc. fst sc = name) costs) = (case map_of costs name of None \<Rightarrow> [] | Some c \<Rightarrow> [c])"
proof (induction costs)
  case Nil
  then show ?case by simp
next
  case (Cons a costs)
  then show ?case
    by (cases a) (auto split: option.splits simp: map_of_eq_None_iff image_iff filter_empty_conv
        dest: map_of_SomeD)
qed

lemma merge_costs:
  assumes "distinct (map fst costs)" and "\<forall>r \<in> set rows. r_set r \<noteq> None"
  shows "map (\<lambda>(r, sc). (r, snd sc)) (merge_on r_set (\<lambda>sc. Some (fst sc)) rows costs)
         = made_elastic s (Frame costs) rows"
  using assms(2)
proof (induction rows)
  case Nil
  then show ?case by (simp add: made_elastic_def map_filter_simps)
next
  case (Cons r rows)
  from Cons.prems obtain name where name: "r_set r = Some name" by auto
  have "map (\<lambda>x. (r, snd x)) (filter (\<lambda>sc. Some (fst sc) = r_set r) costs)
        = map (Pair r) (map snd (filter (\<lambda>sc. fst sc = name) costs))"
    by (simp add: name)
  also have "\<dots> = (case map_of costs name of None \<Rightarrow> [] | Some c \<Rightarrow> [(r, c)])"
    by (simp add: filter_key_map_of[OF assms(1)] split: option.splits)
  finally have head: "map (\<lambda>x. (r, snd x)) (filter (\<lambda>sc. Some (fst sc) = r_set r) costs)
        = (case map_of costs name of None \<Rightarrow> [] | Some c \<Rightarrow> [(r, c)])" .
  have tail: "map (\<lambda>(r, sc). (r, snd sc)) (merge_on r_set (\<lambda>sc. Some (fst sc)) rows costs)
         = made_elastic s (Frame costs) rows"
    using Cons by simp
  show ?case
    using head tail
    by (simp add: made_elastic_def map_filter_simps supplied_cost_def name comp_def
        split: option.splits)
qed

lemma attach_cost_made_elastic:
  assumes "attach_cost s (Some rows) vc = Inr (Some (WithCost costed))"
  shows "costed = made_elastic s vc rows"
proof (cases vc)
  case (Str x)
  with assms show ?thesis
    by (simp add: attach_cost_def made_elastic_def supplied_cost_def
        map_filter_def comp_def split: if_splits)
next
  case (Num c)
  with assms show ?thesis
    by (simp add: attach_cost_def made_elastic_def supplied_cost_def map_filter_def comp_def)
next
  case (Bool b)
  with assms show ?thesis by (simp add: attach_cost_def)
next
  case (Frame costs)
  with assms have d: "distinct (map fst costs)" and n: "\<forall>r \<in> set rows. r_set r \<noteq> None"
    and c: "costed = map (\<lambda>(r, sc). (r, snd sc)) (merge_on r_set (\<lambda>sc. Some (fst sc)) rows costs)"
    by (auto simp: attach_cost_def split: if_splits)
  show ?thesis unfolding c Frame by (rule merge_costs[OF d n])
next
  case Other
  with assms show ?thesis by (simp add: attach_cost_def)
qed

lemma py_max_Inr:
  assumes "py_max xs = Inr t"
  shows "xs \<noteq> [] \<and> t \<in> set xs \<and> (\<forall>x \<in> set xs. x \<le> t)"
proof (cases xs)
  case Nil
  with assms show ?thesis by simp
next
  case (Cons x ys)
  with assms have "t = fold max ys x" by simp
  then have t: "t = Max (set (x # ys))" by (simp only: Max.set_eq_fold)
  show ?thesis unfolding Cons t using Max_in[of "set (x # ys)"] Max_ge[of "set (x # ys)"]
    by auto
qed

lemma py_max_Inl: "py_max xs = Inl e \<Longrightarrow> xs = [] \<and> e = ValueError"
  by (cases xs) auto

lemma attach_cost_None: "attach_cost s None vc \<noteq> Inr (Some frame)"
  by (cases vc) (auto simp: attach_cost_def)

lemma attach_cost_unsupported:
  "unsupported_cost vc \<Longrightarrow> attach_cost s found vc = Inr (map_option NoCostColumn found)"
  by (cases vc) (auto simp: attach_cost_def unsupported_cost_def)

lemma attach_cost_applies:
  "cost_applies rows vc \<Longrightarrow>
   attach_cost s (Some rows) vc = Inr (Some (WithCost (made_elastic s vc rows)))"
proof -
  assume a: "cost_applies rows vc"
  then obtain costed where c: "attach_cost s (Some rows) vc = Inr (Some (WithCost costed))"
    by (cases vc) (auto simp: attach_cost_def cost_applies_def list_all_iff)
  from attach_cost_made_elastic[OF c] c show ?thesis by simp
qed

lemma elastic_done:
  assumes "make_constraints_elastic cdv s k vc = Done s'"
  shows "\<exists>rows frame dv lhs t.
     find_constraints s k = Some rows
     \<and> attach_cost s (Some rows) vc = Inr (Some frame)
     \<and> cdv frame (next_variable_id s) = Inr (dv, lhs)
     \<and> py_max (map d_variable_id dv) = Inr t
     \<and> decision_variables s' = (decision_variables s)(deficit_key k \<mapsto> map deficit_variable dv)
     \<and> objective_function_components s' =
         (objective_function_components s)(deficit_key k \<mapsto> map deficit_cost dv)
     \<and> lhs_coefficients s' = (lhs_coefficients s)(deficit_key k \<mapsto> lhs)
     \<and> next_variable_id s' = t + 1"
proof (cases "find_constraints s k")
  case None
  with assms attach_cost_None[of s vc] show ?thesis
    by (auto simp: make_constraints_elastic_def Let_def split: sum.splits option.splits)
next
  case (Some rows)
  with assms show ?thesis
    by (auto simp: make_constraints_elastic_def Let_def split: sum.splits option.splits)
qed

lemma elastic_raised_elsewhere:
  assumes "make_constraints_elastic cdv s k vc = Raised e s'" and "e \<noteq> ValueError"
  shows "s' = s"
  using assms
  by (auto simp: make_constraints_elastic_def Let_def split: sum.splits option.splits
      dest: py_max_Inl)

subsection \<open>Elastic constraints\<close>

lemma nempy_deficits:
  assumes "nempy_create_deficit_variables frame n = Inr (dv, lhs)"
  shows "\<exists>costed. frame = WithCost costed
     \<and> \<not> list_ex (\<lambda>rc. r_type (fst rc) = EQ) costed
     \<and> dv = map deficit_of (nempy_save_index costed n)
     \<and> lhs = map deficit_term (nempy_save_index costed n)"
  using assms
  by (cases frame) (auto simp: nempy_create_deficit_variables_def split: if_splits)

lemma nempy_elastic_done:
  assumes "make_constraints_elastic nempy_create_deficit_variables s k vc = Done s'"
  shows "\<exists>rows. find_constraints s k = Some rows
     \<and> \<not> list_ex (\<lambda>rc. r_type (fst rc) = EQ) (made_elastic s vc rows)
     \<and> decision_variables s' (deficit_key k) =
         Some (map (deficit_variable \<circ> deficit_of)
                (nempy_save_index (made_elastic s vc rows) (next_variable_id s)))
     \<and> objective_function_components s' (deficit_key k) =
         Some (map (deficit_cost \<circ> deficit_of)
                (nempy_save_index (made_elastic s vc rows) (next_variable_id s)))
     \<and> lhs_coefficients s' (deficit_key k) =
         Some (map deficit_term (nempy_save_index (made_elastic s vc rows) (next_variable_id s)))"
proof -
  from elastic_done[OF assms] obtain rows frame dv lhs t where
    f: "find_constraints s k = Some rows"
    and a: "attach_cost s (Some rows) vc = Inr (Some frame)"
    and c: "nempy_create_deficit_variables frame (next_variable_id s) = Inr (dv, lhs)"
    and d: "decision_variables s' = (decision_variables s)(deficit_key k \<mapsto> map deficit_variable dv)"
    and ob: "objective_function_components s' =
         (objective_function_components s)(deficit_key k \<mapsto> map deficit_cost dv)"
    and l: "lhs_coefficients s' = (lhs_coefficients s)(deficit_key k \<mapsto> lhs)"
    by blast
  from nempy_deficits[OF c] obtain costed where
    fr: "frame = WithCost costed" and ne: "\<not> list_ex (\<lambda>rc. r_type (fst rc) = EQ) costed"
    and dv: "dv = map deficit_of (nempy_save_index costed (next_variable_id s))"
    and lhs: "lhs = map deficit_term (nempy_save_index costed (next_variable_id s))"
    by blast
  from a fr have "costed = made_elastic s vc rows" by (simp add: attach_cost_made_elastic)
  with f ne d ob l dv lhs show ?thesis by simp
qed

text \<open>
  Claim C2, amended. When \<^verbatim>\<open>make_constraints_elastic\<close> succeeds, the constraints made elastic
  are the constraints of the set to which the violation cost supplies a cost. For each
  of them, in their order, there is exactly one deficit variable, numbered from the
  counter, bounded by 0 and infinity, with the supplied cost as its cost in the
  objective function, and exactly one row of the left hand side; its coefficient is +1
  when the constraint is of type \<^verbatim>\<open>>=\<close> and -1 when it is of type \<^verbatim>\<open><=\<close>, and these are the
  only types among them.
\<close>

theorem one_deficit_variable_for_each_elastic_constraint:
  assumes "make_constraints_elastic nempy_create_deficit_variables s k vc = Done s'"
  shows "\<exists>rows. find_constraints s k = Some rows \<and>
     (let numbered = nempy_save_index (made_elastic s vc rows) (next_variable_id s) in
        decision_variables s' (deficit_key k) =
          Some (map (\<lambda>(rc, i). bare_variable i 0 PInf) numbered)
      \<and> objective_function_components s' (deficit_key k) =
          Some (map (\<lambda>(rc, i). \<lparr> o_variable_id = i, o_unit = None, o_service = None,
                                  o_capacity_band = None, cost = Fin (snd rc) \<rparr>) numbered)
      \<and> lhs_coefficients s' (deficit_key k) =
          Some (map (\<lambda>(rc, i). \<lparr> l_variable_id = i, l_constraint_id = constraint_id (fst rc),
                                  l_coefficient = (if r_type (fst rc) = GE then 1 else - 1) \<rparr>)
                  numbered)
      \<and> list_all (\<lambda>(rc, i). r_type (fst rc) = GE \<or> r_type (fst rc) = LE) numbered)"
proof -
  from nempy_elastic_done[OF assms] obtain rows where
    f: "find_constraints s k = Some rows"
    and ne: "\<not> list_ex (\<lambda>rc. r_type (fst rc) = EQ) (made_elastic s vc rows)"
    and d: "decision_variables s' (deficit_key k) =
         Some (map (deficit_variable \<circ> deficit_of)
                (nempy_save_index (made_elastic s vc rows) (next_variable_id s)))"
    and ob: "objective_function_components s' (deficit_key k) =
         Some (map (deficit_cost \<circ> deficit_of)
                (nempy_save_index (made_elastic s vc rows) (next_variable_id s)))"
    and l: "lhs_coefficients s' (deficit_key k) =
         Some (map deficit_term (nempy_save_index (made_elastic s vc rows) (next_variable_id s)))"
    by blast
  have v: "deficit_variable \<circ> deficit_of = (\<lambda>(rc, i). bare_variable i 0 PInf)"
    by (auto simp: fun_eq_iff deficit_variable_def deficit_of_def bare_variable_def)
  have c: "deficit_cost \<circ> deficit_of =
      (\<lambda>(rc, i). \<lparr> o_variable_id = i, o_unit = None, o_service = None,
                    o_capacity_band = None, cost = Fin (snd rc) \<rparr>)"
    by (auto simp: fun_eq_iff deficit_cost_def deficit_of_def)
  have t: "deficit_term =
      (\<lambda>(rc, i). \<lparr> l_variable_id = i, l_constraint_id = constraint_id (fst rc),
                    l_coefficient = (if r_type (fst rc) = GE then 1 else - 1) \<rparr>)"
    by (auto simp: fun_eq_iff deficit_term_def deficit_coefficient_def)
  have types: "list_all (\<lambda>(rc, i). r_type (fst rc) = GE \<or> r_type (fst rc) = LE)
      (nempy_save_index (made_elastic s vc rows) (next_variable_id s))"
  proof -
    have "\<forall>rc \<in> set (made_elastic s vc rows). r_type (fst rc) = GE \<or> r_type (fst rc) = LE"
    proof
      fix rc assume "rc \<in> set (made_elastic s vc rows)"
      with ne have "r_type (fst rc) \<noteq> EQ" by (auto simp: list_ex_iff)
      then show "r_type (fst rc) = GE \<or> r_type (fst rc) = LE" by (cases "r_type (fst rc)") auto
    qed
    moreover have "\<forall>x \<in> set (nempy_save_index (made_elastic s vc rows) (next_variable_id s)).
        fst x \<in> set (made_elastic s vc rows)"
      by (auto simp: nempy_save_index_def dest: set_zip_leftD)
    ultimately show ?thesis unfolding list_all_iff by fastforce
  qed
  show ?thesis
    using f d ob l types unfolding v c t[symmetric] Let_def by (intro exI[of _ rows]) simp
qed

text \<open>The theorem at the example of the docstring.\<close>

theorem one_deficit_variable_witness:
  "lhs_coefficients (state_of elastic_once generic_market) ''generic_deficit'' =
     Some [\<lparr> l_variable_id = 0, l_constraint_id = 0, l_coefficient = 1 \<rparr>,
           \<lparr> l_variable_id = 1, l_constraint_id = 1, l_coefficient = - 1 \<rparr>]"
proof -
  have ran: "make_constraints_elastic nempy_create_deficit_variables generic_market ''generic''
      (Str ''market_ceiling_price'') = Done (state_of elastic_once generic_market)"
    by (simp add: elastic_once_def make_constraints_elastic_def generic_market_def Spot_def
      find_constraints_def state_of_def
      attach_cost_def nempy_create_deficit_variables_def bare_constraint_def deficit_key_def
      deficit_of_def deficit_term_def deficit_coefficient_def deficit_variable_def deficit_cost_def)
  have rows: "find_constraints generic_market ''generic'' =
      Some [(bare_constraint 0 GE 10) \<lparr> r_set := Some ''A'' \<rparr>,
            (bare_constraint 1 LE (- 100)) \<lparr> r_set := Some ''B'' \<rparr>]"
    by (simp add: find_constraints_def generic_market_def Spot_def)
  show ?thesis
    using one_deficit_variable_for_each_elastic_constraint[OF ran] rows
    by (simp add: Let_def made_elastic_def map_filter_simps supplied_cost_def deficit_key_def
        bare_constraint_def generic_market_def Spot_def)
qed

text \<open>
  The claim as it stands gives +1 to \<^verbatim>\<open><=\<close> and -1 to \<^verbatim>\<open>>=\<close>. In the example of the docstring
  constraint 0 is of type \<^verbatim>\<open>>=\<close> and gets +1, constraint 1 is of type \<^verbatim>\<open><=\<close> and gets -1, as
  lines 1942 to 1945 print.
\<close>

theorem deficit_coefficient_counterexample:
  "is_done elastic_once
   \<and> map_option (map (\<lambda>r. (constraint_id r, r_type r))) (find_constraints generic_market ''generic'')
       = Some [(0, GE), (1, LE)]
   \<and> map_option (map (\<lambda>l. (l_constraint_id l, l_coefficient l)))
       (lhs_coefficients (state_of elastic_once generic_market) ''generic_deficit'')
       = Some [(0, 1), (1, - 1)]"
  by (simp add: elastic_once_def make_constraints_elastic_def generic_market_def Spot_def
      find_constraints_def state_of_def is_done_def
      attach_cost_def nempy_create_deficit_variables_def bare_constraint_def deficit_key_def
      deficit_of_def deficit_term_def deficit_coefficient_def deficit_variable_def deficit_cost_def)

lemma made_elastic_member:
  "rc \<in> set (made_elastic s vc rows) \<longleftrightarrow>
     fst rc \<in> set rows \<and> supplied_cost s vc (fst rc) = Some (snd rc)"
proof (induction rows)
  case Nil
  then show ?case by (simp add: made_elastic_def)
next
  case (Cons r rows)
  then show ?case
    by (cases rc) (auto simp: made_elastic_def split: option.splits)
qed

text \<open>
  Claim C3, amended. Let the violation cost be one the method can attach to the
  constraints found under the key. If a constraint of type \<^verbatim>\<open>=\<close> among them is supplied
  with a cost, the call ends with \<open>UnsupportedElasticityError\<close> and the market is as it
  was before. Whenever the call succeeds, the rows of the left hand side are those of
  the constraints supplied with a cost, and none of these is of type \<^verbatim>\<open>=\<close>: no deficit
  variable is created for a constraint of type \<^verbatim>\<open>=\<close>.
\<close>

theorem equality_constraint_with_cost_is_refused:
  assumes "find_constraints s k = Some rows" and "cost_applies rows vc"
  shows "(list_ex (\<lambda>r. r_type r = EQ \<and> supplied_cost s vc r \<noteq> None) rows \<longrightarrow>
            make_constraints_elastic nempy_create_deficit_variables s k vc
              = Raised UnsupportedElasticityError s)
       \<and> (\<forall>s'. make_constraints_elastic nempy_create_deficit_variables s k vc = Done s' \<longrightarrow>
            lhs_coefficients s' (deficit_key k) =
              Some (map deficit_term (nempy_save_index (made_elastic s vc rows) (next_variable_id s)))
            \<and> list_all (\<lambda>rc. r_type (fst rc) \<noteq> EQ) (made_elastic s vc rows))"
proof (intro conjI impI allI)
  assume "list_ex (\<lambda>r. r_type r = EQ \<and> supplied_cost s vc r \<noteq> None) rows"
  then obtain r c where "r \<in> set rows" "r_type r = EQ" "supplied_cost s vc r = Some c"
    by (auto simp: list_ex_iff)
  then have "(r, c) \<in> set (made_elastic s vc rows)" by (simp add: made_elastic_member)
  then have "list_ex (\<lambda>rc. r_type (fst rc) = EQ) (made_elastic s vc rows)"
    using \<open>r_type r = EQ\<close> unfolding list_ex_iff by force
  then show "make_constraints_elastic nempy_create_deficit_variables s k vc
      = Raised UnsupportedElasticityError s"
    using assms
    by (simp add: make_constraints_elastic_def attach_cost_applies
        nempy_create_deficit_variables_def)
next
  fix s' assume d: "make_constraints_elastic nempy_create_deficit_variables s k vc = Done s'"
  from nempy_elastic_done[OF d] assms(1)
  show "lhs_coefficients s' (deficit_key k) =
      Some (map deficit_term (nempy_save_index (made_elastic s vc rows) (next_variable_id s)))"
    by auto
  from nempy_elastic_done[OF d] assms(1)
  show "list_all (\<lambda>rc. r_type (fst rc) \<noteq> EQ) (made_elastic s vc rows)"
    by (auto simp: list_all_iff list_ex_iff)
qed

lemma equality_market_rows:
  "find_constraints equality_market ''generic'' =
     Some [(bare_constraint 0 EQ 10) \<lparr> r_set := Some ''A'' \<rparr>,
           (bare_constraint 1 LE (- 100)) \<lparr> r_set := Some ''B'' \<rparr>]"
  by (simp add: find_constraints_def equality_market_def Spot_def)

theorem equality_constraint_witness:
  "make_constraints_elastic nempy_create_deficit_variables equality_market ''generic'' (Num 1000)
     = Raised UnsupportedElasticityError equality_market"
  using equality_constraint_with_cost_is_refused[OF equality_market_rows, of "Num 1000"]
  by (simp add: cost_applies_def supplied_cost_def bare_constraint_def)

text \<open>
  The claim as it stands lets every call on a set with a constraint of type \<^verbatim>\<open>=\<close> fail. A
  table of costs that leaves the set of that constraint out makes only the other
  constraints elastic, and the call succeeds.
\<close>

theorem equality_constraint_counterexample:
  "map_option (map (\<lambda>r. (r_set r, constraint_id r, r_type r)))
       (find_constraints equality_market ''generic'')
     = Some [(Some ''A'', 0, EQ), (Some ''B'', 1, LE)]
   \<and> is_done (make_constraints_elastic nempy_create_deficit_variables equality_market
        ''generic'' (Frame [(''B'', 1000)]))
   \<and> map_option (map (\<lambda>l. (l_variable_id l, l_constraint_id l)))
       (lhs_coefficients
          (state_of (make_constraints_elastic nempy_create_deficit_variables equality_market
             ''generic'' (Frame [(''B'', 1000)])) equality_market) ''generic_deficit'')
     = Some [(0, 1)]"
  by (simp add: make_constraints_elastic_def equality_market_def Spot_def
      find_constraints_def state_of_def is_done_def
      attach_cost_def nempy_create_deficit_variables_def bare_constraint_def deficit_key_def
      deficit_of_def deficit_term_def deficit_coefficient_def deficit_variable_def deficit_cost_def)

text \<open>
  Claim C9, amended. When \<^verbatim>\<open>make_constraints_elastic\<close> is called again with the same key, and
  the helper gives out no id below the counter, the variables of the first call lie
  below the counter that the first call leaves, while every variable in the three tables
  stored under the key after the second call lies at or above it: the tables of the first
  call are replaced, not kept. The counter only grows, so the ids of the first call are
  not given out again.
\<close>

lemma ids_at_upd [simp]: "ids_at (t(k \<mapsto> rows)) f k = map f rows"
  by (simp add: ids_at_def)

theorem elastic_again_replaces_the_tables:
  assumes "numbers_from_counter cdv"
    and "make_constraints_elastic cdv s k vc = Done s1"
    and "make_constraints_elastic cdv s1 k vc' = Done s2"
  shows "ids_at (decision_variables s1) variable_id (deficit_key k) \<noteq> []
       \<and> list_all (\<lambda>i. i < next_variable_id s1)
           (ids_at (decision_variables s1) variable_id (deficit_key k))
       \<and> list_all (\<lambda>i. next_variable_id s1 \<le> i \<and> i < next_variable_id s2)
           (ids_at (decision_variables s2) variable_id (deficit_key k))
       \<and> list_all (\<lambda>i. next_variable_id s1 \<le> i \<and> i < next_variable_id s2)
           (ids_at (objective_function_components s2) o_variable_id (deficit_key k))
       \<and> list_all (\<lambda>i. next_variable_id s1 \<le> i)
           (ids_at (lhs_coefficients s2) l_variable_id (deficit_key k))
       \<and> next_variable_id s1 < next_variable_id s2"
proof -
  from elastic_done[OF assms(2)] obtain dv1 t1 where
    m1: "py_max (map d_variable_id dv1) = Inr t1"
    and d1: "decision_variables s1 = (decision_variables s)(deficit_key k \<mapsto> map deficit_variable dv1)"
    and n1: "next_variable_id s1 = t1 + 1"
    by blast
  from elastic_done[OF assms(3)] obtain frame dv2 lhs2 t2 where
    c2: "cdv frame (next_variable_id s1) = Inr (dv2, lhs2)"
    and m2: "py_max (map d_variable_id dv2) = Inr t2"
    and d2: "decision_variables s2 = (decision_variables s1)(deficit_key k \<mapsto> map deficit_variable dv2)"
    and o2: "objective_function_components s2 =
         (objective_function_components s1)(deficit_key k \<mapsto> map deficit_cost dv2)"
    and l2: "lhs_coefficients s2 = (lhs_coefficients s1)(deficit_key k \<mapsto> lhs2)"
    and n2: "next_variable_id s2 = t2 + 1"
    by blast
  have vid: "map variable_id (map deficit_variable dv) = map d_variable_id dv" for dv
    by (simp add: deficit_variable_def comp_def)
  have oid: "map o_variable_id (map deficit_cost dv) = map d_variable_id dv" for dv
    by (simp add: deficit_cost_def comp_def)
  from py_max_Inr[OF m1] have b1: "dv1 \<noteq> []" "\<forall>x \<in> set (map d_variable_id dv1). x \<le> t1" by auto
  from py_max_Inr[OF m2] have b2: "t2 \<in> set (map d_variable_id dv2)"
    "\<forall>x \<in> set (map d_variable_id dv2). x \<le> t2" by auto
  from assms(1) c2 have low: "\<forall>x \<in> set (map d_variable_id dv2). next_variable_id s1 \<le> x"
    and lowl: "\<forall>x \<in> set (map l_variable_id lhs2). next_variable_id s1 \<le> x"
    unfolding numbers_from_counter_def from_counter_def list_all_iff by blast+
  from low b2(1) have "next_variable_id s1 \<le> t2" by blast
  then show ?thesis
    using b1 b2 low lowl
    by (auto simp: d1 d2 o2 l2 n1 n2 list_all_iff less_Suc_eq_le deficit_variable_def
        deficit_cost_def)
qed

lemma nempy_numbers_from_counter: "numbers_from_counter nempy_create_deficit_variables"
  unfolding numbers_from_counter_def from_counter_def list_all_iff
proof (intro allI impI)
  fix frame n dv lhs
  assume "nempy_create_deficit_variables frame n = Inr (dv, lhs)"
  from nempy_deficits[OF this] obtain costed where
    dv: "dv = map deficit_of (nempy_save_index costed n)"
    and lhs: "lhs = map deficit_term (nempy_save_index costed n)" by blast
  have "map d_variable_id dv = [n ..< n + length costed]"
    unfolding dv by (simp add: deficit_of_def comp_def flip: map_snd_save_index)
  moreover have "map l_variable_id lhs = [n ..< n + length costed]"
    unfolding lhs by (simp add: deficit_term_def comp_def flip: map_snd_save_index)
  ultimately show "(\<forall>i\<in>set (map d_variable_id dv). n \<le> i) \<and> (\<forall>i\<in>set (map l_variable_id lhs). n \<le> i)"
    by simp
qed

lemma elastic_once_done:
  "make_constraints_elastic nempy_create_deficit_variables generic_market ''generic''
      (Str ''market_ceiling_price'') = Done (state_of elastic_once generic_market)"
  by (simp add: elastic_once_def make_constraints_elastic_def generic_market_def Spot_def
      find_constraints_def state_of_def
      attach_cost_def nempy_create_deficit_variables_def bare_constraint_def deficit_key_def
      deficit_of_def deficit_term_def deficit_coefficient_def deficit_variable_def deficit_cost_def)

lemma elastic_twice_done:
  "make_constraints_elastic nempy_create_deficit_variables (state_of elastic_once generic_market)
      ''generic'' (Num 1000) = Done (state_of elastic_twice generic_market)"
  by (simp add: elastic_twice_def elastic_once_def make_constraints_elastic_def generic_market_def Spot_def
      find_constraints_def state_of_def
      attach_cost_def nempy_create_deficit_variables_def bare_constraint_def deficit_key_def
      deficit_of_def deficit_term_def deficit_coefficient_def deficit_variable_def deficit_cost_def)

theorem elastic_again_witness:
  "next_variable_id (state_of elastic_once generic_market)
     < next_variable_id (state_of elastic_twice generic_market)
   \<and> list_all (\<lambda>i. next_variable_id (state_of elastic_once generic_market) \<le> i)
       (ids_at (lhs_coefficients (state_of elastic_twice generic_market)) l_variable_id
          (deficit_key ''generic''))"
  using elastic_again_replaces_the_tables[OF nempy_numbers_from_counter elastic_once_done
      elastic_twice_done]
  by simp

text \<open>
  The claim as it stands keeps the deficit variables, costs and rows of the first call
  in the tables. In the example of the docstring the first call stores the variables 0
  and 1, and after the second call the tables hold the variables 2 and 3 only (lines
  1949 to 1954).
\<close>

theorem elastic_again_counterexample:
  "is_done elastic_once \<and> is_done elastic_twice
   \<and> ids_at (decision_variables (state_of elastic_once generic_market)) variable_id
       ''generic_deficit'' = [0, 1]
   \<and> ids_at (decision_variables (state_of elastic_twice generic_market)) variable_id
       ''generic_deficit'' = [2, 3]
   \<and> map_option (map (\<lambda>c. (o_variable_id c, cost c)))
       (objective_function_components (state_of elastic_twice generic_market) ''generic_deficit'')
       = Some [(2, Fin 1000), (3, Fin 1000)]
   \<and> map_option (map (\<lambda>l. (l_variable_id l, l_constraint_id l, l_coefficient l)))
       (lhs_coefficients (state_of elastic_twice generic_market) ''generic_deficit'')
       = Some [(2, 0, 1), (3, 1, - 1)]"
  by (simp add: elastic_twice_def elastic_once_def make_constraints_elastic_def generic_market_def Spot_def
      find_constraints_def state_of_def is_done_def ids_at_def
      attach_cost_def nempy_create_deficit_variables_def bare_constraint_def deficit_key_def
      deficit_of_def deficit_term_def deficit_coefficient_def deficit_variable_def deficit_cost_def)

subsection \<open>Violations\<close>

lemma checked_Done: "checked v s body = Done s' \<Longrightarrow> v = None \<and> body = Done s'"
  by (cases v) (auto simp: checked_def)

lemma checked_Raised:
  "checked v s body = Raised e s' \<Longrightarrow> (v = Some e \<and> s' = s) \<or> (v = None \<and> body = Raised e s')"
  by (cases v) (auto simp: checked_def)

lemma checked_Some [simp]: "checked (Some e) s body = Raised e s"
  by (simp add: checked_def)

lemma step_check_fails:
  assumes "check m s c = Some e" and "\<forall>k vc. c \<noteq> MakeConstraintsElastic k vc"
  shows "step m c s = Raised e s"
  using assms
  by (cases c)
    (simp_all add: set_unit_info_def set_unit_volume_bids_def set_unit_price_bids_def
      set_unit_capacity_constraints_def set_unit_ramp_up_constraints_def
      set_unit_ramp_down_constraints_def set_demand_constraints_def
      set_fcas_requirements_constraints_def set_fcas_max_availability_def
      set_joint_ramping_constraints_def set_joint_capacity_constraints_def
      set_energy_and_regulation_capacity_constraints_def set_interconnectors_def
      set_interconnector_losses_def set_generic_constraints_def
      link_units_to_generic_constraints_def link_regions_to_generic_constraints_def
      link_interconnectors_to_generic_constraints_def)

lemma elastic_key_missing:
  assumes "find_constraints s k = None"
  shows "make_constraints_elastic cdv s k vc = Raised UnboundLocalError s
       \<or> make_constraints_elastic cdv s k vc = Raised RepeatedRowError s"
  using assms
  by (cases vc) (auto simp: make_constraints_elastic_def attach_cost_def)

lemma elastic_unsupported:
  assumes "needs_cost_column cdv" and "unsupported_cost vc"
  shows "\<exists>e. make_constraints_elastic cdv s k vc = Raised e s"
proof (cases "find_constraints s k")
  case None
  with elastic_key_missing[OF None, of cdv vc] show ?thesis by auto
next
  case (Some rows)
  from assms(1) obtain e where "cdv (NoCostColumn rows) (next_variable_id s) = Inl e"
    unfolding needs_cost_column_def by blast
  with Some assms(2) show ?thesis
    by (simp add: make_constraints_elastic_def attach_cost_unsupported)
qed

lemma store_unit_constraints_fails:
  assumes "store_unit_constraints family s made = Raised e s'"
  shows "s' = s
     \<or> (e = ValueError \<and> next_variable_id s' = next_variable_id s
        \<and> next_constraint_id s' = next_constraint_id s
        \<and> ids_at (constraints_rhs_and_type s') constraint_id family = [])"
  using assms
  by (auto simp: store_unit_constraints_def Let_def ids_at_def
      split: sum.splits prod.splits dest!: py_max_Inl)

lemma store_market_constraints_fails:
  assumes "store_market_constraints family s made = Raised e s'"
  shows "s' = s
     \<or> (e = ValueError \<and> next_variable_id s' = next_variable_id s
        \<and> next_constraint_id s' = next_constraint_id s
        \<and> ids_at (market_constraints_rhs_and_type s') constraint_id family = [])"
  using assms
  by (auto simp: store_market_constraints_def Let_def ids_at_def
      split: sum.splits prod.splits dest!: py_max_Inl)

lemma failing_call:
  assumes "step m c s = Raised e s'"
  shows "s' = s
     \<or> (e = ValueError \<and> next_variable_id s' = next_variable_id s
        \<and> next_constraint_id s' = next_constraint_id s
        \<and> created_variable_ids c s' = [] \<and> created_constraint_ids c s' = [])
     \<or> (\<exists>rows. c = SetInterconnectors rows
          \<and> s' = s \<lparr> interconnector_directions :=
                        Some (map directions_of (map fill_loss_factors rows)) \<rparr>)
     \<or> (\<exists>loss_functions break_points. c = SetInterconnectorLosses loss_functions break_points
          \<and> s' = s \<lparr> interconnector_loss_shares :=
                        Some (map (\<lambda>(i, share, f). (i, share)) loss_functions) \<rparr>)"
proof (cases c)
  case (SetUnitInfo x)
  with assms show ?thesis by (auto simp: set_unit_info_def dest!: checked_Raised)
next
  case (SetUnitVolumeBids x)
  with assms show ?thesis
    by (auto simp: set_unit_volume_bids_def Let_def ids_at_def dest!: checked_Raised py_max_Inl
        split: sum.splits prod.splits)
next
  case (SetUnitPriceBids x)
  with assms show ?thesis
    by (auto simp: set_unit_price_bids_def dest!: checked_Raised
        split: sum.splits option.splits if_splits)
next
  case (SetUnitCapacityConstraints x)
  with assms show ?thesis
    by (auto simp: set_unit_capacity_constraints_def
        dest!: checked_Raised store_unit_constraints_fails)
next
  case (SetUnitRampUpConstraints x)
  with assms show ?thesis
    by (auto simp: set_unit_ramp_up_constraints_def
        dest!: checked_Raised store_unit_constraints_fails)
next
  case (SetUnitRampDownConstraints x)
  with assms show ?thesis
    by (auto simp: set_unit_ramp_down_constraints_def
        dest!: checked_Raised store_unit_constraints_fails)
next
  case (SetDemandConstraints x)
  with assms show ?thesis
    by (auto simp: set_demand_constraints_def
        dest!: checked_Raised store_market_constraints_fails)
next
  case (SetFcasRequirementsConstraints x)
  with assms show ?thesis
    by (auto simp: set_fcas_requirements_constraints_def
        dest!: checked_Raised store_market_constraints_fails)
next
  case (SetFcasMaxAvailability x)
  with assms show ?thesis
    by (auto simp: set_fcas_max_availability_def
        dest!: checked_Raised store_unit_constraints_fails)
next
  case (SetJointRampingConstraints x y)
  with assms show ?thesis
    by (auto simp: set_joint_ramping_constraints_def
        dest!: checked_Raised store_unit_constraints_fails split: sum.splits)
next
  case (SetJointCapacityConstraints x)
  with assms show ?thesis
    by (auto simp: set_joint_capacity_constraints_def
        dest!: checked_Raised store_unit_constraints_fails split: sum.splits)
next
  case (SetEnergyAndRegulationCapacityConstraints x)
  with assms show ?thesis
    by (auto simp: set_energy_and_regulation_capacity_constraints_def
        dest!: checked_Raised store_unit_constraints_fails)
next
  case (SetInterconnectors x)
  with assms show ?thesis
    by (auto simp: set_interconnectors_def Let_def ids_at_def dest!: checked_Raised py_max_Inl
        split: sum.splits prod.splits)
next
  case (SetInterconnectorLosses x y)
  with assms show ?thesis
    by (auto simp: set_interconnector_losses_def Let_def dest!: checked_Raised
        split: sum.splits option.splits prod.splits)
next
  case (SetGenericConstraints x)
  with assms show ?thesis
    by (auto simp: set_generic_constraints_def Let_def dest!: checked_Raised
        split: sum.splits option.splits prod.splits)
next
  case (LinkUnitsToGenericConstraints x)
  with assms show ?thesis
    by (auto simp: link_units_to_generic_constraints_def dest!: checked_Raised)
next
  case (LinkRegionsToGenericConstraints x)
  with assms show ?thesis
    by (auto simp: link_regions_to_generic_constraints_def dest!: checked_Raised)
next
  case (LinkInterconnectorsToGenericConstraints x)
  with assms show ?thesis
    by (auto simp: link_interconnectors_to_generic_constraints_def dest!: checked_Raised)
next
  case (MakeConstraintsElastic k vc)
  with assms show ?thesis
    by (auto simp: make_constraints_elastic_def Let_def ids_at_def deficit_variable_def
        dest!: py_max_Inl split: sum.splits option.splits prod.splits)
qed

text \<open>
  Claim C4. A call that ends with an error leaves the market as it was before the call,
  with three exceptions: a method that has made tables without rows stores them and then
  ends with the \<open>ValueError\<close> of \<^verbatim>\<open>max()\<close> of an empty column, the counters unchanged and no
  id created; \<^verbatim>\<open>set_interconnectors\<close> has stored the directions when \<^verbatim>\<open>inter.create\<close>
  fails; \<^verbatim>\<open>set_interconnector_losses\<close> has stored the loss shares when a later step fails.
  A call that the decorators of its method refuse ends with their error and leaves the
  market as it was. \<^verbatim>\<open>make_constraints_elastic\<close>, called with a key that neither dictionary
  of constraints has, ends with an error and leaves the market as it was; so it does when
  the violation cost is of an unsupported type and the helper cannot do without the
  column \<^verbatim>\<open>cost\<close>.
\<close>

theorem a_failing_call_and_the_market:
  "(step m c s = Raised e s' \<longrightarrow>
      s' = s
      \<or> (e = ValueError \<and> next_variable_id s' = next_variable_id s
         \<and> next_constraint_id s' = next_constraint_id s
         \<and> created_variable_ids c s' = [] \<and> created_constraint_ids c s' = [])
      \<or> (\<exists>rows. c = SetInterconnectors rows
           \<and> s' = s \<lparr> interconnector_directions :=
                         Some (map directions_of (map fill_loss_factors rows)) \<rparr>)
      \<or> (\<exists>loss_functions break_points. c = SetInterconnectorLosses loss_functions break_points
           \<and> s' = s \<lparr> interconnector_loss_shares :=
                         Some (map (\<lambda>(i, share, f). (i, share)) loss_functions) \<rparr>))
   \<and> (check m s c = Some e \<and> (\<forall>k' vc'. c \<noteq> MakeConstraintsElastic k' vc')
      \<longrightarrow> step m c s = Raised e s)
   \<and> (find_constraints s k = None
      \<longrightarrow> (\<exists>e'. step m (MakeConstraintsElastic k vc) s = Raised e' s))
   \<and> (needs_cost_column (elastic_constraints_create_deficit_variables m) \<and> unsupported_cost vc
      \<longrightarrow> (\<exists>e'. step m (MakeConstraintsElastic k vc) s = Raised e' s))"
proof (intro conjI impI)
  assume "step m c s = Raised e s'"
  then show "s' = s
      \<or> (e = ValueError \<and> next_variable_id s' = next_variable_id s
         \<and> next_constraint_id s' = next_constraint_id s
         \<and> created_variable_ids c s' = [] \<and> created_constraint_ids c s' = [])
      \<or> (\<exists>rows. c = SetInterconnectors rows
           \<and> s' = s \<lparr> interconnector_directions :=
                         Some (map directions_of (map fill_loss_factors rows)) \<rparr>)
      \<or> (\<exists>loss_functions break_points. c = SetInterconnectorLosses loss_functions break_points
           \<and> s' = s \<lparr> interconnector_loss_shares :=
                         Some (map (\<lambda>(i, share, f). (i, share)) loss_functions) \<rparr>)"
    by (rule failing_call)
next
  assume "check m s c = Some e \<and> (\<forall>k' vc'. c \<noteq> MakeConstraintsElastic k' vc')"
  then show "step m c s = Raised e s" using step_check_fails by blast
next
  assume "find_constraints s k = None"
  from elastic_key_missing[OF this]
  show "\<exists>e'. step m (MakeConstraintsElastic k vc) s = Raised e' s" by auto
next
  assume "needs_cost_column (elastic_constraints_create_deficit_variables m) \<and> unsupported_cost vc"
  then show "\<exists>e'. step m (MakeConstraintsElastic k vc) s = Raised e' s"
    using elastic_unsupported by auto
qed

lemma nempy_needs_cost_column: "needs_cost_column nempy_create_deficit_variables"
  by (simp add: needs_cost_column_def nempy_create_deficit_variables_def)

lemma zero_volume_bids_fail:
  "step nempy (SetUnitVolumeBids zero_volume_bids) example_market =
     Raised ValueError
       (example_market
          \<lparr> decision_variables := (decision_variables example_market)(''bids'' \<mapsto> []),
            variable_to_constraint_map_regional :=
              (variable_to_constraint_map_regional example_market)(''bids'' \<mapsto> []),
            variable_to_constraint_map_unit_level :=
              (variable_to_constraint_map_unit_level example_market)(''bids'' \<mapsto> []) \<rparr>)"
proof -
  have u: "unit_info example_market \<noteq> None" by code_simp
  have c: "nempy_check example_market (SetUnitVolumeBids zero_volume_bids) = None" by code_simp
  from u obtain units where "unit_info example_market = Some units" by auto
  with c show ?thesis
    by (simp add: set_unit_volume_bids_def nempy_def checked_def nempy_variable_bids_def
        zero_volume_bids_def stack_bids_def bid_service_def Let_def)
qed

lemma unlisted_costs_fail:
  "step nempy (MakeConstraintsElastic ''generic'' (Frame [(''C'', 5)])) generic_market =
     Raised ValueError
       (generic_market
          \<lparr> decision_variables :=
              (decision_variables generic_market)(''generic_deficit'' \<mapsto> []),
            objective_function_components :=
              (objective_function_components generic_market)(''generic_deficit'' \<mapsto> []),
            lhs_coefficients :=
              (lhs_coefficients generic_market)(''generic_deficit'' \<mapsto> []) \<rparr>)"
  by (simp add: make_constraints_elastic_def nempy_def generic_market_def Spot_def
      find_constraints_def attach_cost_def nempy_create_deficit_variables_def bare_constraint_def
      deficit_key_def Let_def)

lemma after_zero_volume_bids:
  "step nempy (SetUnitVolumeBids zero_volume_bids) example_market
     = Raised ValueError after_zero_volume_bids"
  "decision_variables after_zero_volume_bids ''bids'' = Some []"
  unfolding after_zero_volume_bids_def zero_volume_bids_fail
  by (simp only: state_of_def result.simps) (simp add: state_of_def)

lemma after_unlisted_costs:
  "step nempy (MakeConstraintsElastic ''generic'' (Frame [(''C'', 5)])) generic_market
     = Raised ValueError after_unlisted_costs"
  "decision_variables after_unlisted_costs ''generic_deficit'' = Some []"
  unfolding after_unlisted_costs_def unlisted_costs_fail
  by (simp only: state_of_def result.simps) (simp add: state_of_def)

theorem a_failing_call_witness:
  "step nempy (SetUnitPriceBids example_price_bids) generic_market
     = Raised ModelBuildError generic_market
   \<and> (\<exists>e'. step nempy (MakeConstraintsElastic ''demand'' (Num 1000)) generic_market
        = Raised e' generic_market)
   \<and> (\<exists>e'. step nempy (MakeConstraintsElastic ''generic'' (Bool True)) generic_market
        = Raised e' generic_market)
   \<and> step nempy (SetUnitVolumeBids zero_volume_bids) example_market
        = Raised ValueError after_zero_volume_bids
   \<and> next_variable_id after_zero_volume_bids = next_variable_id example_market"
proof -
  have c: "check nempy generic_market (SetUnitPriceBids example_price_bids) = Some ModelBuildError"
    by (simp add: nempy_def first_error_def energy_bid_ids_exist_def generic_market_def Spot_def)
  have k: "find_constraints generic_market ''demand'' = None"
    by (simp add: find_constraints_def generic_market_def Spot_def)
  have n: "needs_cost_column (elastic_constraints_create_deficit_variables nempy)"
    by (simp add: nempy_def nempy_needs_cost_column)
  have u: "unsupported_cost (Bool True)" by (simp add: unsupported_cost_def)
  note first = a_failing_call_and_the_market[of nempy "SetUnitPriceBids example_price_bids"
        generic_market ModelBuildError generic_market "''demand''" "Num 1000"]
  note second = a_failing_call_and_the_market[of nempy "SetUnitPriceBids example_price_bids"
        generic_market ModelBuildError generic_market "''generic''" "Bool True"]
  note third = a_failing_call_and_the_market[of nempy "SetUnitVolumeBids zero_volume_bids"
        example_market ValueError after_zero_volume_bids "''generic''" "Bool True"]
  from first c have a: "step nempy (SetUnitPriceBids example_price_bids) generic_market
     = Raised ModelBuildError generic_market" by blast
  from first k have b: "\<exists>e'. step nempy (MakeConstraintsElastic ''demand'' (Num 1000))
      generic_market = Raised e' generic_market" by blast
  from second n u have d: "\<exists>e'. step nempy (MakeConstraintsElastic ''generic'' (Bool True))
      generic_market = Raised e' generic_market" by blast
  from third after_zero_volume_bids(1)
  have "after_zero_volume_bids = example_market
      \<or> next_variable_id after_zero_volume_bids = next_variable_id example_market
      \<or> (\<exists>rows. SetUnitVolumeBids zero_volume_bids = SetInterconnectors rows)
      \<or> (\<exists>loss_functions break_points.
            SetUnitVolumeBids zero_volume_bids = SetInterconnectorLosses loss_functions break_points)"
    by blast
  then have f: "next_variable_id after_zero_volume_bids = next_variable_id example_market"
  proof (elim disjE exE)
    assume "after_zero_volume_bids = example_market"
    then show ?thesis by (rule arg_cong)
  next
    assume "next_variable_id after_zero_volume_bids = next_variable_id example_market"
    then show ?thesis .
  next
    fix rows
    assume "SetUnitVolumeBids zero_volume_bids = SetInterconnectors rows"
    then show ?thesis by (simp only: call.distinct)
  next
    fix loss_functions break_points
    assume "SetUnitVolumeBids zero_volume_bids = SetInterconnectorLosses loss_functions break_points"
    then show ?thesis by (simp only: call.distinct)
  qed
  from a b d after_zero_volume_bids(1) f show ?thesis by (intro conjI)
qed

theorem a_failing_call_counterexample:
  "step nempy (SetUnitVolumeBids zero_volume_bids) example_market
     = Raised ValueError after_zero_volume_bids
   \<and> decision_variables example_market ''bids'' = None
   \<and> decision_variables after_zero_volume_bids ''bids'' = Some []
   \<and> step nempy (MakeConstraintsElastic ''generic'' (Frame [(''C'', 5)])) generic_market
     = Raised ValueError after_unlisted_costs
   \<and> decision_variables generic_market ''generic_deficit'' = None
   \<and> decision_variables after_unlisted_costs ''generic_deficit'' = Some []"
proof (intro conjI)
  show "decision_variables example_market ''bids'' = None" by code_simp
  show "decision_variables generic_market ''generic_deficit'' = None"
    by (simp add: generic_market_def Spot_def)
qed (rule after_zero_volume_bids after_unlisted_costs)+

subsection \<open>Units without a dispatch type\<close>

lemma generators_not_negated:
  assumes "ui_dispatch_type info = Some (replicate n ''generator'')"
    and "unit_info later = Some info"
  shows "get_net_unit_dispatch_by_region later = net_dispatch_of_generators later"
proof (cases "get_unit_dispatch later")
  case (Inl e)
  then show ?thesis
    by (simp add: get_net_unit_dispatch_by_region_def net_dispatch_of_generators_def
        net_unit_dispatch_by_region_with_def)
next
  case (Inr unit_dispatch)
  let ?joined = "merge_on fst fst (filter (\<lambda>(u, s, d). s = ''energy'') unit_dispatch)
      (zip (ui_unit info) (zip (ui_region info) (replicate n ''generator'')))"
  have gen: "snd (snd (snd x)) = ''generator''" if "x \<in> set ?joined" for x
  proof -
    from that have "snd x \<in> set (zip (ui_unit info) (zip (ui_region info) (replicate n ''generator'')))"
      by (auto simp: set_merge_on)
    then have "snd (snd (snd x)) \<in> set (replicate n ''generator'')"
      by (cases x) (auto dest!: set_zip_rightD)
    then show ?thesis by simp
  qed
  have eq: "map (\<lambda>((u, s, d), (u', region, t)). (region, make_load_dispatch_negative t d)) ?joined
      = map (\<lambda>((u, s, d), (u', region, t)). (region, d)) ?joined"
    apply (intro map_cong refl)
    subgoal for x using gen[of x] by (cases x) (auto simp: make_load_dispatch_negative_def)
    done
  show ?thesis
    using assms Inr
    by (simp add: get_net_unit_dispatch_by_region_def net_dispatch_of_generators_def
        net_unit_dispatch_by_region_with_def eq)
qed

text \<open>
  Claim C10. When the unit information passed to \<^verbatim>\<open>set_unit_info\<close> has no column
  \<^verbatim>\<open>dispatch_type\<close>, the call stores the unit information with the column added, every
  unit a \<^verbatim>\<open>generator\<close> (lines 92 to 94), and on every market that holds this unit
  information the net dispatch by region (lines 2676 to 2690) is the dispatch of
  generators: no unit's dispatch is negated as that of a load.
\<close>

theorem units_without_dispatch_type_are_generators:
  assumes "ui_dispatch_type info = None" and "set_unit_info m s info = Done s'"
  shows "unit_info s' = Some (unit_info_after_call info)
       \<and> unit_info_after_call info =
           info \<lparr> ui_dispatch_type := Some (replicate (length (ui_unit info)) ''generator'') \<rparr>
       \<and> (\<forall>later. unit_info later = unit_info s' \<longrightarrow>
            get_net_unit_dispatch_by_region later = net_dispatch_of_generators later)"
proof -
  from checked_Done[OF assms(2)[unfolded set_unit_info_def]]
  have s': "s' = s \<lparr> unit_info := Some (unit_info_after_call info) \<rparr>" by simp
  have after: "unit_info_after_call info =
      info \<lparr> ui_dispatch_type := Some (replicate (length (ui_unit info)) ''generator'') \<rparr>"
    using assms(1) by (simp add: unit_info_after_call_def)
  have "get_net_unit_dispatch_by_region later = net_dispatch_of_generators later"
    if "unit_info later = unit_info s'" for later
    using generators_not_negated[of "unit_info_after_call info" "length (ui_unit info)" later] that
    by (simp add: s' after)
  then show ?thesis using s' after by simp
qed

lemma example_market_done:
  "set_unit_info nempy (Spot 60 14000 (- 1000)) example_units = Done example_market"
  by (simp add: example_market_def set_unit_info_def nempy_def checked_def state_of_def)

theorem units_without_dispatch_type_witness:
  "unit_info example_market =
     Some (example_units \<lparr> ui_dispatch_type := Some [''generator'', ''generator''] \<rparr>)
   \<and> get_net_unit_dispatch_by_region example_dispatch = Inr [(''NSW'', 100)]"
proof -
  have n: "ui_dispatch_type example_units = None" by (simp add: example_units_def)
  have u: "unit_info example_dispatch = unit_info example_market"
    by (simp add: example_dispatch_def)
  have g: "net_dispatch_of_generators example_dispatch = Inr [(''NSW'', 100)]"
    by (simp add: net_dispatch_of_generators_def net_unit_dispatch_by_region_with_def
        get_unit_dispatch_def example_dispatch_def example_market_def set_unit_info_def
        nempy_def checked_def state_of_def unit_info_after_call_def example_units_def
        offered_def bare_variable_def groupby_def Spot_def)
  show ?thesis
    using units_without_dispatch_type_are_generators[OF n example_market_done] u g
    by (simp add: unit_info_after_call_def example_units_def)
qed

subsection \<open>Ids along a build\<close>

lemma pd_max_Some:
  assumes "pd_max xs = Some t"
  shows "xs \<noteq> [] \<and> t \<in> set xs \<and> (\<forall>x \<in> set xs. x \<le> t)"
proof (cases xs)
  case Nil
  with assms show ?thesis by simp
next
  case (Cons x ys)
  with assms have "t = fold max ys x" by simp
  then have t: "t = Max (set (x # ys))" by (simp only: Max.set_eq_fold)
  show ?thesis unfolding Cons t using Max_in[of "set (x # ys)"] Max_ge[of "set (x # ys)"]
    by auto
qed

lemma store_unit_constraints_Done:
  assumes "store_unit_constraints family s made = Done s'"
  shows "\<exists>rhs_and_type variable_map t. made = Inr (rhs_and_type, variable_map)
     \<and> py_max (map constraint_id rhs_and_type) = Inr t
     \<and> constraints_rhs_and_type s' = (constraints_rhs_and_type s)(family \<mapsto> rhs_and_type)
     \<and> next_constraint_id s' = t + 1 \<and> next_variable_id s' = next_variable_id s"
  using assms
  by (auto simp: store_unit_constraints_def Let_def split: sum.splits prod.splits)

lemma store_unit_constraints_Raised:
  assumes "store_unit_constraints family s made = Raised e s'"
  shows "next_constraint_id s' = next_constraint_id s \<and> next_variable_id s' = next_variable_id s"
  using assms
  by (auto simp: store_unit_constraints_def Let_def split: sum.splits prod.splits)

lemma store_market_constraints_Done:
  assumes "store_market_constraints family s made = Done s'"
  shows "\<exists>rhs_and_type variable_map t. made = Inr (rhs_and_type, variable_map)
     \<and> py_max (map constraint_id rhs_and_type) = Inr t
     \<and> market_constraints_rhs_and_type s' = (market_constraints_rhs_and_type s)(family \<mapsto> rhs_and_type)
     \<and> next_constraint_id s' = t + 1 \<and> next_variable_id s' = next_variable_id s"
  using assms
  by (auto simp: store_market_constraints_def Let_def split: sum.splits prod.splits)

lemma store_market_constraints_Raised:
  assumes "store_market_constraints family s made = Raised e s'"
  shows "next_constraint_id s' = next_constraint_id s \<and> next_variable_id s' = next_variable_id s"
  using assms
  by (auto simp: store_market_constraints_def Let_def split: sum.splits prod.splits)

lemma store_not_nan [simp]:
  "store_unit_constraints family s made \<noteq> NanCounter"
  "store_market_constraints family s made' \<noteq> NanCounter"
  by (auto simp: store_unit_constraints_def store_market_constraints_def Let_def
      split: sum.splits prod.splits)

lemma fresh_Nil [simp]: "fresh a b [] = (a \<le> b)"
  by (simp add: fresh_def)

lemma unit_family_fresh:
  assumes "constraints_from_counter helper"
    and "store_unit_constraints family s (helper (next_constraint_id s)) = Done s'"
  shows "next_variable_id s' = next_variable_id s
       \<and> fresh (next_constraint_id s) (next_constraint_id s')
           (ids_at (constraints_rhs_and_type s') constraint_id family)"
proof -
  from store_unit_constraints_Done[OF assms(2)] obtain rhs_and_type variable_map t where
    h: "helper (next_constraint_id s) = Inr (rhs_and_type, variable_map)"
    and m: "py_max (map constraint_id rhs_and_type) = Inr t"
    and c: "constraints_rhs_and_type s' = (constraints_rhs_and_type s)(family \<mapsto> rhs_and_type)"
    and n: "next_constraint_id s' = t + 1" and v: "next_variable_id s' = next_variable_id s"
    by blast
  from assms(1) h have low: "\<forall>i \<in> set (map constraint_id rhs_and_type). next_constraint_id s \<le> i"
    unfolding constraints_from_counter_def from_counter_def list_all_iff by blast
  from py_max_Inr[OF m] low show ?thesis
    by (auto simp: fresh_def c n v ids_at_def less_Suc_eq_le)
qed

lemma market_family_fresh:
  assumes "constraints_from_counter helper"
    and "store_market_constraints family s (helper (next_constraint_id s)) = Done s'"
  shows "next_variable_id s' = next_variable_id s
       \<and> fresh (next_constraint_id s) (next_constraint_id s')
           (ids_at (market_constraints_rhs_and_type s') constraint_id family)"
proof -
  from store_market_constraints_Done[OF assms(2)] obtain rhs_and_type variable_map t where
    h: "helper (next_constraint_id s) = Inr (rhs_and_type, variable_map)"
    and m: "py_max (map constraint_id rhs_and_type) = Inr t"
    and c: "market_constraints_rhs_and_type s' = (market_constraints_rhs_and_type s)(family \<mapsto> rhs_and_type)"
    and n: "next_constraint_id s' = t + 1" and v: "next_variable_id s' = next_variable_id s"
    by blast
  from assms(1) h have low: "\<forall>i \<in> set (map constraint_id rhs_and_type). next_constraint_id s \<le> i"
    unfolding constraints_from_counter_def from_counter_def list_all_iff by blast
  from py_max_Inr[OF m] low show ?thesis
    by (auto simp: fresh_def c n v ids_at_def less_Suc_eq_le)
qed

lemma allocating_bids:
  "allocating m \<Longrightarrow> variable_ids_bids m b i n = Inr (vs, ul, rg) \<Longrightarrow> from_counter n (map variable_id vs)"
  unfolding allocating_def by (elim conjE) fast

lemma allocating_capacity:
  "allocating m \<Longrightarrow> constraints_from_counter (unit_constraints_capacity m x)"
  unfolding allocating_def by (elim conjE) fast

lemma allocating_ramp_up:
  "allocating m \<Longrightarrow> constraints_from_counter (\<lambda>n. unit_constraints_ramp_up m x n t)"
  unfolding allocating_def by (elim conjE) fast

lemma allocating_ramp_down:
  "allocating m \<Longrightarrow> constraints_from_counter (\<lambda>n. unit_constraints_ramp_down m x n t)"
  unfolding allocating_def by (elim conjE) fast

lemma allocating_energy:
  "allocating m \<Longrightarrow> constraints_from_counter (market_constraints_energy m x)"
  unfolding allocating_def by (elim conjE) fast

lemma allocating_fcas:
  "allocating m \<Longrightarrow> constraints_from_counter (market_constraints_fcas m x)"
  unfolding allocating_def by (elim conjE) fast

lemma allocating_max_availability:
  "allocating m \<Longrightarrow> constraints_from_counter (unit_constraints_fcas_max_availability m x)"
  unfolding allocating_def by (elim conjE) fast

lemma allocating_joint_ramping:
  "allocating m \<Longrightarrow> constraints_from_counter (fcas_constraints_joint_ramping_constraints m x y z t)"
  unfolding allocating_def by (elim conjE) fast

lemma allocating_joint_capacity:
  "allocating m \<Longrightarrow> constraints_from_counter (fcas_constraints_joint_capacity_constraints m x y)"
  unfolding allocating_def by (elim conjE) fast

lemma allocating_regulation:
  "allocating m \<Longrightarrow> constraints_from_counter (fcas_constraints_energy_and_regulation_capacity_constraints m x)"
  unfolding allocating_def by (elim conjE) fast

lemma allocating_create:
  "allocating m \<Longrightarrow> inter_create m x n = Inr (vs, mp) \<Longrightarrow> from_counter n (map variable_id vs)"
  unfolding allocating_def by (elim conjE) fast

lemma allocating_losses:
  "allocating m \<Longrightarrow> inter_create_loss_variables m x y z n = Inr (vs, mp) \<Longrightarrow> from_counter n (map variable_id vs)"
  unfolding allocating_def by (elim conjE) fast

lemma allocating_weights:
  "allocating m \<Longrightarrow> inter_create_weights m x n = Inr vs \<Longrightarrow> from_counter n (map variable_id vs)"
  unfolding allocating_def by (elim conjE) fast

lemma allocating_sum:
  "allocating m \<Longrightarrow> inter_create_weights_must_sum_to_one m x n = Inr (l, r) \<Longrightarrow> from_counter n (map constraint_id r)"
  unfolding allocating_def by (elim conjE) fast

lemma allocating_flow:
  "allocating m \<Longrightarrow> inter_link_weights_to_inter_flow m x y n = Inr (l, r) \<Longrightarrow> from_counter n (map dr_constraint_id r)"
  unfolding allocating_def by (elim conjE) fast

lemma allocating_loss_link:
  "allocating m \<Longrightarrow> inter_link_inter_loss_to_interpolation_weights m x y z n = Inr (l, r) \<Longrightarrow> from_counter n (map dr_constraint_id r)"
  unfolding allocating_def by (elim conjE) fast

lemma allocating_save_index:
  "allocating m \<Longrightarrow> from_counter n (map snd (hf_save_index m x n))"
  unfolding allocating_def by (elim conjE) fast

lemma allocating_deficit:
  "allocating m \<Longrightarrow> elastic_constraints_create_deficit_variables m f n = Inr (dv, lhs) \<Longrightarrow> from_counter n (map d_variable_id dv)"
  unfolding allocating_def by (elim conjE) fast

lemma fresh_from_max:
  assumes "from_counter n ids" and "ids \<noteq> [] \<and> t \<in> set ids \<and> (\<forall>x \<in> set ids. x \<le> t)"
  shows "fresh n (t + 1) ids"
proof -
  from assms have "n \<le> t" by (auto simp: from_counter_def list_all_iff)
  with assms show ?thesis by (auto simp: fresh_def from_counter_def list_all_iff)
qed

lemma from_counterD: "from_counter n ids \<Longrightarrow> i \<in> set ids \<Longrightarrow> n \<le> i"
  by (simp add: from_counter_def list_all_iff)

lemma volume_bids_fresh:
  assumes "allocating m" and "set_unit_volume_bids m s b = Done s'"
  shows "fresh (next_variable_id s) (next_variable_id s')
           (ids_at (decision_variables s') variable_id ''bids'')
       \<and> next_constraint_id s' = next_constraint_id s"
proof -
  from checked_Done[OF assms(2)[unfolded set_unit_volume_bids_def]] obtain vs ul rg t where
    h: "variable_ids_bids m b (unit_info s) (next_variable_id s) = Inr (vs, ul, rg)"
    and mx: "py_max (map variable_id vs) = Inr t"
    and d: "decision_variables s' ''bids'' = Some vs"
    and n: "next_variable_id s' = t + 1" and c: "next_constraint_id s' = next_constraint_id s"
    by (auto simp: Let_def split: sum.splits prod.splits)
  from fresh_from_max[OF allocating_bids[OF assms(1) h] py_max_Inr[OF mx]] show ?thesis
    by (simp add: d n c ids_at_def)
qed

lemma interconnectors_fresh:
  assumes "allocating m" and "set_interconnectors m s x = Done s'"
  shows "fresh (next_variable_id s) (next_variable_id s')
           (ids_at (decision_variables s') variable_id ''interconnectors'')
       \<and> next_constraint_id s' = next_constraint_id s"
proof -
  from checked_Done[OF assms(2)[unfolded set_interconnectors_def]] obtain vs mp t where
    h: "inter_create m (map fill_loss_factors x) (next_variable_id s) = Inr (vs, mp)"
    and mx: "py_max (map variable_id vs) = Inr t"
    and d: "decision_variables s' ''interconnectors'' = Some vs"
    and n: "next_variable_id s' = t + 1" and c: "next_constraint_id s' = next_constraint_id s"
    by (auto simp: Let_def split: sum.splits prod.splits)
  from fresh_from_max[OF allocating_create[OF assms(1) h] py_max_Inr[OF mx]] show ?thesis
    by (simp add: d n c ids_at_def)
qed

lemma generic_fresh:
  assumes "allocating m" and "set_generic_constraints m s x = Done s'"
  shows "fresh (next_constraint_id s) (next_constraint_id s')
           (ids_at (constraints_rhs_and_type s') constraint_id ''generic'')
       \<and> next_variable_id s' = next_variable_id s"
proof -
  from checked_Done[OF assms(2)[unfolded set_generic_constraints_def]] obtain t where
    mx: "pd_max (map snd (hf_save_index m x (next_constraint_id s))) = Some t"
    and d: "constraints_rhs_and_type s' ''generic''
        = Some (map generic_constraint (hf_save_index m x (next_constraint_id s)))"
    and n: "next_constraint_id s' = t + 1" and c: "next_variable_id s' = next_variable_id s"
    by (auto simp: Let_def split: option.splits)
  have ids: "map constraint_id (map generic_constraint rows) = map snd rows" for rows
    by (simp add: generic_constraint_def comp_def)
  from fresh_from_max[OF allocating_save_index[OF assms(1), of "next_constraint_id s" x]
      pd_max_Some[OF mx]] show ?thesis
    by (simp add: d n c ids_at_def ids del: map_map)
qed

lemma elastic_fresh:
  assumes "allocating m"
    and "make_constraints_elastic (elastic_constraints_create_deficit_variables m) s k vc = Done s'"
  shows "fresh (next_variable_id s) (next_variable_id s')
           (ids_at (decision_variables s') variable_id (deficit_key k))
       \<and> next_constraint_id s' = next_constraint_id s"
proof -
  from elastic_done[OF assms(2)] obtain frame dv lhs t where
    h: "elastic_constraints_create_deficit_variables m frame (next_variable_id s) = Inr (dv, lhs)"
    and mx: "py_max (map d_variable_id dv) = Inr t"
    and d: "decision_variables s' = (decision_variables s)(deficit_key k \<mapsto> map deficit_variable dv)"
    and n: "next_variable_id s' = t + 1"
    by blast
  have c: "next_constraint_id s' = next_constraint_id s"
    using assms(2)
    by (auto simp: make_constraints_elastic_def Let_def split: sum.splits option.splits)
  have ids: "map variable_id (map deficit_variable rows) = map d_variable_id rows" for rows
    by (simp add: deficit_variable_def comp_def)
  from fresh_from_max[OF allocating_deficit[OF assms(1) h] py_max_Inr[OF mx]] show ?thesis
    by (simp add: d n c ids_at_def ids del: map_map)
qed

lemma losses_Done:
  assumes "set_interconnector_losses m s lf bp = Done s'"
  shows "\<exists>flows flow_map lv lm wv sl sr fl fr ll lr a b c d tv tc.
       inter_create_loss_variables m flows flow_map lf (next_variable_id s) = Inr (lv, lm)
     \<and> pd_max (map variable_id lv) = Some a
     \<and> inter_create_weights m bp (a + 1) = Inr wv
     \<and> pd_max (map variable_id wv) = Some b
     \<and> inter_create_weights_must_sum_to_one m wv (next_constraint_id s) = Inr (sl, sr)
     \<and> pd_max (map constraint_id sr) = Some c
     \<and> inter_link_weights_to_inter_flow m wv flows (c + 1) = Inr (fl, fr)
     \<and> pd_max (map dr_constraint_id fr) = Some d
     \<and> inter_link_inter_loss_to_interpolation_weights m wv lv lf (d + 1) = Inr (ll, lr)
     \<and> pd_max (map variable_id (lv @ wv)) = Some tv
     \<and> pd_max (map constraint_id sr @ map dr_constraint_id (fr @ lr)) = Some tc
     \<and> decision_variables s' ''interconnector_losses'' = Some lv
     \<and> decision_variables s' ''interpolation_weights'' = Some wv
     \<and> constraints_rhs_and_type s' ''interpolation_weights'' = Some sr
     \<and> constraints_dynamic_rhs_and_type s' ''link_loss_to_flow'' = Some (fr @ lr)
     \<and> next_variable_id s' = tv + 1 \<and> next_constraint_id s' = tc + 1"
  using checked_Done[OF assms[unfolded set_interconnector_losses_def]]
  by (clarsimp simp: Let_def split: sum.splits option.splits prod.splits) blast


lemma from_counter_mono: "from_counter n ids \<Longrightarrow> k \<le> n \<Longrightarrow> from_counter k ids"
  by (auto simp: from_counter_def list_all_iff)

lemma from_counter_append:
  "from_counter n (xs @ ys) = (from_counter n xs \<and> from_counter n ys)"
  by (auto simp: from_counter_def)

lemma losses_fresh:
  assumes "allocating m" and "set_interconnector_losses m s lf bp = Done s'"
  shows "fresh (next_variable_id s) (next_variable_id s')
           (ids_at (decision_variables s') variable_id ''interconnector_losses''
            @ ids_at (decision_variables s') variable_id ''interpolation_weights'')
       \<and> fresh (next_constraint_id s) (next_constraint_id s')
           (ids_at (constraints_rhs_and_type s') constraint_id ''interpolation_weights''
            @ ids_at (constraints_dynamic_rhs_and_type s') dr_constraint_id ''link_loss_to_flow'')"
proof -
  from losses_Done[OF assms(2)] obtain flows flow_map lv lm wv sl sr fl fr ll lr a b c d tv tc
    where h1: "inter_create_loss_variables m flows flow_map lf (next_variable_id s) = Inr (lv, lm)"
      and m1: "pd_max (map variable_id lv) = Some a"
      and h2: "inter_create_weights m bp (a + 1) = Inr wv"
      and h3: "inter_create_weights_must_sum_to_one m wv (next_constraint_id s) = Inr (sl, sr)"
      and m3: "pd_max (map constraint_id sr) = Some c"
      and h4: "inter_link_weights_to_inter_flow m wv flows (c + 1) = Inr (fl, fr)"
      and m4: "pd_max (map dr_constraint_id fr) = Some d"
      and h5: "inter_link_inter_loss_to_interpolation_weights m wv lv lf (d + 1) = Inr (ll, lr)"
      and mv: "pd_max (map variable_id (lv @ wv)) = Some tv"
      and mc: "pd_max (map constraint_id sr @ map dr_constraint_id (fr @ lr)) = Some tc"
      and t1: "decision_variables s' ''interconnector_losses'' = Some lv"
      and t2: "decision_variables s' ''interpolation_weights'' = Some wv"
      and t3: "constraints_rhs_and_type s' ''interpolation_weights'' = Some sr"
      and t4: "constraints_dynamic_rhs_and_type s' ''link_loss_to_flow'' = Some (fr @ lr)"
      and nv: "next_variable_id s' = tv + 1" and nc: "next_constraint_id s' = tc + 1"
    by blast
  have l1: "from_counter (next_variable_id s) (map variable_id lv)"
    by (rule allocating_losses[OF assms(1) h1])
  from pd_max_Some[OF m1] l1 have "next_variable_id s \<le> a + 1"
    by (auto simp: from_counter_def list_all_iff)
  with allocating_weights[OF assms(1) h2]
  have l2: "from_counter (next_variable_id s) (map variable_id wv)"
    by (rule from_counter_mono)
  have c1: "from_counter (next_constraint_id s) (map constraint_id sr)"
    by (rule allocating_sum[OF assms(1) h3])
  from pd_max_Some[OF m3] c1 have b3: "next_constraint_id s \<le> c + 1"
    by (auto simp: from_counter_def list_all_iff)
  with allocating_flow[OF assms(1) h4]
  have c2: "from_counter (next_constraint_id s) (map dr_constraint_id fr)"
    by (rule from_counter_mono)
  from pd_max_Some[OF m4] c2 have "next_constraint_id s \<le> d + 1"
    by (auto simp: from_counter_def list_all_iff)
  with allocating_loss_link[OF assms(1) h5]
  have c3: "from_counter (next_constraint_id s) (map dr_constraint_id lr)"
    by (rule from_counter_mono)
  have v: "fresh (next_variable_id s) (tv + 1) (map variable_id (lv @ wv))"
    by (rule fresh_from_max[OF _ pd_max_Some[OF mv]]) (simp add: from_counter_append l1 l2)
  have k: "fresh (next_constraint_id s) (tc + 1)
      (map constraint_id sr @ map dr_constraint_id (fr @ lr))"
    by (rule fresh_from_max[OF _ pd_max_Some[OF mc]]) (simp add: from_counter_append c1 c2 c3)
  from v k show ?thesis by (simp add: ids_at_def t1 t2 t3 t4 nv nc)
qed

lemma step_Raised_counters:
  assumes "step m c s = Raised e s'"
  shows "next_variable_id s' = next_variable_id s \<and> next_constraint_id s' = next_constraint_id s"
proof (cases c)
  case (SetInterconnectorLosses lf bp)
  with assms show ?thesis
    by (auto simp: set_interconnector_losses_def Let_def dest!: checked_Raised
        split: sum.splits option.splits prod.splits)
next
  case (MakeConstraintsElastic k vc)
  with assms show ?thesis
    by (auto simp: make_constraints_elastic_def Let_def
        split: sum.splits option.splits prod.splits)
qed (use assms in \<open>auto simp: set_unit_info_def set_unit_volume_bids_def set_unit_price_bids_def
      set_unit_capacity_constraints_def set_unit_ramp_up_constraints_def
      set_unit_ramp_down_constraints_def set_demand_constraints_def
      set_fcas_requirements_constraints_def set_fcas_max_availability_def
      set_joint_ramping_constraints_def set_joint_capacity_constraints_def
      set_energy_and_regulation_capacity_constraints_def set_interconnectors_def
      set_generic_constraints_def
      link_units_to_generic_constraints_def link_regions_to_generic_constraints_def
      link_interconnectors_to_generic_constraints_def Let_def
      dest!: checked_Raised store_unit_constraints_Raised store_market_constraints_Raised
      split: sum.splits option.splits prod.splits if_splits\<close>)

lemma same_counters_fresh:
  "next_variable_id s' = next_variable_id s \<Longrightarrow> next_constraint_id s' = next_constraint_id s
   \<Longrightarrow> fresh (next_variable_id s) (next_variable_id s') []
       \<and> fresh (next_constraint_id s) (next_constraint_id s') []"
  by simp

lemma step_Done_fresh:
  assumes "allocating m" and "step m c s = Done s'"
  shows "fresh (next_variable_id s) (next_variable_id s') (created_variable_ids c s')
       \<and> fresh (next_constraint_id s) (next_constraint_id s') (created_constraint_ids c s')"
proof (cases c)
  case (SetUnitInfo x)
  with assms(2) show ?thesis by (auto simp: set_unit_info_def dest!: checked_Done)
next
  case (SetUnitVolumeBids x)
  with assms volume_bids_fresh[of m s x s'] show ?thesis by simp
next
  case (SetUnitPriceBids x)
  with assms(2) show ?thesis
    by (auto simp: set_unit_price_bids_def dest!: checked_Done
        split: sum.splits option.splits if_splits)
next
  case (SetUnitCapacityConstraints x)
  with assms(2) have
    "store_unit_constraints ''unit_capacity'' s (unit_constraints_capacity m x (next_constraint_id s)) = Done s'"
    by (auto simp: set_unit_capacity_constraints_def dest!: checked_Done)
  from unit_family_fresh[OF allocating_capacity[OF assms(1)] this] SetUnitCapacityConstraints
  show ?thesis by simp
next
  case (SetUnitRampUpConstraints x)
  with assms(2) have
    "store_unit_constraints ''ramp_up'' s ((\<lambda>n. unit_constraints_ramp_up m x n (dispatch_interval s)) (next_constraint_id s)) = Done s'"
    by (auto simp: set_unit_ramp_up_constraints_def dest!: checked_Done)
  from unit_family_fresh[OF allocating_ramp_up[OF assms(1)] this] SetUnitRampUpConstraints
  show ?thesis by simp
next
  case (SetUnitRampDownConstraints x)
  with assms(2) have
    "store_unit_constraints ''ramp_down'' s ((\<lambda>n. unit_constraints_ramp_down m x n (dispatch_interval s)) (next_constraint_id s)) = Done s'"
    by (auto simp: set_unit_ramp_down_constraints_def dest!: checked_Done)
  from unit_family_fresh[OF allocating_ramp_down[OF assms(1)] this] SetUnitRampDownConstraints
  show ?thesis by simp
next
  case (SetDemandConstraints x)
  with assms(2) have
    "store_market_constraints ''demand'' s (market_constraints_energy m x (next_constraint_id s)) = Done s'"
    by (auto simp: set_demand_constraints_def dest!: checked_Done)
  from market_family_fresh[OF allocating_energy[OF assms(1)] this] SetDemandConstraints
  show ?thesis by simp
next
  case (SetFcasRequirementsConstraints x)
  with assms(2) have
    "store_market_constraints ''fcas'' s (market_constraints_fcas m x (next_constraint_id s)) = Done s'"
    by (auto simp: set_fcas_requirements_constraints_def dest!: checked_Done)
  from market_family_fresh[OF allocating_fcas[OF assms(1)] this] SetFcasRequirementsConstraints
  show ?thesis by simp
next
  case (SetFcasMaxAvailability x)
  with assms(2) have
    "store_unit_constraints ''fcas_max_availability'' s (unit_constraints_fcas_max_availability m x (next_constraint_id s)) = Done s'"
    by (auto simp: set_fcas_max_availability_def dest!: checked_Done)
  from unit_family_fresh[OF allocating_max_availability[OF assms(1)] this] SetFcasMaxAvailability
  show ?thesis by simp
next
  case (SetJointRampingConstraints x y)
  with assms(2) obtain types where
    "store_unit_constraints ''joint_ramping'' s
       (fcas_constraints_joint_ramping_constraints m x y types (dispatch_interval s)
          (next_constraint_id s)) = Done s'"
    by (auto simp: set_joint_ramping_constraints_def dest!: checked_Done split: sum.splits)
  from unit_family_fresh[OF allocating_joint_ramping[OF assms(1)] this] SetJointRampingConstraints
  show ?thesis by simp
next
  case (SetJointCapacityConstraints x)
  with assms(2) obtain types where
    "store_unit_constraints ''joint_capacity'' s
       (fcas_constraints_joint_capacity_constraints m x types (next_constraint_id s)) = Done s'"
    by (auto simp: set_joint_capacity_constraints_def dest!: checked_Done split: sum.splits)
  from unit_family_fresh[OF allocating_joint_capacity[OF assms(1)] this] SetJointCapacityConstraints
  show ?thesis by simp
next
  case (SetEnergyAndRegulationCapacityConstraints x)
  with assms(2) have
    "store_unit_constraints ''energy_and_regulation_capacity'' s (fcas_constraints_energy_and_regulation_capacity_constraints m x (next_constraint_id s)) = Done s'"
    by (auto simp: set_energy_and_regulation_capacity_constraints_def dest!: checked_Done)
  from unit_family_fresh[OF allocating_regulation[OF assms(1)] this] SetEnergyAndRegulationCapacityConstraints
  show ?thesis by simp
next
  case (SetInterconnectors x)
  with assms interconnectors_fresh[of m s x s'] show ?thesis by simp
next
  case (SetInterconnectorLosses x y)
  with assms losses_fresh[of m s x y s'] show ?thesis by simp
next
  case (SetGenericConstraints x)
  with assms generic_fresh[of m s x s'] show ?thesis by simp
next
  case (LinkUnitsToGenericConstraints x)
  with assms(2) show ?thesis
    by (auto simp: link_units_to_generic_constraints_def dest!: checked_Done)
next
  case (LinkRegionsToGenericConstraints x)
  with assms(2) show ?thesis
    by (auto simp: link_regions_to_generic_constraints_def dest!: checked_Done)
next
  case (LinkInterconnectorsToGenericConstraints x)
  with assms(2) show ?thesis
    by (auto simp: link_interconnectors_to_generic_constraints_def dest!: checked_Done)
next
  case (MakeConstraintsElastic k vc)
  with assms elastic_fresh[of m s k vc s'] show ?thesis by simp
qed

lemma build_from_counter:
  assumes "allocating m" and "entry \<in> set (build m calls s)"
  shows "from_counter (next_variable_id s) (fst entry)
       \<and> from_counter (next_constraint_id s) (snd entry)"
  using assms(2)
proof (induction calls arbitrary: s)
  case Nil
  then show ?case by simp
next
  case (Cons c cs)
  show ?case
  proof (cases "step m c s")
    case (Done s')
    from step_Done_fresh[OF assms(1) Done]
    have f: "fresh (next_variable_id s) (next_variable_id s') (created_variable_ids c s')"
      "fresh (next_constraint_id s) (next_constraint_id s') (created_constraint_ids c s')"
      by auto
    from Cons.prems Done consider
      "entry = (created_variable_ids c s', created_constraint_ids c s')"
      | "entry \<in> set (build m cs s')" by auto
    then show ?thesis
    proof cases
      case 1
      with f show ?thesis by (auto simp: fresh_def from_counter_def list_all_iff)
    next
      case 2
      from Cons.IH[OF 2] f show ?thesis
        by (auto simp: fresh_def intro: from_counter_mono)
    qed
  next
    case (Raised e s')
    from step_Raised_counters[OF Raised]
    have eq: "next_variable_id s' = next_variable_id s" "next_constraint_id s' = next_constraint_id s"
      by auto
    from Cons.prems Raised consider "entry = ([], [])" | "entry \<in> set (build m cs s')" by auto
    then show ?thesis
    proof cases
      case 1
      then show ?thesis by (simp add: from_counter_def)
    next
      case 2
      from Cons.IH[OF 2] eq show ?thesis by simp
    qed
  next
    case NanCounter
    with Cons.prems show ?thesis by simp
  qed
qed

lemma from_counter_mapI:
  "(\<And>x. x \<in> set xs \<Longrightarrow> n \<le> f x) \<Longrightarrow> from_counter n (map f xs)"
  by (auto simp: from_counter_def list_all_iff)

lemma from_counter_numbered:
  assumes "\<And>x. f (g x) = snd x" and "n \<le> k"
  shows "from_counter n (map f (map g (nempy_save_index rows k)))"
proof -
  have "from_counter k (map (\<lambda>x. f (g x)) (nempy_save_index rows k))"
  proof (rule from_counter_mapI)
    fix x assume "x \<in> set (nempy_save_index rows k)"
    from save_index_bounds[OF this] assms(1)[of x] show "k \<le> f (g x)" by simp
  qed
  then have "from_counter n (map (\<lambda>x. f (g x)) (nempy_save_index rows k))"
    using assms(2) by (rule from_counter_mono)
  then show ?thesis by (simp add: comp_def)
qed

lemma nempy_constraints_from_counter:
  "constraints_from_counter (nempy_capacity x1)"
  "constraints_from_counter (\<lambda>n. nempy_ramp_up x2 n t2)"
  "constraints_from_counter (\<lambda>n. nempy_ramp_down x3 n t3)"
  "constraints_from_counter (nempy_energy x4)"
  "constraints_from_counter (nempy_fcas_max_availability x6)"
  "constraints_from_counter (nempy_joint_ramping_constraints x7 y7 z7 t7)"
  "constraints_from_counter (nempy_joint_capacity_constraints x8 y8)"
  "constraints_from_counter (nempy_energy_and_regulation_capacity_constraints x9)"
  unfolding constraints_from_counter_def nempy_capacity_def nempy_ramp_up_def nempy_ramp_down_def
    nempy_energy_def nempy_fcas_max_availability_def nempy_joint_ramping_constraints_def
    nempy_joint_capacity_constraints_def nempy_energy_and_regulation_capacity_constraints_def
    Let_def
  by (auto simp: from_counter_append bare_constraint_def upper_constraint_def
      lower_constraint_def split: prod.splits simp del: map_map
      intro!: from_counter_numbered)


lemma first_match_member:
  assumes "x \<in> set (concat (map (\<lambda>c. take 1 (merge_on ka kb [c] ys)) cs))"
  shows "fst x \<in> set cs"
proof -
  from assms obtain c where c: "c \<in> set cs" and "x \<in> set (take 1 (merge_on ka kb [c] ys))"
    by auto
  then have "x \<in> set (merge_on ka kb [c] ys)" by (blast dest: in_set_takeD)
  then have "fst x = c" by (auto simp: set_merge_on)
  with c show ?thesis by simp
qed

lemma nempy_fcas_from_counter: "constraints_from_counter (nempy_fcas x)"
proof -
  { fix n r
    assume "r \<in> set (concat (map (\<lambda>si. take 1 (merge_on fst fst [si] x))
                       (nempy_save_index (remdups (map fst x)) n)))"
    from save_index_bounds[OF first_match_member[OF this]]
    have "n \<le> snd (fst r)" by simp }
  then show ?thesis
    unfolding constraints_from_counter_def nempy_fcas_def Let_def
    by (auto simp: bare_constraint_def split: prod.splits intro!: from_counter_mapI)
qed

lemma nempy_variables_from_counter:
  "nempy_variable_bids b i n = Inr (vs, ul, rg) \<Longrightarrow> from_counter n (map variable_id vs)"
  "nempy_create x1 n = Inr (vs, mp) \<Longrightarrow> from_counter n (map variable_id vs)"
  "nempy_create_loss_variables x2 y2 z2 n = Inr (vs, mp) \<Longrightarrow> from_counter n (map variable_id vs)"
  "nempy_create_weights x3 n = Inr vs \<Longrightarrow> from_counter n (map variable_id vs)"
  unfolding nempy_variable_bids_def nempy_create_def nempy_create_loss_variables_def
    nempy_create_weights_def Let_def
  by (auto simp: bid_variable_def bare_variable_def split: prod.splits option.splits
      simp del: map_map intro!: from_counter_numbered)

lemma nempy_sum_from_counter:
  "nempy_create_weights_must_sum_to_one x n = Inr (l, r) \<Longrightarrow> from_counter n (map constraint_id r)"
  unfolding nempy_create_weights_must_sum_to_one_def weighted_def
  by (auto simp: bare_constraint_def split: prod.splits
      simp del: map_map intro!: from_counter_numbered)

lemma from_counter_first_match:
  assumes "\<And>c. f (g c) = snd (fst c)"
  shows "from_counter n (map f (map g (concat (map (\<lambda>c. take 1 (merge_on ka kb [c] ys))
           (nempy_save_index rows n)))))"
proof -
  have "from_counter n (map (\<lambda>c. f (g c)) (concat (map (\<lambda>c. take 1 (merge_on ka kb [c] ys))
           (nempy_save_index rows n))))"
  proof (rule from_counter_mapI)
    fix c assume "c \<in> set (concat (map (\<lambda>c. take 1 (merge_on ka kb [c] ys))
           (nempy_save_index rows n)))"
    from save_index_bounds[OF first_match_member[OF this]] assms[of c]
    show "n \<le> f (g c)" by simp
  qed
  then show ?thesis by (simp only: map_map comp_def)
qed

lemma nempy_links_from_counter:
  "nempy_link_weights_to_inter_flow x y n = Inr (l, r) \<Longrightarrow> from_counter n (map dr_constraint_id r)"
  "nempy_link_inter_loss_to_interpolation_weights x' y' z' n = Inr (l', r')
     \<Longrightarrow> from_counter n (map dr_constraint_id r')"
  unfolding nempy_link_weights_to_inter_flow_def
    nempy_link_inter_loss_to_interpolation_weights_def weighted_def
  by (auto split: prod.splits simp del: map_map merge_on_Cons merge_on_Nil One_nat_def
      intro!: from_counter_first_match)

lemma from_counter_upt: "from_counter n [n ..< n + k]"
  by (simp add: from_counter_def list_all_iff)

lemma nempy_allocating: "allocating nempy"
  using nempy_numbers_from_counter
  unfolding allocating_def nempy_def numbers_from_counter_def
  by (simp add: nempy_constraints_from_counter nempy_fcas_from_counter
      nempy_variables_from_counter nempy_sum_from_counter nempy_links_from_counter
      from_counter_upt)

text \<open>
  Claim C5. Along any sequence of builder calls on one market, with modules that give out
  ids from the counter upwards, every variable id created by a later call is greater than
  every variable id created by an earlier call, and so for the constraint ids: no id is
  given out twice by two calls of a build. The trace of a build ends where a counter
  becomes \<open>NaN\<close>.
\<close>

theorem ids_increase_along_a_build:
  assumes "allocating m" and "i < j" and "j < length (build m calls s)"
  shows "(\<forall>a \<in> set (fst (build m calls s ! i)). \<forall>b \<in> set (fst (build m calls s ! j)). a < b)
       \<and> (\<forall>a \<in> set (snd (build m calls s ! i)). \<forall>b \<in> set (snd (build m calls s ! j)). a < b)"
  using assms(2,3)
proof (induction calls arbitrary: s i j)
  case Nil
  then show ?case by simp
next
  case (Cons c cs)
  show ?case
  proof (cases "step m c s")
    case (Done s')
    then have b: "build m (c # cs) s
        = (created_variable_ids c s', created_constraint_ids c s') # build m cs s'" by simp
    from Cons.prems b obtain j' where j': "j = Suc j'" "j' < length (build m cs s')"
      by (cases j) auto
    show ?thesis
    proof (cases i)
      case 0
      from step_Done_fresh[OF assms(1) Done]
      have f: "fresh (next_variable_id s) (next_variable_id s') (created_variable_ids c s')"
        "fresh (next_constraint_id s) (next_constraint_id s') (created_constraint_ids c s')"
        by auto
      from build_from_counter[OF assms(1) nth_mem[OF j'(2)]]
      have "from_counter (next_variable_id s') (fst (build m cs s' ! j'))"
        "from_counter (next_constraint_id s') (snd (build m cs s' ! j'))" by auto
      with f show ?thesis
        unfolding b 0 j'(1) by (fastforce simp: fresh_def from_counter_def list_all_iff)
    next
      case (Suc i')
      with Cons.prems j' have "i' < j'" by simp
      from Cons.IH[OF this j'(2)] show ?thesis unfolding b Suc j'(1) by simp
    qed
  next
    case (Raised e s')
    then have b: "build m (c # cs) s = ([], []) # build m cs s'" by simp
    from Cons.prems b obtain j' where j': "j = Suc j'" "j' < length (build m cs s')"
      by (cases j) auto
    show ?thesis
    proof (cases i)
      case 0
      then show ?thesis unfolding b by simp
    next
      case (Suc i')
      with Cons.prems j' have "i' < j'" by simp
      from Cons.IH[OF this j'(2)] show ?thesis unfolding b Suc j'(1) by simp
    qed
  next
    case NanCounter
    with Cons.prems show ?thesis by simp
  qed
qed

lemma example_trace:
  "build nempy example_calls (Spot 60 14000 (- 1000)) =
     [([], []), ([0, 1, 2, 3, 4], []), ([], [0, 1]), ([5, 6], []), ([], [2, 3]), ([7, 8], [])]"
  by code_simp

theorem ids_increase_witness:
  "length (build nempy example_calls (Spot 60 14000 (- 1000))) = 6
   \<and> fst (build nempy example_calls (Spot 60 14000 (- 1000)) ! 1) = [0, 1, 2, 3, 4]
   \<and> fst (build nempy example_calls (Spot 60 14000 (- 1000)) ! 3) = [5, 6]
   \<and> list_all (\<lambda>a. list_all (\<lambda>b. a < b)
         (fst (build nempy example_calls (Spot 60 14000 (- 1000)) ! 3)))
       (fst (build nempy example_calls (Spot 60 14000 (- 1000)) ! 1))"
  using ids_increase_along_a_build[OF nempy_allocating, of 1 3 example_calls
      "Spot 60 14000 (- 1000)"] example_trace
  by (simp add: list_all_iff)

subsection \<open>The availability of the services\<close>

lemma groupby_member:
  "(k, rows) \<in> set (groupby f xs) \<longleftrightarrow> (filter (\<lambda>r. f r = k) xs \<noteq> [] \<and> rows = filter (\<lambda>r. f r = k) xs)"
  by (auto simp: groupby_def filter_empty_conv)

lemma groupby_keys_distinct: "distinct (map fst (groupby f xs))"
  by (simp add: groupby_def comp_def)

lemma collect_slack_frames:
  assumes "list_all (\<lambda>family.
           (case constraints_rhs_and_type s family of
              None \<Rightarrow> True
            | Some rhs_and_type \<Rightarrow>
                constraint_to_variable_map_unit_level s family \<noteq> None
                \<and> \<not> list_ex (\<lambda>r. slack r = None) rhs_and_type)) families"
  shows "\<exists>frames. collect_slack s families = Inr frames
     \<and> (frames = [] \<longleftrightarrow> \<not> list_ex (\<lambda>family. constraints_rhs_and_type s family \<noteq> None) families)
     \<and> (\<forall>u sv. filter (\<lambda>cr. c_unit (fst cr) = u \<and> c_service (fst cr) = sv) (concat frames)
          = concat (map (\<lambda>family.
              (case (constraints_rhs_and_type s family,
                     constraint_to_variable_map_unit_level s family) of
                 (Some rhs_and_type, Some coefficients) \<Rightarrow>
                   filter (\<lambda>cr. c_unit (fst cr) = u \<and> c_service (fst cr) = sv)
                     (merge_on c_constraint_id constraint_id coefficients rhs_and_type)
               | _ \<Rightarrow> [])) families))"
  using assms
proof (induction families)
  case Nil
  then show ?case by simp
next
  case (Cons family rest)
  then obtain frames where f: "collect_slack s rest = Inr frames"
    "frames = [] \<longleftrightarrow> \<not> list_ex (\<lambda>family. constraints_rhs_and_type s family \<noteq> None) rest"
    "\<And>u sv. filter (\<lambda>cr. c_unit (fst cr) = u \<and> c_service (fst cr) = sv) (concat frames)
          = concat (map (\<lambda>family.
              (case (constraints_rhs_and_type s family,
                     constraint_to_variable_map_unit_level s family) of
                 (Some rhs_and_type, Some coefficients) \<Rightarrow>
                   filter (\<lambda>cr. c_unit (fst cr) = u \<and> c_service (fst cr) = sv)
                     (merge_on c_constraint_id constraint_id coefficients rhs_and_type)
               | _ \<Rightarrow> [])) rest)"
    by auto
  show ?case
  proof (cases "constraints_rhs_and_type s family")
    case None
    with f show ?thesis by simp
  next
    case (Some rhs_and_type)
    with Cons.prems obtain coefficients where
      c: "constraint_to_variable_map_unit_level s family = Some coefficients"
      and sl: "\<not> list_ex (\<lambda>r. slack r = None) rhs_and_type" by auto
    from Some c sl f show ?thesis by simp
  qed
qed

lemma dispatch_levels:
  assumes "decision_variables s ''bids'' = Some bid_variables"
    and "\<not> list_ex (\<lambda>v. v_unit v = None \<or> v_service v = None \<or> v_value v = None) bid_variables"
  shows "\<exists>levels. get_unit_dispatch s = Inr levels
     \<and> (\<forall>u sv d. (u, sv, d) \<in> set levels \<longleftrightarrow> dispatched_quantity s u sv = Some d)"
proof -
  let ?key = "\<lambda>v. (the (v_unit v), the (v_service v))"
  let ?levels = "map (\<lambda>(k, rows). (fst k, snd k, sum_list (map (\<lambda>v. the (v_value v)) rows)))
                  (groupby ?key bid_variables)"
  have g: "get_unit_dispatch s = Inr ?levels"
    using assms by (simp add: get_unit_dispatch_def)
  have same: "filter (\<lambda>v. ?key v = (u, sv)) bid_variables
      = filter (\<lambda>v. v_unit v = Some u \<and> v_service v = Some sv) bid_variables" for u sv
    using assms(2) by (intro filter_cong refl) (auto simp: list_ex_iff)
  have "(u, sv, d) \<in> set ?levels \<longleftrightarrow> dispatched_quantity s u sv = Some d" for u sv d
  proof -
    have "(u, sv, d) \<in> set ?levels \<longleftrightarrow>
        (\<exists>rows. ((u, sv), rows) \<in> set (groupby ?key bid_variables)
             \<and> d = sum_list (map (\<lambda>v. the (v_value v)) rows))"
      by (force simp: image_iff)
    also have "\<dots> \<longleftrightarrow> (filter (\<lambda>v. v_unit v = Some u \<and> v_service v = Some sv) bid_variables \<noteq> []
        \<and> d = sum_list (map (\<lambda>v. the (v_value v))
               (filter (\<lambda>v. v_unit v = Some u \<and> v_service v = Some sv) bid_variables)))"
      by (simp only: groupby_member same) blast
    also have "\<dots> \<longleftrightarrow> dispatched_quantity s u sv = Some d"
      using assms(1) by (auto simp: dispatched_quantity_def split: list.splits)
    finally show ?thesis .
  qed
  with g show ?thesis by blast
qed


lemma governed_slack:
  assumes "dispatched s"
  shows "\<exists>frames. collect_slack s fcas_families = Inr frames \<and> frames \<noteq> []
     \<and> (\<forall>u sv. filter (\<lambda>cr. (c_unit (fst cr), c_service (fst cr)) = (u, sv)) (concat frames)
          = governing s u sv)"
proof -
  from assms have a: "list_all (\<lambda>family.
           (case constraints_rhs_and_type s family of
              None \<Rightarrow> True
            | Some rhs_and_type \<Rightarrow>
                constraint_to_variable_map_unit_level s family \<noteq> None
                \<and> \<not> list_ex (\<lambda>r. slack r = None) rhs_and_type)) fcas_families"
    and b: "list_ex (\<lambda>family. constraints_rhs_and_type s family \<noteq> None) fcas_families"
    unfolding dispatched_def by blast+
  from collect_slack_frames[OF a] b show ?thesis
    unfolding governing_def by (simp only: prod.inject) blast
qed

text \<open>
  Claim C8. After dispatch \<^verbatim>\<open>get_fcas_availability\<close> returns a table, and its rows are
  exactly these: for every unit and service other than \<^verbatim>\<open>energy\<close> that has bid variables
  and is governed by at least one constraint of the four families, the dispatched
  quantity of the service plus the least, over the governing constraints, of the slack
  divided by the absolute value of the coefficient of the service. A unit and service
  without bid variables has no row, whatever governs it (the merge of line 2920).
\<close>

theorem fcas_availability_of_offered_services:
  assumes "dispatched s"
  shows "\<exists>rows. get_fcas_availability s = Inr rows
      \<and> (\<forall>u sv a. (u, sv, a) \<in> set rows \<longleftrightarrow> availability s u sv = Some a)"
proof -
  from governed_slack[OF assms] obtain frames where
    f: "collect_slack s fcas_families = Inr frames" "frames \<noteq> []"
    and gov: "\<And>u sv. filter (\<lambda>cr. (c_unit (fst cr), c_service (fst cr)) = (u, sv)) (concat frames)
          = governing s u sv" by blast
  from assms obtain bid_variables where
    bids: "decision_variables s ''bids'' = Some bid_variables"
    "\<not> list_ex (\<lambda>v. v_unit v = None \<or> v_service v = None \<or> v_value v = None) bid_variables"
    unfolding dispatched_def by (auto split: option.splits)
  from dispatch_levels[OF bids] obtain levels where
    l: "get_unit_dispatch s = Inr levels"
    and lv: "\<And>u sv d. (u, sv, d) \<in> set levels \<longleftrightarrow> dispatched_quantity s u sv = Some d"
    by blast
  let ?grouped = "map (\<lambda>(k, rows). (k, np_min_skipna (map service_slack rows)))
       (groupby (\<lambda>cr. (c_unit (fst cr), c_service (fst cr))) (concat frames))"
  let ?not_energy = "filter (\<lambda>(k, s). snd k \<noteq> ''energy'') ?grouped"
  let ?rows = "map (\<lambda>((k, s), (u, sv, d)). (fst k, snd k, np_add (Fin d) s))
       (merge_on fst (\<lambda>(u, sv, d). (u, sv)) ?not_energy levels)"
  have r: "get_fcas_availability s = Inr ?rows"
    using f l by (simp add: get_fcas_availability_def Let_def)
  have ne: "((u, sv), x) \<in> set ?not_energy \<longleftrightarrow>
      (sv \<noteq> ''energy'' \<and> governing s u sv \<noteq> []
       \<and> x = np_min_skipna (map service_slack (governing s u sv)))" for u sv x
  proof -
    have "((u, sv), x) \<in> set ?grouped \<longleftrightarrow>
        (\<exists>rows. ((u, sv), rows) \<in> set (groupby (\<lambda>cr. (c_unit (fst cr), c_service (fst cr)))
                    (concat frames)) \<and> x = np_min_skipna (map service_slack rows))"
      by (force simp: image_iff)
    also have "\<dots> \<longleftrightarrow> (governing s u sv \<noteq> []
       \<and> x = np_min_skipna (map service_slack (governing s u sv)))"
      by (simp only: groupby_member gov) blast
    finally show ?thesis by auto
  qed
  have "(u, sv, a) \<in> set ?rows \<longleftrightarrow> availability s u sv = Some a" for u sv a
  proof -
    have "(u, sv, a) \<in> set ?rows \<longleftrightarrow>
        (\<exists>x d. ((u, sv), x) \<in> set ?not_energy \<and> (u, sv, d) \<in> set levels \<and> a = np_add (Fin d) x)"
      unfolding set_map set_merge_on by (force simp: image_iff)
    also have "\<dots> \<longleftrightarrow> availability s u sv = Some a"
      unfolding ne lv by (auto simp: availability_def split: option.splits)
    finally show ?thesis .
  qed
  with r show ?thesis by blast
qed

lemma fcas_market_dispatched: "dispatched fcas_market"
  by code_simp

lemma fcas_market_availability:
  "get_fcas_availability fcas_market =
     Inr [(''A'', ''raise_6s'', Fin 10), (''B'', ''raise_6s'', Fin 5), (''B'', ''raise_reg'', Fin 10)]"
  by code_simp

theorem fcas_availability_witness:
  "dispatched fcas_market
   \<and> get_fcas_availability fcas_market =
       Inr [(''A'', ''raise_6s'', Fin 10), (''B'', ''raise_6s'', Fin 5),
            (''B'', ''raise_reg'', Fin 10)]
   \<and> availability fcas_market ''A'' ''raise_6s'' = Some (Fin 10)
   \<and> availability fcas_market ''B'' ''raise_6s'' = Some (Fin 5)
   \<and> availability fcas_market ''B'' ''raise_reg'' = Some (Fin 10)"
  using fcas_availability_of_offered_services[OF fcas_market_dispatched]
    fcas_market_dispatched fcas_market_availability
  by auto

theorem fcas_availability_counterexample:
  "dispatched fcas_market
   \<and> governing fcas_market ''A'' ''raise_reg'' \<noteq> []
   \<and> map service_slack (governing fcas_market ''A'' ''raise_reg'') = [Fin 5]
   \<and> dispatched_quantity fcas_market ''A'' ''raise_reg'' = None
   \<and> get_fcas_availability fcas_market =
       Inr [(''A'', ''raise_6s'', Fin 10), (''B'', ''raise_6s'', Fin 5),
            (''B'', ''raise_reg'', Fin 10)]"
  by code_simp

subsection \<open>Joint capacity constraints\<close>

lemma done_state: "is_done r \<Longrightarrow> r = Done (state_of r fallback)"
  by (cases r) (simp_all add: is_done_def state_of_def)

lemma filter_numbered:
  assumes "\<And>x. c_constraint_id (f x) = snd x"
  shows "filter (\<lambda>r. c_constraint_id r = k) (map f (nempy_save_index ts n))
       = (if n \<le> k \<and> k < n + length ts then [f (ts ! (k - n), k)] else [])"
proof (induction ts arbitrary: n)
  case Nil
  then show ?case by simp
next
  case (Cons t ts)
  show ?case
  proof (cases "k = n")
    case True
    then show ?thesis using Cons[of "Suc n"] by (simp add: assms)
  next
    case False
    then show ?thesis using Cons[of "Suc n"] by (auto simp: assms Suc_diff_le)
  qed
qed

lemma joint_capacity_terms:
  assumes "nempy_joint_capacity_constraints ts types n = Inr (rows, variable_map)"
    and "i < length ts"
  shows "terms_of variable_map (n + i) =
           [(t_unit (ts ! i), ''energy'', Fin 1),
            (t_unit (ts ! i), t_service (ts ! i), slope_upper (ts ! i)),
            (t_unit (ts ! i), ''raise_reg'', Fin 1)]"
    and "terms_of variable_map (n + length ts + i) =
           [(t_unit (ts ! i), ''energy'', Fin 1),
            (t_unit (ts ! i), t_service (ts ! i), np_neg (slope_lower (ts ! i))),
            (t_unit (ts ! i), ''lower_reg'', Fin (- 1))]"
proof -
  have ids: "c_constraint_id (energy_term x) = snd x" "c_constraint_id (upper_service_term x) = snd x"
    "c_constraint_id (lower_service_term x) = snd x" "c_constraint_id (raise_reg_term x) = snd x"
    "c_constraint_id (lower_reg_term x) = snd x" for x
    by (simp_all add: energy_term_def upper_service_term_def lower_service_term_def
        raise_reg_term_def lower_reg_term_def unit_term_def)
  from assms(1) have vm: "variable_map =
      map energy_term (nempy_save_index ts n) @ map upper_service_term (nempy_save_index ts n)
      @ map raise_reg_term (nempy_save_index ts n)
      @ map energy_term (nempy_save_index ts (n + length ts))
      @ map lower_service_term (nempy_save_index ts (n + length ts))
      @ map lower_reg_term (nempy_save_index ts (n + length ts))"
    by (simp add: nempy_joint_capacity_constraints_def Let_def)
  show "terms_of variable_map (n + i) =
           [(t_unit (ts ! i), ''energy'', Fin 1),
            (t_unit (ts ! i), t_service (ts ! i), slope_upper (ts ! i)),
            (t_unit (ts ! i), ''raise_reg'', Fin 1)]"
    using assms(2) unfolding terms_of_def vm filter_append
    by (simp add: filter_numbered ids energy_term_def upper_service_term_def raise_reg_term_def
        unit_term_def)
  show "terms_of variable_map (n + length ts + i) =
           [(t_unit (ts ! i), ''energy'', Fin 1),
            (t_unit (ts ! i), t_service (ts ! i), np_neg (slope_lower (ts ! i))),
            (t_unit (ts ! i), ''lower_reg'', Fin (- 1))]"
    using assms(2) unfolding terms_of_def vm filter_append
    by (simp add: filter_numbered ids energy_term_def lower_service_term_def lower_reg_term_def
        unit_term_def)
qed

lemma joint_capacity_rows:
  assumes "nempy_joint_capacity_constraints ts types n = Inr (rows, variable_map)"
  shows "map constraint_id rows = [n ..< n + 2 * length ts]"
    and "i < length ts \<Longrightarrow> rows ! i = upper_constraint (ts ! i, n + i)"
    and "i < length ts \<Longrightarrow> rows ! (length ts + i) = lower_constraint (ts ! i, n + length ts + i)"
proof -
  from assms have r: "rows = map upper_constraint (nempy_save_index ts n)
      @ map lower_constraint (nempy_save_index ts (n + length ts))"
    by (simp add: nempy_joint_capacity_constraints_def Let_def)
  have u: "map constraint_id (map upper_constraint xs) = map snd xs"
    and l: "map constraint_id (map lower_constraint xs) = map snd xs" for xs
    by (simp_all add: upper_constraint_def lower_constraint_def bare_constraint_def)
  have "[n ..< n + length ts] @ [n + length ts ..< n + length ts + length ts]
      = [n ..< n + length ts + length ts]"
    by (simp add: upt_add_eq_append[symmetric])
  then show "map constraint_id rows = [n ..< n + 2 * length ts]"
    unfolding r map_append u l by (simp add: mult_2 add.assoc)
  show "i < length ts \<Longrightarrow> rows ! i = upper_constraint (ts ! i, n + i)"
    unfolding r by (simp add: nth_append save_index_nth)
  show "i < length ts \<Longrightarrow> rows ! (length ts + i) = lower_constraint (ts ! i, n + length ts + i)"
    unfolding r by (simp add: nth_append save_index_nth)
qed


text \<open>
  Claim C1. When \<^verbatim>\<open>set_joint_capacity_constraints\<close> returns, the table of the family holds
  exactly two constraints for every trapezium, numbered from the counter: for the
  trapezium of row \<open>i\<close> the upper constraint
  \<^verbatim>\<open>energy + ((enablement_max - high_break_point) / max_availability) * service + raise_reg
  <= enablement_max\<close> and the lower constraint
  \<^verbatim>\<open>energy - ((low_break_point - enablement_min) / max_availability) * service - lower_reg
  >= enablement_min\<close>. The terms listed are all the terms of the constraint, so
  \<^verbatim>\<open>raise_reg\<close> is only in the upper one and \<^verbatim>\<open>lower_reg\<close> only in the lower one. The
  division is numpy's.
\<close>

theorem two_joint_capacity_constraints_for_each_trapezium:
  assumes "set_joint_capacity_constraints nempy s trapeziums = Done s'"
    and "i < length trapeziums"
  shows "\<exists>rows variable_map.
       constraints_rhs_and_type s' ''joint_capacity'' = Some rows
     \<and> constraint_to_variable_map_unit_level s' ''joint_capacity'' = Some variable_map
     \<and> map constraint_id rows
         = [next_constraint_id s ..< next_constraint_id s + 2 * length trapeziums]
     \<and> next_constraint_id s' = next_constraint_id s + 2 * length trapeziums
     \<and> rows ! i =
         \<lparr> r_set = None, r_unit = Some (t_unit (trapeziums ! i)),
           r_service = Some (t_service (trapeziums ! i)), r_region = None,
           r_interconnector = None, constraint_id = next_constraint_id s + i, r_type = LE,
           rhs = enablement_max (trapeziums ! i), slack = None \<rparr>
     \<and> terms_of variable_map (next_constraint_id s + i) =
         [(t_unit (trapeziums ! i), ''energy'', Fin 1),
          (t_unit (trapeziums ! i), t_service (trapeziums ! i),
             np_div (Fin (enablement_max (trapeziums ! i) - high_break_point (trapeziums ! i)))
               (Fin (max_availability (trapeziums ! i)))),
          (t_unit (trapeziums ! i), ''raise_reg'', Fin 1)]
     \<and> rows ! (length trapeziums + i) =
         \<lparr> r_set = None, r_unit = Some (t_unit (trapeziums ! i)),
           r_service = Some (t_service (trapeziums ! i)), r_region = None,
           r_interconnector = None,
           constraint_id = next_constraint_id s + length trapeziums + i, r_type = GE,
           rhs = enablement_min (trapeziums ! i), slack = None \<rparr>
     \<and> terms_of variable_map (next_constraint_id s + length trapeziums + i) =
         [(t_unit (trapeziums ! i), ''energy'', Fin 1),
          (t_unit (trapeziums ! i), t_service (trapeziums ! i),
             np_neg (np_div
               (Fin (low_break_point (trapeziums ! i) - enablement_min (trapeziums ! i)))
               (Fin (max_availability (trapeziums ! i))))),
          (t_unit (trapeziums ! i), ''lower_reg'', Fin (- 1))]"
proof -
  let ?n = "next_constraint_id s"
  from checked_Done[OF assms(1)[unfolded set_joint_capacity_constraints_def]]
  obtain types where st: "store_unit_constraints ''joint_capacity'' s
      (nempy_joint_capacity_constraints trapeziums types ?n) = Done s'"
    by (auto simp: nempy_def split: sum.splits)
  then obtain rows variable_map t where
    h: "nempy_joint_capacity_constraints trapeziums types ?n = Inr (rows, variable_map)"
    and m: "py_max (map constraint_id rows) = Inr t"
    and s': "s' = s \<lparr> constraint_to_variable_map_unit_level :=
                 (constraint_to_variable_map_unit_level s)(''joint_capacity'' \<mapsto> variable_map),
               constraints_rhs_and_type :=
                 (constraints_rhs_and_type s)(''joint_capacity'' \<mapsto> rows),
               next_constraint_id := t + 1 \<rparr>"
    by (auto simp: store_unit_constraints_def Let_def split: sum.splits prod.splits)
  note ids = joint_capacity_rows(1)[OF h]
  from py_max_Inr[OF m] have "t \<in> set (map constraint_id rows)"
    "\<forall>x \<in> set (map constraint_id rows). x \<le> t" by auto
  with assms(2) have t: "t + 1 = ?n + 2 * length trapeziums"
    unfolding ids by (cases "length trapeziums") (auto simp: less_Suc_eq_le dest!: bspec[where x="?n + 2 * length trapeziums - 1"])
  show ?thesis
    using joint_capacity_rows(2,3)[OF h assms(2)] joint_capacity_terms[OF h assms(2)] ids t
    by (simp add: s' upper_constraint_def lower_constraint_def bare_constraint_def
        slope_upper_def slope_lower_def)
qed

lemma example_joint_capacity_done:
  "set_joint_capacity_constraints nempy example_market [example_trapezium]
     = Done example_joint_capacity_market"
  unfolding example_joint_capacity_market_def by (rule done_state) code_simp

lemma example_market_counters:
  "next_constraint_id example_market = 0" "next_variable_id example_market = 0"
  by code_simp+

theorem two_joint_capacity_constraints_witness:
  "map constraint_id (the (constraints_rhs_and_type example_joint_capacity_market ''joint_capacity''))
     = [0, 1]
   \<and> map r_type (the (constraints_rhs_and_type example_joint_capacity_market ''joint_capacity''))
     = [LE, GE]
   \<and> map rhs (the (constraints_rhs_and_type example_joint_capacity_market ''joint_capacity''))
     = [80, 20]
   \<and> terms_of (the (constraint_to_variable_map_unit_level example_joint_capacity_market
         ''joint_capacity'')) 0
     = [(''A'', ''energy'', Fin 1), (''A'', ''raise_6s'', Fin (1 / 3)), (''A'', ''raise_reg'', Fin 1)]
   \<and> terms_of (the (constraint_to_variable_map_unit_level example_joint_capacity_market
         ''joint_capacity'')) 1
     = [(''A'', ''energy'', Fin 1), (''A'', ''raise_6s'', Fin (- (1 / 3))),
        (''A'', ''lower_reg'', Fin (- 1))]"
proof -
  from two_joint_capacity_constraints_for_each_trapezium[OF example_joint_capacity_done, of 0]
  obtain rows variable_map where
    "constraints_rhs_and_type example_joint_capacity_market ''joint_capacity'' = Some rows"
    "constraint_to_variable_map_unit_level example_joint_capacity_market ''joint_capacity''
       = Some variable_map"
    "map constraint_id rows = [0, 1]"
    "rows ! 0 = \<lparr> r_set = None, r_unit = Some ''A'', r_service = Some ''raise_6s'',
        r_region = None, r_interconnector = None, constraint_id = 0, r_type = LE,
        rhs = 80, slack = None \<rparr>"
    "rows ! 1 = \<lparr> r_set = None, r_unit = Some ''A'', r_service = Some ''raise_6s'',
        r_region = None, r_interconnector = None, constraint_id = 1, r_type = GE,
        rhs = 20, slack = None \<rparr>"
    "terms_of variable_map 0
     = [(''A'', ''energy'', Fin 1), (''A'', ''raise_6s'', Fin (1 / 3)), (''A'', ''raise_reg'', Fin 1)]"
    "terms_of variable_map 1
     = [(''A'', ''energy'', Fin 1), (''A'', ''raise_6s'', Fin (- (1 / 3))),
        (''A'', ''lower_reg'', Fin (- 1))]"
    by (auto simp: example_market_counters example_trapezium_def upt_rec)
  moreover from this(3) have "length rows = 2" by (metis length_map length_Cons list.size(3) numeral_2_eq_2)
  then obtain a b where "rows = [a, b]"
    by (cases rows; cases "tl rows") auto
  ultimately show ?thesis by auto
qed

subsection \<open>Bands of volume zero\<close>

lemma stack_without_zero_bands:
  "filter (\<lambda>(u, sv, band, volume). volume \<noteq> 0) (stack_bids (without_zero_bands frame))
     = filter (\<lambda>(u, sv, band, volume). volume \<noteq> 0) (stack_bids frame)"
proof (induction frame)
  case Nil
  then show ?case by (simp add: stack_bids_def without_zero_bands_def)
next
  case (Cons row frame)
  have "filter (\<lambda>(u, sv, band, volume). volume \<noteq> 0)
          (map (\<lambda>(band, x). (u, sv, band, x)) (filter (\<lambda>(band, volume). volume \<noteq> 0) bands))
      = filter (\<lambda>(u, sv, band, volume). volume \<noteq> 0) (map (\<lambda>(band, x). (u, sv, band, x)) bands)"
    for u sv :: string and bands :: "(string \<times> real) list"
    by (induction bands) auto
  with Cons show ?case
    by (simp add: stack_bids_def without_zero_bands_def bid_service_def)
qed

lemma variable_bids_without_zero_bands:
  "nempy_variable_bids (without_zero_bands volume_bids) info n = nempy_variable_bids volume_bids info n"
  unfolding nempy_variable_bids_def stack_without_zero_bands ..

lemma check_without_zero_bands:
  "nempy_check s (SetUnitVolumeBids (without_zero_bands volume_bids))
     = nempy_check s (SetUnitVolumeBids volume_bids)"
proof -
  have "bid_keys (without_zero_bands volume_bids) = bid_keys volume_bids"
    by (simp add: bid_keys_def without_zero_bands_def bid_service_def comp_def)
  moreover have "all_units_have_info s (without_zero_bands volume_bids)
      = all_units_have_info s volume_bids"
    by (simp add: all_units_have_info_def without_zero_bands_def list_all_iff split: option.splits)
  ultimately show ?thesis by simp
qed

lemma variable_bids_ids:
  assumes "nempy_variable_bids volume_bids info n = Inr (bids, unit_level_map, regional_map)"
  shows "map variable_id bids =
    [n ..< n + length (filter (\<lambda>(u, sv, band, volume). volume \<noteq> 0) (stack_bids volume_bids))]"
proof -
  have "map variable_id (map bid_variable xs) = map snd xs" for xs
    by (simp add: bid_variable_def bare_variable_def split: prod.splits)
  with assms show ?thesis
    by (auto simp: nempy_variable_bids_def Let_def split: option.splits simp del: map_map)
qed

lemma py_max_upt: "py_max [n ..< n + k] = Inr t \<Longrightarrow> t + 1 = n + k"
proof -
  assume a: "py_max [n ..< n + k] = Inr t"
  from py_max_Inr[OF a] have "t \<in> set [n ..< n + k]" "\<forall>x \<in> set [n ..< n + k]. x \<le> t" by auto
  then show ?thesis
    by (cases k) (auto simp: less_Suc_eq_le dest!: bspec[where x="n + k - 1"])
qed

text \<open>
  Claim C6. The bands of volume zero do not count: \<^verbatim>\<open>set_unit_volume_bids\<close> does the same
  with and without them, and when it returns, the ids of the bid variables are the
  consecutive numbers from the counter, one for every band that is not zero, and the
  counter has advanced by the number of those bands.
\<close>

theorem zero_volume_bands_consume_no_id:
  "set_unit_volume_bids nempy s (without_zero_bands volume_bids)
     = set_unit_volume_bids nempy s volume_bids
   \<and> (\<forall>s'. set_unit_volume_bids nempy s volume_bids = Done s' \<longrightarrow>
         ids_at (decision_variables s') variable_id ''bids''
           = [next_variable_id s ..< next_variable_id s
                + length (filter (\<lambda>(u, sv, band, volume). volume \<noteq> 0) (stack_bids volume_bids))]
         \<and> next_variable_id s' = next_variable_id s
                + length (filter (\<lambda>(u, sv, band, volume). volume \<noteq> 0) (stack_bids volume_bids)))"
proof (intro conjI allI impI)
  show "set_unit_volume_bids nempy s (without_zero_bands volume_bids)
     = set_unit_volume_bids nempy s volume_bids"
    using variable_bids_without_zero_bands[of volume_bids "unit_info s" "next_variable_id s"]
      check_without_zero_bands[of s volume_bids]
    by (simp add: set_unit_volume_bids_def nempy_def)
next
  fix s'
  assume d: "set_unit_volume_bids nempy s volume_bids = Done s'"
  from checked_Done[OF d[unfolded set_unit_volume_bids_def]]
  obtain bids unit_level_map regional_map t where
    h: "nempy_variable_bids volume_bids (unit_info s) (next_variable_id s)
          = Inr (bids, unit_level_map, regional_map)"
    and m: "py_max (map variable_id bids) = Inr t"
    and dv: "decision_variables s' = (decision_variables s)(''bids'' \<mapsto> bids)"
    and nv: "next_variable_id s' = t + 1"
    by (auto simp: nempy_def Let_def split: sum.splits prod.splits)
  note ids = variable_bids_ids[OF h]
  from m have t: "t + 1 = next_variable_id s
      + length (filter (\<lambda>(u, sv, band, volume). volume \<noteq> 0) (stack_bids volume_bids))"
    unfolding ids by (rule py_max_upt)
  show "ids_at (decision_variables s') variable_id ''bids''
           = [next_variable_id s ..< next_variable_id s
                + length (filter (\<lambda>(u, sv, band, volume). volume \<noteq> 0) (stack_bids volume_bids))]"
    by (simp add: ids_at_def dv ids)
  show "next_variable_id s' = next_variable_id s
                + length (filter (\<lambda>(u, sv, band, volume). volume \<noteq> 0) (stack_bids volume_bids))"
    using t by (simp add: nv)
qed

lemma example_bids_done:
  "set_unit_volume_bids nempy example_market example_volume_bids = Done example_bids_market"
  unfolding example_bids_market_def by (rule done_state) code_simp

lemma example_offered_bands:
  "length (filter (\<lambda>(u, sv, band, volume). volume \<noteq> 0) (stack_bids example_volume_bids)) = 5"
  by code_simp

theorem zero_volume_bands_witness:
  "set_unit_volume_bids nempy example_market (without_zero_bands example_volume_bids)
     = set_unit_volume_bids nempy example_market example_volume_bids
   \<and> length (stack_bids example_volume_bids) = 6
   \<and> ids_at (decision_variables example_bids_market) variable_id ''bids'' = [0, 1, 2, 3, 4]
   \<and> next_variable_id example_bids_market = 5"
proof -
  have "length (stack_bids example_volume_bids) = 6" by code_simp
  then show ?thesis
    using zero_volume_bands_consume_no_id[of example_market example_volume_bids]
      example_bids_done example_offered_bands
    by (simp add: example_market_counters upt_rec)
qed

subsection \<open>Costs and loss factors\<close>

lemma nempy_prices_as_costs: "prices_as_costs nempy"
  unfolding prices_as_costs_def
proof (intro allI impI ballI)
  fix bids price_bids costs c
  assume "objective_function_bids nempy bids price_bids = Inr costs" and c: "c \<in> set costs"
  then have "costs = map (\<lambda>(v, (u, sv, band, price)).
                 \<lparr> o_variable_id = variable_id v, o_unit = Some u, o_service = Some sv,
                   o_capacity_band = Some band, cost = Fin price \<rparr>)
            (merge_on (\<lambda>v. (v_unit v, v_service v, v_capacity_band v))
               (\<lambda>(u, sv, band, price). (Some u, Some sv, Some band))
               bids (stack_bids price_bids))"
    by (simp add: nempy_def nempy_objective_bids_def)
  with c obtain x where x: "x \<in> set (merge_on (\<lambda>v. (v_unit v, v_service v, v_capacity_band v))
               (\<lambda>(u, sv, band, price). (Some u, Some sv, Some band))
               bids (stack_bids price_bids))"
    and cx: "c = (case x of (v, (u, sv, band, price)) \<Rightarrow>
                 \<lparr> o_variable_id = variable_id v, o_unit = Some u, o_service = Some sv,
                   o_capacity_band = Some band, cost = Fin price \<rparr>)"
    by auto
  obtain v u sv band price where xe: "x = (v, u, sv, band, price)" by (rule prod_cases5)
  from x cx have "(u, sv, band, price) \<in> set (stack_bids price_bids)"
    "c = \<lparr> o_variable_id = variable_id v, o_unit = Some u, o_service = Some sv,
          o_capacity_band = Some band, cost = Fin price \<rparr>"
    unfolding xe set_merge_on by simp_all
  then show "\<exists>price. price_bid price_bids (o_unit c) (o_service c) (o_capacity_band c) price
      \<and> cost c = Fin price"
    unfolding price_bid_def list_ex_iff by force
qed

lemma nempy_divides_by_loss_factors: "divides_by_loss_factors nempy"
  unfolding divides_by_loss_factors_def
proof (intro allI impI ballI)
  fix costs info scaled c'
  assume a: "objective_function_scale_by_loss_factors nempy costs info = Inr scaled"
    and c': "c' \<in> set scaled"
  from a obtain factors where f: "ui_loss_factor info = Some factors"
    and "scaled = map (\<lambda>(c, (u, loss_factor)). c \<lparr> cost := np_div (cost c) (Fin loss_factor) \<rparr>)
                 (merge_on o_unit (\<lambda>ul. Some (fst ul)) costs (zip (ui_unit info) factors))"
    by (auto simp: nempy_def nempy_scale_by_loss_factors_def split: option.splits)
  with c' obtain x where x: "x \<in> set (merge_on o_unit (\<lambda>ul. Some (fst ul)) costs
        (zip (ui_unit info) factors))"
    and cx: "c' = (case x of (c, (u, loss_factor)) \<Rightarrow>
        c \<lparr> cost := np_div (cost c) (Fin loss_factor) \<rparr>)"
    by auto
  obtain c u loss_factor where xe: "x = (c, u, loss_factor)" by (rule prod_cases3)
  from x cx have "c \<in> set costs"
    "(u, loss_factor) \<in> set (zip (ui_unit info) factors)" "o_unit c = Some u"
    "c' = c \<lparr> cost := np_div (cost c) (Fin loss_factor) \<rparr>"
    unfolding xe set_merge_on by simp_all
  then show "\<exists>c \<in> set costs. \<exists>loss_factor. loss_factor_of info (o_unit c) loss_factor
      \<and> c' = c \<lparr> cost := np_div (cost c) (Fin loss_factor) \<rparr>"
    unfolding loss_factor_of_def list_ex_iff using f by force
qed

text \<open>
  Claim C7. When \<^verbatim>\<open>set_unit_price_bids\<close> returns, every row of the costs of the bids has
  the price bid for its unit, service and band as its cost when the unit information has
  no column \<^verbatim>\<open>loss_factor\<close>, and that price divided by the loss factor of the unit when
  it has the column; for a loss factor above zero this is the quotient of the two reals.
\<close>

theorem cost_is_price_over_loss_factor:
  assumes "prices_as_costs m" and "divides_by_loss_factors m"
    and "unit_info s = Some info"
    and "set_unit_price_bids m s price_bids = Done s'"
  shows "\<exists>costs. objective_function_components s' ''bids'' = Some costs
     \<and> (\<forall>c \<in> set costs. \<exists>price.
           price_bid price_bids (o_unit c) (o_service c) (o_capacity_band c) price
           \<and> (if ui_loss_factor info = None then cost c = Fin price
              else \<exists>loss_factor. loss_factor_of info (o_unit c) loss_factor
                     \<and> cost c = np_div (Fin price) (Fin loss_factor)
                     \<and> (0 < loss_factor \<longrightarrow> cost c = Fin (price / loss_factor))))"
proof -
  from checked_Done[OF assms(4)[unfolded set_unit_price_bids_def]] assms(3)
  obtain bids energy_objective_function scaled where
    o: "objective_function_bids m bids price_bids = Inr energy_objective_function"
    and sc: "(if ui_loss_factor info \<noteq> None
              then objective_function_scale_by_loss_factors m energy_objective_function info
              else Inr energy_objective_function) = Inr scaled"
    and s': "objective_function_components s' = (objective_function_components s)(''bids'' \<mapsto> scaled)"
    by (auto split: option.splits sum.splits)
  from assms(1) o have p: "\<And>c. c \<in> set energy_objective_function \<Longrightarrow> \<exists>price.
      price_bid price_bids (o_unit c) (o_service c) (o_capacity_band c) price \<and> cost c = Fin price"
    unfolding prices_as_costs_def by blast
  have "\<exists>price. price_bid price_bids (o_unit c) (o_service c) (o_capacity_band c) price
           \<and> (if ui_loss_factor info = None then cost c = Fin price
              else \<exists>loss_factor. loss_factor_of info (o_unit c) loss_factor
                     \<and> cost c = np_div (Fin price) (Fin loss_factor)
                     \<and> (0 < loss_factor \<longrightarrow> cost c = Fin (price / loss_factor)))"
    if c: "c \<in> set scaled" for c
  proof (cases "ui_loss_factor info")
    case None
    with sc c p show ?thesis by auto
  next
    case (Some factors)
    with sc have "objective_function_scale_by_loss_factors m energy_objective_function info
        = Inr scaled" by simp
    with assms(2) c obtain c0 loss_factor where c0: "c0 \<in> set energy_objective_function"
      "loss_factor_of info (o_unit c0) loss_factor"
      "c = c0 \<lparr> cost := np_div (cost c0) (Fin loss_factor) \<rparr>"
      unfolding divides_by_loss_factors_def by blast
    from p[OF c0(1)] obtain price where
      "price_bid price_bids (o_unit c0) (o_service c0) (o_capacity_band c0) price"
      "cost c0 = Fin price" by blast
    with c0 Some show ?thesis by (intro exI[of _ price]) auto
  qed
  with s' show ?thesis by simp
qed

lemma example_priced_done:
  "set_unit_price_bids nempy example_losses_market example_price_bids = Done example_priced_market"
  unfolding example_priced_market_def by (rule done_state) code_simp

lemma example_losses_info: "unit_info example_losses_market = Some
    (example_units_with_losses \<lparr> ui_dispatch_type := Some [''generator'', ''generator''] \<rparr>)"
  by (simp add: example_losses_market_def set_unit_volume_bids_def set_unit_info_def nempy_def
      checked_def state_of_def unit_info_after_call_def example_units_with_losses_def
      example_units_def Let_def split: sum.splits prod.splits option.splits)

lemma example_costs:
  "map cost (the (objective_function_components example_priced_market ''bids''))
     = [Fin (500 / 9), Fin (1000 / 9), Fin 100, Fin 130, Fin 150]"
  by code_simp

theorem cost_is_price_over_loss_factor_witness:
  "prices_as_costs nempy \<and> divides_by_loss_factors nempy
   \<and> ui_loss_factor (the (unit_info example_losses_market)) = Some [9 / 10, 1]
   \<and> map cost (the (objective_function_components example_priced_market ''bids''))
       = [Fin (500 / 9), Fin (1000 / 9), Fin 100, Fin 130, Fin 150]"
  using cost_is_price_over_loss_factor[OF nempy_prices_as_costs nempy_divides_by_loss_factors
      example_losses_info example_priced_done]
    nempy_prices_as_costs nempy_divides_by_loss_factors example_costs
  by (simp add: example_losses_info example_units_with_losses_def)

end
